theory Spec2Isabelle
  imports Main
begin

section \<open>Values, objects and the world the notebooks run in\<close>

text \<open>
  The notebooks are straight-line Python that calls into nibabel, dipy, FURY, pyAFQ and
  plotly. A Python value is a \<open>pyval\<close>. What a library computes internally (arrays of
  floating-point numbers, streamlines, rendered pixels) is kept symbolic: \<open>PSym f args\<close>
  stands for the result of the library function \<open>f\<close> on \<open>args\<close>, and \<open>PArr shp c\<close> for
  an n-dimensional array of shape \<open>shp\<close> with contents \<open>c\<close>. A floating-point literal is
  kept by its source text. Objects that the libraries mutate in place live in a heap and
  are passed around as references \<open>PRef\<close>.
\<close>

datatype pyval =
    PNone
  | PBool bool
  | PInt int
  | PFloat string
  | PStr string
  | PList "pyval list"
  | PTuple "pyval list"
  | PDict "(string \<times> pyval) list"
  | PRef nat
  | PArr "int list" pyval
  | PSym string "pyval list"

type_synonym kwargs = "(string \<times> pyval) list"

type_synonym extent = "int \<times> int \<times> int \<times> int \<times> int \<times> int"

datatype space = RASMM | VOX

text \<open>
  A C \<open>float\<close> held by a VTK object: \<open>Whole i\<close> is the float whose value is the integer
  \<open>i\<close> (every integer up to \<open>2 ^ 24\<close> in magnitude is a float); \<open>Clamped v\<close> is the float
  nearest to the Python number \<open>v\<close>, clamped to the range from 0 to the largest float, and
  is not computed.
\<close>

datatype cfloat = Whole int | Clamped pyval

datatype obj =
    Nifti pyval
  | Tractogram space pyval
  | Scene "nat list" pyval
  | LineActor pyval kwargs nat
  | Property pyval cfloat pyval
  | Slicer pyval "extent option"
  | Contour pyval kwargs
  | Panel "pyval list" "pyval list"
  | Pipeline kwargs

datatype fkind = PNG | HTML | CSV | NIFTI | TRK

datatype rng_state = Unseeded nat | Seeded int | Advanced rng_state

datatype event = Call string "pyval list" kwargs

datatype error = IndexError | AttributeError | FileNotFoundError | TypeError | OverflowError

record world =
  fs :: "string \<rightharpoonup> fkind \<times> pyval"
  heap :: "obj list"
  rng :: rng_state
  calls :: "event list"

definition emit :: "event \<Rightarrow> world \<Rightarrow> world" where
  "emit e w = w\<lparr>calls := calls w @ [e]\<rparr>"

definition alloc :: "obj \<Rightarrow> world \<Rightarrow> nat \<times> world" where
  "alloc ob w = (length (heap w), w\<lparr>heap := heap w @ [ob]\<rparr>)"

definition mutate :: "nat \<Rightarrow> (obj \<Rightarrow> obj) \<Rightarrow> world \<Rightarrow> world" where
  "mutate r f w = w\<lparr>heap := (heap w)[r := f (heap w ! r)]\<rparr>"

definition bind_err :: "error + 'a \<Rightarrow> ('a \<Rightarrow> error + 'b) \<Rightarrow> error + 'b" where
  "bind_err m f = (case m of Inl e \<Rightarrow> Inl e | Inr v \<Rightarrow> f v)"

section \<open>FURY actors, as the notebook helpers use them\<close>

text \<open>
  \<open>actor.line(sl, **kwargs)\<close> creates a line actor together with its VTK property object;
  what the library puts into the property is symbolic. \<open>GetProperty()\<close> hands out the
  actor's own property object (not a copy), and the two setters overwrite one field of it.
  A setter applied to an object of another class leaves it alone (Python would raise
  AttributeError there; the notebooks apply each method to an object of its class).

  \<open>vtkProperty::SetLineWidth\<close> takes a C \<open>float\<close> and clamps it to the range from 0 to
  the largest float. The Python wrapper converts the argument as \<open>float(v)\<close> does, to a
  double, and narrows it to a float: an \<open>int\<close> too large for a double
  (\<open>2 ^ 1024 - 2 ^ 970\<close> and beyond, in magnitude) raises OverflowError, a \<open>bool\<close> counts as
  0 or 1, an array converts only when it has exactly one element, and \<open>None\<close>, a string,
  a list, a tuple, a dict or an object of the libraries modelled here raises TypeError. A
  negative number is therefore stored as 0. An integer from 0 to \<open>2 ^ 24\<close> is stored
  exactly; what a larger integer, a floating-point number or a library result (taken to
  be a number) is rounded and clamped to is not computed.
\<close>

definition actor_line :: "pyval \<Rightarrow> kwargs \<Rightarrow> world \<Rightarrow> nat \<times> world" where
  "actor_line sl kw w0 =
     (let (p, w1) = alloc (Property (PSym ''actor.line.RenderLinesAsTubes'' [PDict kw])
                                    (Clamped (PSym ''actor.line.LineWidth'' [PDict kw]))
                                    (PSym ''actor.line.Property'' [PDict kw])) w0;
          (a, w2) = alloc (LineActor sl kw p) w1
      in (a, emit (Call ''actor.line'' [sl] kw) w2))"

fun property_of :: "obj \<Rightarrow> nat \<Rightarrow> nat" where
  "property_of (LineActor sl kw p) d = p"
| "property_of ob d = d"

definition GetProperty :: "nat \<Rightarrow> world \<Rightarrow> nat" where
  "GetProperty a w = property_of (heap w ! a) (length (heap w))"

fun set_tubes :: "pyval \<Rightarrow> obj \<Rightarrow> obj" where
  "set_tubes v (Property t lw rest) = Property v lw rest"
| "set_tubes v ob = ob"

fun line_width_of :: "pyval \<Rightarrow> error + cfloat" where
  "line_width_of (PInt i) =
     (if 2 ^ 1024 - 2 ^ 970 \<le> \<bar>i\<bar> then Inl OverflowError
      else if i < 0 then Inr (Whole 0)
      else if i \<le> 2 ^ 24 then Inr (Whole i)
      else Inr (Clamped (PInt i)))"
| "line_width_of (PBool b) = Inr (Whole (if b then 1 else 0))"
| "line_width_of (PFloat s) = Inr (Clamped (PFloat s))"
| "line_width_of (PArr shp c) =
     (if prod_list shp = 1 then Inr (Clamped (PArr shp c)) else Inl TypeError)"
| "line_width_of (PSym f args) = Inr (Clamped (PSym f args))"
| "line_width_of PNone = Inl TypeError"
| "line_width_of (PStr s) = Inl TypeError"
| "line_width_of (PList vs) = Inl TypeError"
| "line_width_of (PTuple vs) = Inl TypeError"
| "line_width_of (PDict kvs) = Inl TypeError"
| "line_width_of (PRef r) = Inl TypeError"

fun set_width :: "cfloat \<Rightarrow> obj \<Rightarrow> obj" where
  "set_width x (Property t lw rest) = Property t x rest"
| "set_width x ob = ob"

definition SetRenderLinesAsTubes :: "nat \<Rightarrow> pyval \<Rightarrow> world \<Rightarrow> world" where
  "SetRenderLinesAsTubes p v w =
     emit (Call ''SetRenderLinesAsTubes'' [PRef p, v] []) (mutate p (set_tubes v) w)"

definition SetLineWidth :: "nat \<Rightarrow> pyval \<Rightarrow> world \<Rightarrow> error + world" where
  "SetLineWidth p v w =
     bind_err (line_width_of v) (\<lambda>x.
       Inr (emit (Call ''SetLineWidth'' [PRef p, v] []) (mutate p (set_width x) w)))"

text \<open>
  \<^verbatim>\<open>
  def lines_as_tubes(sl, line_width, **kwargs):
      line_actor = actor.line(sl, **kwargs)
      line_actor.GetProperty().SetRenderLinesAsTubes(1)
      line_actor.GetProperty().SetLineWidth(line_width)
      return line_actor
  \<close>
\<close>

definition lines_as_tubes ::
  "pyval \<Rightarrow> pyval \<Rightarrow> kwargs \<Rightarrow> world \<Rightarrow> error + (nat \<times> world)" where
  "lines_as_tubes sl line_width kw w0 =
     (let (line_actor, w1) = actor_line sl kw w0;
          w2 = SetRenderLinesAsTubes (GetProperty line_actor w1) (PInt 1) w1
      in bind_err (SetLineWidth (GetProperty line_actor w2) line_width w2) (\<lambda>w3.
         Inr (line_actor, w3)))"

text \<open>
  \<open>actor.slicer(data)\<close> creates a slicer actor showing the library's default extent
  (\<open>None\<close> here); \<open>display_extent\<close> overwrites all six bounds; \<open>copy()\<close> returns a new
  actor object with the state of its receiver.
\<close>

definition actor_slicer :: "pyval \<Rightarrow> world \<Rightarrow> nat \<times> world" where
  "actor_slicer data w0 =
     (let (a, w1) = alloc (Slicer data None) w0
      in (a, emit (Call ''actor.slicer'' [data] []) w1))"

fun set_extent :: "extent \<Rightarrow> obj \<Rightarrow> obj" where
  "set_extent e (Slicer d old) = Slicer d (Some e)"
| "set_extent e ob = ob"

fun extent_args :: "extent \<Rightarrow> pyval list" where
  "extent_args (x1, x2, y1, y2, z1, z2) = map PInt [x1, x2, y1, y2, z1, z2]"

definition display_extent :: "nat \<Rightarrow> extent \<Rightarrow> world \<Rightarrow> world" where
  "display_extent a e w =
     emit (Call ''display_extent'' (PRef a # extent_args e) []) (mutate a (set_extent e) w)"

definition slicer_copy :: "nat \<Rightarrow> world \<Rightarrow> nat \<times> world" where
  "slicer_copy a w0 =
     (let (c, w1) = alloc (heap w0 ! a) w0
      in (c, emit (Call ''copy'' [PRef a] []) w1))"

text \<open>
  \<open>data.shape[i]\<close>: only an array has a shape (AttributeError otherwise), and indexing
  the shape tuple past its end raises IndexError.
\<close>

fun py_shape :: "pyval \<Rightarrow> error + int list" where
  "py_shape (PArr shp c) = Inr shp"
| "py_shape v = Inl AttributeError"

definition py_index :: "'a list \<Rightarrow> int \<Rightarrow> error + 'a" where
  "py_index xs i =
     (if 0 \<le> i \<and> i < int (length xs) then Inr (xs ! nat i)
      else if i < 0 \<and> - int (length xs) \<le> i then Inr (xs ! nat (int (length xs) + i))
      else Inl IndexError)"

definition shape_at :: "pyval \<Rightarrow> int \<Rightarrow> error + int" where
  "shape_at data i = bind_err (py_shape data) (\<lambda>shp. py_index shp i)"

text \<open>
  \<^verbatim>\<open>
  def slice_volume(data, x=None, y=None, z=None):
      slicer_actors = []
      slicer_actor_z = actor.slicer(data)
      if z is not None:
          slicer_actor_z.display_extent(
              0, data.shape[0] - 1,
              0, data.shape[1] - 1,
              z, z)
          slicer_actors.append(slicer_actor_z)
      if y is not None:
          slicer_actor_y = slicer_actor_z.copy()
          slicer_actor_y.display_extent(
              0, data.shape[0] - 1,
              y, y,
              0, data.shape[2] - 1)
          slicer_actors.append(slicer_actor_y)
      if x is not None:
          slicer_actor_x = slicer_actor_z.copy()
          slicer_actor_x.display_extent(
              x, x,
              0, data.shape[1] - 1,
              0, data.shape[2] - 1)
          slicer_actors.append(slicer_actor_x)

      return slicer_actors
  \<close>
  The arguments of \<open>display_extent\<close> are evaluated before the call, so a failing
  \<open>data.shape[i]\<close> ends the function before the actor is changed.
\<close>

definition slice_volume ::
  "pyval \<Rightarrow> int option \<Rightarrow> int option \<Rightarrow> int option \<Rightarrow> world \<Rightarrow> error + (nat list \<times> world)" where
  "slice_volume data x y z w0 =
     (let slicer_actors = [];
          (slicer_actor_z, w1) = actor_slicer data w0
      in
      bind_err
        (case z of
           None \<Rightarrow> Inr (slicer_actors, w1)
         | Some zv \<Rightarrow>
             bind_err (shape_at data 0) (\<lambda>s0.
             bind_err (shape_at data 1) (\<lambda>s1.
               Inr (slicer_actors @ [slicer_actor_z],
                    display_extent slicer_actor_z (0, s0 - 1, 0, s1 - 1, zv, zv) w1))))
        (\<lambda>(slicer_actors, w2).
      bind_err
        (case y of
           None \<Rightarrow> Inr (slicer_actors, w2)
         | Some yv \<Rightarrow>
             (let (slicer_actor_y, w3) = slicer_copy slicer_actor_z w2 in
              bind_err (shape_at data 0) (\<lambda>s0.
              bind_err (shape_at data 2) (\<lambda>s2.
                Inr (slicer_actors @ [slicer_actor_y],
                     display_extent slicer_actor_y (0, s0 - 1, yv, yv, 0, s2 - 1) w3)))))
        (\<lambda>(slicer_actors, w4).
      bind_err
        (case x of
           None \<Rightarrow> Inr (slicer_actors, w4)
         | Some xv \<Rightarrow>
             (let (slicer_actor_x, w5) = slicer_copy slicer_actor_z w4 in
              bind_err (shape_at data 1) (\<lambda>s1.
              bind_err (shape_at data 2) (\<lambda>s2.
                Inr (slicer_actors @ [slicer_actor_x],
                     display_extent slicer_actor_x (xv, xv, 0, s1 - 1, 0, s2 - 1) w5)))))
        (\<lambda>(slicer_actors, w6). Inr (slicer_actors, w6)))))"


section \<open>Paths and files\<close>

text \<open>
  \<open>os.path.join\<close> on POSIX: an absolute component discards what came before it, and a
  separator is inserted unless the path so far is empty or already ends in one. The disk
  is a map from paths to files, each with its kind and contents; directories are not
  modelled, and writing a file succeeds.
\<close>

definition join2 :: "string \<Rightarrow> string \<Rightarrow> string" where
  "join2 a b =
     (if b \<noteq> [] \<and> hd b = CHR ''/'' then b
      else if a = [] \<or> last a = CHR ''/'' then a @ b
      else a @ ''/'' @ b)"

definition op_join :: "string \<Rightarrow> string list \<Rightarrow> string" where
  "op_join a ps = foldl join2 a ps"

definition op_exists :: "string \<Rightarrow> world \<Rightarrow> bool" where
  "op_exists p w = (fs w p \<noteq> None)"

definition write_file :: "string \<Rightarrow> fkind \<Rightarrow> pyval \<Rightarrow> world \<Rightarrow> world" where
  "write_file p k c w = w\<lparr>fs := (fs w)(p \<mapsto> (k, c))\<rparr>"

definition write_files :: "(string \<times> fkind \<times> pyval) list \<Rightarrow> world \<Rightarrow> world" where
  "write_files fl w = foldl (\<lambda>w (p, k, c). write_file p k c w) w fl"

definition read_file :: "string \<Rightarrow> world \<Rightarrow> error + pyval" where
  "read_file p w = (case fs w p of None \<Rightarrow> Inl FileNotFoundError | Some (k, c) \<Rightarrow> Inr c)"

section \<open>The data fetchers of pyAFQ\<close>

text \<open>
  Where the fetchers keep their data, and what the T1-weighted volume of a subject looks
  like, is outside the notebooks: \<open>afq_data\<close> collects it. A fetcher leaves the files of
  the requested subjects on disk and reports the study directory; the files listed are
  the ones the notebooks read back, and a download is taken to succeed.
\<close>

record afq_data =
  hbn_home :: string
  t1w_shape :: "string \<Rightarrow> int list"

definition hbn_stem :: "string \<Rightarrow> string" where
  "hbn_stem s = ''sub-'' @ s @ ''_ses-HBNsiteRU_acq-64dir_space-T1w_desc-preproc_dwi''"

definition hbn_t1w :: "afq_data \<Rightarrow> string \<Rightarrow> string" where
  "hbn_t1w lib s =
     op_join (hbn_home lib)
       [''derivatives'', ''qsiprep'', ''sub-'' @ s, ''anat'', ''sub-'' @ s @ ''_desc-preproc_T1w.nii.gz'']"

definition hbn_afq_dir :: "afq_data \<Rightarrow> string \<Rightarrow> string" where
  "hbn_afq_dir lib s = op_join (hbn_home lib) [''derivatives'', ''afq'', ''sub-'' @ s, ''ses-HBNsiteRU'']"

definition hbn_fa :: "afq_data \<Rightarrow> string \<Rightarrow> string" where
  "hbn_fa lib s = op_join (hbn_afq_dir lib s) [hbn_stem s @ ''_model-DKI_FA.nii.gz'']"

definition hbn_bundle :: "afq_data \<Rightarrow> string \<Rightarrow> string \<Rightarrow> string" where
  "hbn_bundle lib s b =
     op_join (hbn_afq_dir lib s)
       [''bundles'', hbn_stem s @ ''_space-RASMM_model-CSD_desc-prob-afq-'' @ b @ ''_tractography.trk'']"

definition hbn_roi :: "afq_data \<Rightarrow> string \<Rightarrow> string \<Rightarrow> string" where
  "hbn_roi lib s r =
     op_join (hbn_afq_dir lib s) [''ROIs'', hbn_stem s @ ''_desc-ROI-'' @ r @ ''-include.nii.gz'']"

definition hbn_preproc_files :: "afq_data \<Rightarrow> string \<Rightarrow> (string \<times> fkind \<times> pyval) list" where
  "hbn_preproc_files lib s =
     [(hbn_t1w lib s, NIFTI, PArr (t1w_shape lib s) (PSym ''T1w'' [PStr s]))]"

definition hbn_afq_files :: "afq_data \<Rightarrow> string \<Rightarrow> (string \<times> fkind \<times> pyval) list" where
  "hbn_afq_files lib s =
     [(hbn_fa lib s, NIFTI, PSym ''FA'' [PStr s]),
      (hbn_bundle lib s ''ARC_L'', TRK, PSym ''ARC_L'' [PStr s]),
      (hbn_bundle lib s ''CST_L'', TRK, PSym ''CST_L'' [PStr s]),
      (hbn_roi lib s ''ARC_L-1'', NIFTI, PSym ''ROI-ARC_L-1'' [PStr s]),
      (hbn_roi lib s ''ARC_L-2'', NIFTI, PSym ''ROI-ARC_L-2'' [PStr s])]"

definition fetch_hbn_preproc :: "string list \<Rightarrow> afq_data \<Rightarrow> world \<Rightarrow> (pyval \<times> string) \<times> world" where
  "fetch_hbn_preproc subjects lib w =
     ((PSym ''afd.fetch_hbn_preproc'' [PList (map PStr subjects)], hbn_home lib),
      emit (Call ''afd.fetch_hbn_preproc'' [PList (map PStr subjects)] [])
        (write_files (concat (map (hbn_preproc_files lib) subjects)) w))"

definition fetch_hbn_afq :: "string list \<Rightarrow> afq_data \<Rightarrow> world \<Rightarrow> (pyval \<times> string) \<times> world" where
  "fetch_hbn_afq subjects lib w =
     ((PSym ''afd.fetch_hbn_afq'' [PList (map PStr subjects)], hbn_home lib),
      emit (Call ''afd.fetch_hbn_afq'' [PList (map PStr subjects)] [])
        (write_files (concat (map (hbn_afq_files lib) subjects)) w))"

section \<open>nibabel and dipy\<close>

text \<open>
  \<open>nib.load\<close> and \<open>load_trk\<close> raise FileNotFoundError on a missing file. A loaded image
  holds the contents of its file. A stateful tractogram holds its streamlines and the
  coordinate space they are currently expressed in; \<open>load_trk\<close> delivers it in RASMM,
  \<open>to_rasmm()\<close> and \<open>to_vox()\<close> convert it in place, and \<open>.streamlines\<close> reads the
  coordinates in the current space.
\<close>

definition nib_load :: "string \<Rightarrow> world \<Rightarrow> error + (nat \<times> world)" where
  "nib_load p w0 =
     bind_err (read_file p w0) (\<lambda>c.
       let (r, w1) = alloc (Nifti c) w0
       in Inr (r, emit (Call ''nib.load'' [PStr p] []) w1))"

fun fdata_of :: "obj \<Rightarrow> pyval" where
  "fdata_of (Nifti c) = c"
| "fdata_of ob = PNone"

definition get_fdata :: "nat \<Rightarrow> world \<Rightarrow> pyval \<times> world" where
  "get_fdata r w = (fdata_of (heap w ! r), emit (Call ''get_fdata'' [PRef r] []) w)"

definition affine :: "nat \<Rightarrow> world \<Rightarrow> pyval" where
  "affine r w = PSym ''affine'' [fdata_of (heap w ! r)]"

definition load_trk :: "string \<Rightarrow> nat \<Rightarrow> world \<Rightarrow> error + (nat \<times> world)" where
  "load_trk p reference w0 =
     bind_err (read_file p w0) (\<lambda>c.
       let (r, w1) = alloc (Tractogram RASMM c) w0
       in Inr (r, emit (Call ''load_trk'' [PStr p, PRef reference] []) w1))"

fun set_space :: "space \<Rightarrow> obj \<Rightarrow> obj" where
  "set_space sp (Tractogram old c) = Tractogram sp c"
| "set_space sp ob = ob"

definition to_rasmm :: "nat \<Rightarrow> world \<Rightarrow> world" where
  "to_rasmm r w = emit (Call ''to_rasmm'' [PRef r] []) (mutate r (set_space RASMM) w)"

definition to_vox :: "nat \<Rightarrow> world \<Rightarrow> world" where
  "to_vox r w = emit (Call ''to_vox'' [PRef r] []) (mutate r (set_space VOX) w)"

fun space_name :: "space \<Rightarrow> string" where
  "space_name RASMM = ''rasmm''"
| "space_name VOX = ''vox''"

fun streamlines_of :: "obj \<Rightarrow> pyval" where
  "streamlines_of (Tractogram sp c) = PSym ''streamlines'' [c, PStr (space_name sp)]"
| "streamlines_of ob = PNone"

definition streamlines :: "nat \<Rightarrow> world \<Rightarrow> pyval" where
  "streamlines r w = streamlines_of (heap w ! r)"

definition np_linalg_inv :: "pyval \<Rightarrow> pyval" where
  "np_linalg_inv m = PSym ''np.linalg.inv'' [m]"

definition transform_streamlines :: "pyval \<Rightarrow> pyval \<Rightarrow> world \<Rightarrow> pyval \<times> world" where
  "transform_streamlines sl m w =
     (PSym ''transform_streamlines'' [sl, m], emit (Call ''transform_streamlines'' [sl, m] []) w)"

definition set_number_of_points :: "pyval \<Rightarrow> int \<Rightarrow> world \<Rightarrow> pyval \<times> world" where
  "set_number_of_points sl n w =
     (PSym ''set_number_of_points'' [sl, PInt n],
      emit (Call ''set_number_of_points'' [sl, PInt n] []) w)"

definition np_median_axis0 :: "pyval \<Rightarrow> pyval" where
  "np_median_axis0 v = PSym ''np.median'' [PSym ''np.asarray'' [v], PInt 0]"

definition afq_profile :: "pyval \<Rightarrow> pyval \<Rightarrow> kwargs \<Rightarrow> world \<Rightarrow> pyval \<times> world" where
  "afq_profile data sl kw w =
     (PSym ''afq_profile'' [data, sl, PDict kw], emit (Call ''afq_profile'' [data, sl] kw) w)"

definition resample :: "nat \<Rightarrow> nat \<Rightarrow> world \<Rightarrow> nat \<times> world" where
  "resample moving static w0 =
     (let (r, w1) = alloc (Nifti (PSym ''resample'' [fdata_of (heap w0 ! moving), fdata_of (heap w0 ! static)])) w0
      in (r, emit (Call ''resample'' [PRef moving, PRef static] []) w1))"


section \<open>FURY scenes and windows, and the panel figure of pyAFQ\<close>

text \<open>
  A scene holds the actors added to it, in order, and a camera. \<open>window.Scene()\<close> makes
  an empty one, \<open>add\<close> and \<open>clear\<close> change it in place, \<open>set_camera\<close> replaces the
  camera. \<open>window.record\<close> renders the scene and writes the picture to \<open>out_path\<close> as a
  PNG file. The event of a call lists the receiver of a method first, then the
  arguments in parameter order.
\<close>

definition window_Scene :: "world \<Rightarrow> nat \<times> world" where
  "window_Scene w0 =
     (let (s, w1) = alloc (Scene [] PNone) w0
      in (s, emit (Call ''window.Scene'' [] []) w1))"

fun with_actor :: "nat \<Rightarrow> obj \<Rightarrow> obj" where
  "with_actor a (Scene acts cam) = Scene (acts @ [a]) cam"
| "with_actor a ob = ob"

fun without_actors :: "obj \<Rightarrow> obj" where
  "without_actors (Scene acts cam) = Scene [] cam"
| "without_actors ob = ob"

fun with_camera :: "pyval \<Rightarrow> obj \<Rightarrow> obj" where
  "with_camera c (Scene acts cam) = Scene acts c"
| "with_camera c ob = ob"

definition scene_add :: "nat \<Rightarrow> nat \<Rightarrow> world \<Rightarrow> world" where
  "scene_add s a w = emit (Call ''add'' [PRef s, PRef a] []) (mutate s (with_actor a) w)"

definition scene_clear :: "nat \<Rightarrow> world \<Rightarrow> world" where
  "scene_clear s w = emit (Call ''clear'' [PRef s] []) (mutate s without_actors w)"

definition set_camera :: "nat \<Rightarrow> kwargs \<Rightarrow> world \<Rightarrow> world" where
  "set_camera s kw w = emit (Call ''set_camera'' [PRef s] kw) (mutate s (with_camera (PDict kw)) w)"

text \<open>The loop \<^verbatim>\<open>for slicer in slicers: scene.add(slicer)\<close>.\<close>

definition add_each :: "nat \<Rightarrow> nat list \<Rightarrow> world \<Rightarrow> world" where
  "add_each s slicers w = foldl (\<lambda>w slicer. scene_add s slicer w) w slicers"

fun rendering :: "obj \<Rightarrow> pyval \<Rightarrow> pyval" where
  "rendering (Scene acts cam) sz = PSym ''render'' [PList (map PRef acts), cam, sz]"
| "rendering ob sz = PNone"

definition window_record :: "nat \<Rightarrow> string \<Rightarrow> pyval \<Rightarrow> world \<Rightarrow> world" where
  "window_record s out_path sz w =
     emit (Call ''window.record'' [PRef s] [(''out_path'', PStr out_path), (''size'', sz)])
       (write_file out_path PNG (rendering (heap w ! s) sz) w)"

definition contour_from_roi :: "pyval \<Rightarrow> kwargs \<Rightarrow> world \<Rightarrow> nat \<times> world" where
  "contour_from_roi data kw w0 =
     (let (a, w1) = alloc (Contour data kw) w0
      in (a, emit (Call ''actor.contour_from_roi'' [data] kw) w1))"

definition create_colormap :: "pyval \<Rightarrow> string \<Rightarrow> world \<Rightarrow> pyval \<times> world" where
  "create_colormap v name w =
     (PSym ''create_colormap'' [v, PStr name], emit (Call ''create_colormap'' [v, PStr name] []) w)"

definition tab20_colors :: "int \<Rightarrow> pyval" where
  "tab20_colors i = PSym ''tab20.colors'' [PInt i]"

text \<open>
  \<open>PanelFigure(3, 2, 6, 9)\<close> starts an empty figure; \<open>add_img\<close> opens the image file
  (FileNotFoundError when it is missing) and places it; \<open>format_and_save_figure\<close>
  writes the assembled figure as a PNG file.
\<close>

definition PanelFigure :: "int \<Rightarrow> int \<Rightarrow> int \<Rightarrow> int \<Rightarrow> world \<Rightarrow> nat \<times> world" where
  "PanelFigure num_rows num_cols width height w0 =
     (let (r, w1) = alloc (Panel (map PInt [num_rows, num_cols, width, height]) []) w0
      in (r, emit (Call ''PanelFigure'' (map PInt [num_rows, num_cols, width, height]) []) w1))"

fun with_img :: "pyval \<Rightarrow> obj \<Rightarrow> obj" where
  "with_img i (Panel cfg imgs) = Panel cfg (imgs @ [i])"
| "with_img i ob = ob"

definition add_img :: "nat \<Rightarrow> string \<Rightarrow> int \<Rightarrow> int \<Rightarrow> world \<Rightarrow> error + world" where
  "add_img pf fname x_coord y_coord w =
     bind_err (read_file fname w) (\<lambda>c.
       Inr (emit (Call ''add_img'' [PRef pf, PStr fname, PInt x_coord, PInt y_coord] [])
              (mutate pf (with_img (PTuple [c, PInt x_coord, PInt y_coord])) w)))"

fun figure_of :: "obj \<Rightarrow> pyval" where
  "figure_of (Panel cfg imgs) = PSym ''figure'' [PList cfg, PList imgs]"
| "figure_of ob = PNone"

definition format_and_save_figure :: "nat \<Rightarrow> string \<Rightarrow> world \<Rightarrow> world" where
  "format_and_save_figure pf fname w =
     emit (Call ''format_and_save_figure'' [PRef pf, PStr fname] [])
       (write_file fname PNG (figure_of (heap w ! pf)) w)"

section \<open>The notebook on visualizing AFQ derivatives, cell by cell\<close>

text \<open>
  \<open>afq_home\<close> comes from the module \<open>paths\<close> and is a parameter. Each code cell is a
  function of the variables it reads; it returns the variables it assigns together with
  the new world. A cell in which a call may raise returns an \<open>error +\<close> result.
\<close>

text \<open>
  \<^verbatim>\<open>
  afd.fetch_hbn_preproc(["NDARAA948VFH"])
  study_path = afd.fetch_hbn_afq(["NDARAA948VFH"])[1]
  deriv_path = op.join(study_path, "derivatives")
  afq_path = op.join(deriv_path, 'afq', 'sub-NDARAA948VFH', 'ses-HBNsiteRU')
  bundle_path = op.join(afq_path, 'bundles')
  \<close>
\<close>

definition viz_fetch :: "afq_data \<Rightarrow> world \<Rightarrow> (string \<times> string \<times> string) \<times> world" where
  "viz_fetch lib w0 =
     (let (r0, w1) = fetch_hbn_preproc [''NDARAA948VFH''] lib w0;
          (r1, w2) = fetch_hbn_afq [''NDARAA948VFH''] lib w1;
          study_path = snd r1;
          deriv_path = op_join study_path [''derivatives''];
          afq_path = op_join deriv_path [''afq'', ''sub-NDARAA948VFH'', ''ses-HBNsiteRU''];
          bundle_path = op_join afq_path [''bundles'']
      in ((deriv_path, afq_path, bundle_path), w2))"

text \<open>
  \<^verbatim>\<open>
  fa_img = nib.load(op.join(afq_path, '..._desc-preproc_dwi_model-DKI_FA.nii.gz'))
  fa = fa_img.get_fdata()
  sft_arc = load_trk(op.join(bundle_path, '..._desc-prob-afq-ARC_L_tractography.trk'), fa_img)
  sft_cst = load_trk(op.join(bundle_path, '..._desc-prob-afq-CST_L_tractography.trk'), fa_img)
  \<close>
\<close>

definition viz_read :: "string \<Rightarrow> string \<Rightarrow> world \<Rightarrow> error + ((pyval \<times> nat \<times> nat) \<times> world)" where
  "viz_read afq_path bundle_path w0 =
     bind_err (nib_load (op_join afq_path
        [''sub-NDARAA948VFH_ses-HBNsiteRU_acq-64dir_space-T1w_desc-preproc_dwi_model-DKI_FA.nii.gz'']) w0)
       (\<lambda>(fa_img, w1).
     let (fa, w2) = get_fdata fa_img w1 in
     bind_err (load_trk (op_join bundle_path
        [''sub-NDARAA948VFH_ses-HBNsiteRU_acq-64dir_space-T1w_desc-preproc_dwi_space-RASMM_model-CSD_desc-prob-afq-ARC_L_tractography.trk''])
        fa_img w2)
       (\<lambda>(sft_arc, w3).
     bind_err (load_trk (op_join bundle_path
        [''sub-NDARAA948VFH_ses-HBNsiteRU_acq-64dir_space-T1w_desc-preproc_dwi_space-RASMM_model-CSD_desc-prob-afq-CST_L_tractography.trk''])
        fa_img w3)
       (\<lambda>(sft_cst, w4). Inr ((fa, sft_arc, sft_cst), w4))))"

text \<open>
  \<^verbatim>\<open>
  t1w_img = nib.load(op.join(deriv_path,
                 'qsiprep/sub-NDARAA948VFH/anat/sub-NDARAA948VFH_desc-preproc_T1w.nii.gz'))
  t1w = t1w_img.get_fdata()
  sft_arc.to_rasmm()
  sft_cst.to_rasmm()
  arc_t1w = transform_streamlines(sft_arc.streamlines, np.linalg.inv(t1w_img.affine))
  cst_t1w = transform_streamlines(sft_cst.streamlines, np.linalg.inv(t1w_img.affine))
  \<close>
\<close>

definition viz_transform ::
  "string \<Rightarrow> nat \<Rightarrow> nat \<Rightarrow> world \<Rightarrow> error + ((nat \<times> pyval \<times> pyval \<times> pyval) \<times> world)" where
  "viz_transform deriv_path sft_arc sft_cst w0 =
     bind_err (nib_load (op_join deriv_path
        [''qsiprep/sub-NDARAA948VFH/anat/sub-NDARAA948VFH_desc-preproc_T1w.nii.gz'']) w0)
       (\<lambda>(t1w_img, w1).
     let (t1w, w2) = get_fdata t1w_img w1;
         w3 = to_rasmm sft_arc w2;
         w4 = to_rasmm sft_cst w3;
         (arc_t1w, w5) = transform_streamlines (streamlines sft_arc w4) (np_linalg_inv (affine t1w_img w4)) w4;
         (cst_t1w, w6) = transform_streamlines (streamlines sft_cst w5) (np_linalg_inv (affine t1w_img w5)) w5
     in Inr ((t1w_img, t1w, arc_t1w, cst_t1w), w6))"

text \<open>
  \<^verbatim>\<open>
  arc_actor = lines_as_tubes(arc_t1w, 8)
  cst_actor = lines_as_tubes(cst_t1w, 8)
  \<close>
\<close>

definition viz_bundle_actors ::
  "pyval \<Rightarrow> pyval \<Rightarrow> world \<Rightarrow> error + ((nat \<times> nat) \<times> world)" where
  "viz_bundle_actors arc_t1w cst_t1w w0 =
     bind_err (lines_as_tubes arc_t1w (PInt 8) [] w0) (\<lambda>(arc_actor, w1).
     bind_err (lines_as_tubes cst_t1w (PInt 8) [] w1) (\<lambda>(cst_actor, w2).
       Inr ((arc_actor, cst_actor), w2)))"

text \<open>
  \<^verbatim>\<open>
  slicers = slice_volume(t1w, x=t1w.shape[0] // 2, z=t1w.shape[-1] // 3)
  \<close>
\<close>

definition viz_slicers :: "pyval \<Rightarrow> world \<Rightarrow> error + (nat list \<times> world)" where
  "viz_slicers t1w w0 =
     bind_err (shape_at t1w 0) (\<lambda>s0.
     bind_err (shape_at t1w (- 1)) (\<lambda>s2.
       slice_volume t1w (Some (s0 div 2)) None (Some (s2 div 3)) w0))"

text \<open>
  \<^verbatim>\<open>
  scene = window.Scene()

  scene.add(arc_actor)
  scene.add(cst_actor)
  for slicer in slicers:
      scene.add(slicer)
  \<close>
\<close>

definition viz_scene :: "nat \<Rightarrow> nat \<Rightarrow> nat list \<Rightarrow> world \<Rightarrow> nat \<times> world" where
  "viz_scene arc_actor cst_actor slicers w0 =
     (let (scene, w1) = window_Scene w0;
          w2 = scene_add scene arc_actor w1;
          w3 = scene_add scene cst_actor w2;
          w4 = add_each scene slicers w3
      in (scene, w4))"

text \<open>
  \<^verbatim>\<open>
  scene.set_camera(position=(238.04, 174.48, 143.04),
                   focal_point=(96.32, 110.34, 84.48),
                   view_up=(-0.33, -0.12, 0.94))
  \<close>
\<close>

definition viz_camera :: "nat \<Rightarrow> world \<Rightarrow> world" where
  "viz_camera scene w0 =
     set_camera scene
       [(''position'', PTuple [PFloat ''238.04'', PFloat ''174.48'', PFloat ''143.04'']),
        (''focal_point'', PTuple [PFloat ''96.32'', PFloat ''110.34'', PFloat ''84.48'']),
        (''view_up'', PTuple [PFloat ''-0.33'', PFloat ''-0.12'', PFloat ''0.94''])] w0"

text \<open>
  \<^verbatim>\<open>
  out_folder = op.join(afq_home, "viz_results")

  if not op.exists(op.join(out_folder, 'arc_cst1.png')):
      window.record(
          scene=scene,
          out_path=op.join(out_folder, 'arc_cst1.png'),
          size=(2400, 2400))
  \<close>
\<close>

definition viz_record1 :: "string \<Rightarrow> nat \<Rightarrow> world \<Rightarrow> string \<times> world" where
  "viz_record1 afq_home scene w0 =
     (let out_folder = op_join afq_home [''viz_results'']
      in (out_folder,
          if \<not> op_exists (op_join out_folder [''arc_cst1.png'']) w0
          then window_record scene (op_join out_folder [''arc_cst1.png''])
                 (PTuple [PInt 2400, PInt 2400]) w0
          else w0))"


text \<open>
  \<^verbatim>\<open>
  from matplotlib.cm import tab20
  color_arc = tab20.colors[18]
  color_cst = tab20.colors[2]

  arc_actor = lines_as_tubes(arc_t1w, 8, colors=color_arc)
  cst_actor = lines_as_tubes(cst_t1w, 8, colors=color_cst)

  scene.clear()

  scene.add(arc_actor)
  scene.add(cst_actor)
  for slicer in slicers:
      scene.add(slicer)

  if not op.exists(op.join(out_folder, 'arc_cst2.png')):
      window.record(
          scene=scene,
          out_path=op.join(out_folder, 'arc_cst2.png'),
          size=(2400, 2400))
  \<close>
\<close>

definition viz_colors ::
  "pyval \<Rightarrow> pyval \<Rightarrow> nat \<Rightarrow> nat list \<Rightarrow> string \<Rightarrow> world
     \<Rightarrow> error + ((pyval \<times> pyval) \<times> world)" where
  "viz_colors arc_t1w cst_t1w scene slicers out_folder w0 =
     (let color_arc = tab20_colors 18;
          color_cst = tab20_colors 2
      in
      bind_err (lines_as_tubes arc_t1w (PInt 8) [(''colors'', color_arc)] w0) (\<lambda>(arc_actor, w1).
      bind_err (lines_as_tubes cst_t1w (PInt 8) [(''colors'', color_cst)] w1) (\<lambda>(cst_actor, w2).
      let w3 = scene_clear scene w2;
          w4 = scene_add scene arc_actor w3;
          w5 = scene_add scene cst_actor w4;
          w6 = add_each scene slicers w5
      in Inr ((color_arc, color_cst),
              if \<not> op_exists (op_join out_folder [''arc_cst2.png'']) w6
              then window_record scene (op_join out_folder [''arc_cst2.png''])
                     (PTuple [PInt 2400, PInt 2400]) w6
              else w6))))"

text \<open>
  \<^verbatim>\<open>
  from dipy.tracking.streamline import set_number_of_points
  core_arc = np.median(np.asarray(set_number_of_points(arc_t1w, 100)), axis=0)
  core_cst = np.median(np.asarray(set_number_of_points(cst_t1w, 100)), axis=0)

  from dipy.stats.analysis import afq_profile
  sft_arc.to_vox()
  sft_cst.to_vox()
  arc_profile = afq_profile(fa, sft_arc.streamlines, affine=np.eye(4))
  cst_profile = afq_profile(fa, sft_cst.streamlines, affine=np.eye(4))

  core_arc_actor = lines_as_tubes(
      [core_arc],
      40,
      colors=create_colormap(arc_profile, 'viridis')
  )

  core_cst_actor = lines_as_tubes(
      [core_cst],
      40,
      colors=create_colormap(cst_profile, 'viridis')
  )

  scene.clear()

  arc_actor = lines_as_tubes(arc_t1w, 8, colors=color_arc, opacity=0.1)
  cst_actor = lines_as_tubes(cst_t1w, 8, colors=color_cst, opacity=0.1)

  scene.add(arc_actor)
  scene.add(cst_actor)
  for slicer in slicers:
      scene.add(slicer)
  scene.add(core_arc_actor)
  scene.add(core_cst_actor)

  if not op.exists(op.join(out_folder, 'arc_cst3.png')):
      window.record(
          scene=scene,
          out_path=op.join(out_folder, 'arc_cst3.png'),
          size=(2400, 2400))
  \<close>
\<close>

definition viz_profiles ::
  "pyval \<Rightarrow> pyval \<Rightarrow> pyval \<Rightarrow> nat \<Rightarrow> nat \<Rightarrow> pyval \<Rightarrow> pyval \<Rightarrow> nat \<Rightarrow> nat list \<Rightarrow> string \<Rightarrow> world
     \<Rightarrow> error + world" where
  "viz_profiles arc_t1w cst_t1w fa sft_arc sft_cst color_arc color_cst scene slicers out_folder w0 =
     (let (pts_arc, w1) = set_number_of_points arc_t1w 100 w0;
          core_arc = np_median_axis0 pts_arc;
          (pts_cst, w2) = set_number_of_points cst_t1w 100 w1;
          core_cst = np_median_axis0 pts_cst;
          w3 = to_vox sft_arc w2;
          w4 = to_vox sft_cst w3;
          (arc_profile, w5) = afq_profile fa (streamlines sft_arc w4) [(''affine'', PSym ''np.eye'' [PInt 4])] w4;
          (cst_profile, w6) = afq_profile fa (streamlines sft_cst w5) [(''affine'', PSym ''np.eye'' [PInt 4])] w5;
          (cmap_arc, w7) = create_colormap arc_profile ''viridis'' w6
      in
      bind_err (lines_as_tubes (PList [core_arc]) (PInt 40) [(''colors'', cmap_arc)] w7)
        (\<lambda>(core_arc_actor, w8).
      let (cmap_cst, w9) = create_colormap cst_profile ''viridis'' w8 in
      bind_err (lines_as_tubes (PList [core_cst]) (PInt 40) [(''colors'', cmap_cst)] w9)
        (\<lambda>(core_cst_actor, w10).
      let w11 = scene_clear scene w10 in
      bind_err (lines_as_tubes arc_t1w (PInt 8)
                  [(''colors'', color_arc), (''opacity'', PFloat ''0.1'')] w11)
        (\<lambda>(arc_actor, w12).
      bind_err (lines_as_tubes cst_t1w (PInt 8)
                  [(''colors'', color_cst), (''opacity'', PFloat ''0.1'')] w12)
        (\<lambda>(cst_actor, w13).
      let w14 = scene_add scene arc_actor w13;
          w15 = scene_add scene cst_actor w14;
          w16 = add_each scene slicers w15;
          w17 = scene_add scene core_arc_actor w16;
          w18 = scene_add scene core_cst_actor w17
      in Inr (if \<not> op_exists (op_join out_folder [''arc_cst3.png'']) w18
              then window_record scene (op_join out_folder [''arc_cst3.png''])
                     (PTuple [PInt 2400, PInt 2400]) w18
              else w18))))))"

text \<open>
  \<^verbatim>\<open>
  from dipy.align import resample

  waypoint1 = nib.load(
      op.join(
          afq_path,
          "ROIs", "..._desc-preproc_dwi_desc-ROI-ARC_L-1-include.nii.gz"))

  waypoint2 = nib.load(
      op.join(
          afq_path,
          "ROIs", "..._desc-preproc_dwi_desc-ROI-ARC_L-2-include.nii.gz"))

  waypoint1_xform = resample(waypoint1, t1w_img)
  waypoint2_xform = resample(waypoint2, t1w_img)
  waypoint1_data = waypoint1_xform.get_fdata() > 0
  waypoint2_data = waypoint2_xform.get_fdata() > 0

  scene.clear()

  arc_actor = lines_as_tubes(arc_t1w, 8, colors=color_arc)
  cst_actor = lines_as_tubes(cst_t1w, 8, colors=color_cst)

  scene.add(arc_actor)
  scene.add(cst_actor)
  for slicer in slicers:
      scene.add(slicer)

  surface_color = tab20.colors[0]

  waypoint1_actor = actor.contour_from_roi(waypoint1_data,
                                           color=surface_color,
                                           opacity=0.5)

  waypoint2_actor = actor.contour_from_roi(waypoint2_data,
                                           color=surface_color,
                                           opacity=0.5)

  scene.add(waypoint1_actor)
  scene.add(waypoint2_actor)

  if not op.exists(op.join(out_folder, 'arc_cst4.png')):
      window.record(
          scene,
          out_path=op.join(out_folder, 'arc_cst4.png'),
          size=(2400, 2400))
  \<close>
\<close>

definition viz_rois ::
  "string \<Rightarrow> nat \<Rightarrow> pyval \<Rightarrow> pyval \<Rightarrow> pyval \<Rightarrow> pyval \<Rightarrow> nat \<Rightarrow> nat list \<Rightarrow> string \<Rightarrow> world
     \<Rightarrow> error + world" where
  "viz_rois afq_path t1w_img arc_t1w cst_t1w color_arc color_cst scene slicers out_folder w0 =
     bind_err (nib_load (op_join afq_path [''ROIs'',
        ''sub-NDARAA948VFH_ses-HBNsiteRU_acq-64dir_space-T1w_desc-preproc_dwi_desc-ROI-ARC_L-1-include.nii.gz'']) w0)
       (\<lambda>(waypoint1, w1).
     bind_err (nib_load (op_join afq_path [''ROIs'',
        ''sub-NDARAA948VFH_ses-HBNsiteRU_acq-64dir_space-T1w_desc-preproc_dwi_desc-ROI-ARC_L-2-include.nii.gz'']) w1)
       (\<lambda>(waypoint2, w2).
     let (waypoint1_xform, w3) = resample waypoint1 t1w_img w2;
         (waypoint2_xform, w4) = resample waypoint2 t1w_img w3;
         (d1, w5) = get_fdata waypoint1_xform w4;
         waypoint1_data = PSym ''>'' [d1, PInt 0];
         (d2, w6) = get_fdata waypoint2_xform w5;
         waypoint2_data = PSym ''>'' [d2, PInt 0];
         w7 = scene_clear scene w6
     in
     bind_err (lines_as_tubes arc_t1w (PInt 8) [(''colors'', color_arc)] w7) (\<lambda>(arc_actor, w8).
     bind_err (lines_as_tubes cst_t1w (PInt 8) [(''colors'', color_cst)] w8) (\<lambda>(cst_actor, w9).
     let w10 = scene_add scene arc_actor w9;
         w11 = scene_add scene cst_actor w10;
         w12 = add_each scene slicers w11;
         surface_color = tab20_colors 0;
         (waypoint1_actor, w13) = contour_from_roi waypoint1_data
                                    [(''color'', surface_color), (''opacity'', PFloat ''0.5'')] w12;
         (waypoint2_actor, w14) = contour_from_roi waypoint2_data
                                    [(''color'', surface_color), (''opacity'', PFloat ''0.5'')] w13;
         w15 = scene_add scene waypoint1_actor w14;
         w16 = scene_add scene waypoint2_actor w15
     in Inr (if \<not> op_exists (op_join out_folder [''arc_cst4.png'']) w16
             then window_record scene (op_join out_folder [''arc_cst4.png''])
                    (PTuple [PInt 2400, PInt 2400]) w16
             else w16)))))"

text \<open>
  \<^verbatim>\<open>
  pf = PanelFigure(3, 2, 6, 9)
  pf.add_img(op.join(out_folder, 'arc_cst1.png'), 0, 0)
  pf.add_img(op.join(out_folder, 'arc_cst2.png'), 1, 0)
  pf.add_img(op.join(out_folder, 'arc_cst3.png'), 0, 1)
  pf.add_img(op.join(out_folder, 'arc_cst4.png'), 1, 1)
  if not op.exists(op.join(out_folder, 'arc_cst_fig.png')):
      pf.format_and_save_figure(op.join(out_folder, 'arc_cst_fig.png'))
  \<close>
\<close>

definition viz_figure :: "string \<Rightarrow> world \<Rightarrow> error + world" where
  "viz_figure out_folder w0 =
     (let (pf, w1) = PanelFigure 3 2 6 9 w0 in
      bind_err (add_img pf (op_join out_folder [''arc_cst1.png'']) 0 0 w1) (\<lambda>w2.
      bind_err (add_img pf (op_join out_folder [''arc_cst2.png'']) 1 0 w2) (\<lambda>w3.
      bind_err (add_img pf (op_join out_folder [''arc_cst3.png'']) 0 1 w3) (\<lambda>w4.
      bind_err (add_img pf (op_join out_folder [''arc_cst4.png'']) 1 1 w4) (\<lambda>w5.
        Inr (if \<not> op_exists (op_join out_folder [''arc_cst_fig.png'']) w5
             then format_and_save_figure pf (op_join out_folder [''arc_cst_fig.png'']) w5
             else w5))))))"

text \<open>
  The notebook runs its code cells in order; a raising cell ends the run. The cells up to
  the one that records the first figure are grouped, so that the state in which the first
  figure has been dealt with can be named.
\<close>

definition viz_first_figure ::
  "string \<Rightarrow> afq_data \<Rightarrow> world
     \<Rightarrow> error + ((string \<times> pyval \<times> nat \<times> nat \<times> nat \<times> pyval \<times> pyval \<times> nat list \<times> nat \<times> string) \<times> world)" where
  "viz_first_figure afq_home lib w0 =
     (let ((deriv_path, afq_path, bundle_path), w1) = viz_fetch lib w0 in
      bind_err (viz_read afq_path bundle_path w1) (\<lambda>((fa, sft_arc, sft_cst), w2).
      bind_err (viz_transform deriv_path sft_arc sft_cst w2) (\<lambda>((t1w_img, t1w, arc_t1w, cst_t1w), w3).
      bind_err (viz_bundle_actors arc_t1w cst_t1w w3) (\<lambda>((arc_actor, cst_actor), w4).
      bind_err (viz_slicers t1w w4) (\<lambda>(slicers, w5).
      let (scene, w6) = viz_scene arc_actor cst_actor slicers w5;
          w7 = viz_camera scene w6;
          (out_folder, w8) = viz_record1 afq_home scene w7
      in Inr ((afq_path, fa, sft_arc, sft_cst, t1w_img, arc_t1w, cst_t1w, slicers, scene, out_folder),
              w8))))))"

definition viz_notebook :: "string \<Rightarrow> afq_data \<Rightarrow> world \<Rightarrow> error + world" where
  "viz_notebook afq_home lib w0 =
     bind_err (viz_first_figure afq_home lib w0)
       (\<lambda>((afq_path, fa, sft_arc, sft_cst, t1w_img, arc_t1w, cst_t1w, slicers, scene, out_folder), w8).
      bind_err (viz_colors arc_t1w cst_t1w scene slicers out_folder w8)
        (\<lambda>((color_arc, color_cst), w9).
      bind_err (viz_profiles arc_t1w cst_t1w fa sft_arc sft_cst color_arc color_cst scene slicers
                  out_folder w9) (\<lambda>w10.
      bind_err (viz_rois afq_path t1w_img arc_t1w cst_t1w color_arc color_cst scene slicers
                  out_folder w10) (\<lambda>w11.
      viz_figure out_folder w11))))"

section \<open>NumPy's global generator and the pyAFQ pipeline\<close>

text \<open>
  \<open>np.random.seed(n)\<close> resets the global generator. The generator is kept free: a state
  is the seed it was given (or the entropy it started from) and the number of times it has
  been advanced, so that whatever is drawn is a function of the state and of nothing else.
  A \<open>GroupAFQ\<close> object holds its configuration. \<open>export\<close> runs the pipeline: its result is
  a function of the configuration and of the generator state it starts from, it is stored
  under \<open>output_dir\<close> (the tract profiles as a table, the bundle figure as an HTML page), and
  the generator is left advanced. \<open>group_montage\<close> stores a PNG picture under
  \<open>output_dir\<close> and returns the list of files written. The calls into pyAFQ are taken
  to succeed, and of the files a pipeline writes only the exported ones are listed.
\<close>

fun rng_val :: "rng_state \<Rightarrow> pyval" where
  "rng_val (Unseeded n) = PSym ''entropy'' [PInt (int n)]"
| "rng_val (Seeded k) = PSym ''seed'' [PInt k]"
| "rng_val (Advanced r) = PSym ''advanced'' [rng_val r]"

definition np_random_seed :: "int \<Rightarrow> world \<Rightarrow> world" where
  "np_random_seed n w = emit (Call ''np.random.seed'' [PInt n] []) (w\<lparr>rng := Seeded n\<rparr>)"

definition read_templates :: "kwargs \<Rightarrow> world \<Rightarrow> pyval \<times> world" where
  "read_templates kw w = (PSym ''afd.read_templates'' [PDict kw], emit (Call ''afd.read_templates'' [] kw) w)"

definition py_getitem :: "pyval \<Rightarrow> pyval \<Rightarrow> pyval" where
  "py_getitem v k = PSym ''getitem'' [v, k]"

definition BundleDict :: "pyval \<Rightarrow> world \<Rightarrow> pyval \<times> world" where
  "BundleDict d w = (PSym ''abd.BundleDict'' [d], emit (Call ''abd.BundleDict'' [d] []) w)"

definition reco_bd :: "int \<Rightarrow> world \<Rightarrow> pyval \<times> world" where
  "reco_bd n w = (PSym ''abd.reco_bd'' [PInt n], emit (Call ''abd.reco_bd'' [PInt n] []) w)"

definition ImageFile :: "kwargs \<Rightarrow> world \<Rightarrow> pyval \<times> world" where
  "ImageFile kw w = (PSym ''ImageFile'' [PDict kw], emit (Call ''ImageFile'' [] kw) w)"

definition RoiImage :: "world \<Rightarrow> pyval \<times> world" where
  "RoiImage w = (PSym ''RoiImage'' [], emit (Call ''RoiImage'' [] []) w)"

definition GroupAFQ :: "kwargs \<Rightarrow> world \<Rightarrow> nat \<times> world" where
  "GroupAFQ kw w0 =
     (let (r, w1) = alloc (Pipeline kw) w0
      in (r, emit (Call ''GroupAFQ'' [] kw) w1))"

fun config_of :: "obj \<Rightarrow> kwargs" where
  "config_of (Pipeline kw) = kw"
| "config_of ob = []"

definition output_dir_of :: "kwargs \<Rightarrow> string" where
  "output_dir_of kw = (case map_of kw ''output_dir'' of Some (PStr d) \<Rightarrow> d | _ \<Rightarrow> [])"

definition export_file :: "string \<Rightarrow> (string \<times> fkind) option" where
  "export_file what =
     (if what = ''profiles'' then Some (''profiles.csv'', CSV)
      else if what = ''all_bundles_figure'' then Some (''all_bundles_figure.html'', HTML)
      else None)"

definition export :: "nat \<Rightarrow> string \<Rightarrow> world \<Rightarrow> pyval \<times> world" where
  "export r what w =
     (let kw = config_of (heap w ! r);
          result = PSym ''export'' [PStr what, PDict kw, rng_val (rng w)];
          w1 = (case export_file what of
                  None \<Rightarrow> w
                | Some (name, k) \<Rightarrow> write_file (op_join (output_dir_of kw) [name]) k result w)
      in (result, emit (Call ''export'' [PRef r, PStr what] []) (w1\<lparr>rng := Advanced (rng w)\<rparr>)))"

definition group_montage :: "nat \<Rightarrow> pyval list \<Rightarrow> kwargs \<Rightarrow> world \<Rightarrow> string list \<times> world" where
  "group_montage r args kw w =
     (let cfg = config_of (heap w ! r);
          out = op_join (output_dir_of cfg) [''montage.png''];
          picture = PSym ''group_montage'' [PDict cfg, PList args, PDict kw, rng_val (rng w)]
      in ([out], emit (Call ''group_montage'' (PRef r # args) kw) (write_file out PNG picture w)))"

definition IPython_Image :: "kwargs \<Rightarrow> world \<Rightarrow> world" where
  "IPython_Image kw w = emit (Call ''Image'' [] kw) w"

definition plotly_io_show :: "pyval \<Rightarrow> world \<Rightarrow> world" where
  "plotly_io_show fig w = emit (Call ''plotly.io.show'' [fig] []) w"

section \<open>The notebook on adding the SLF bundles, cell by cell\<close>

text \<open>
  \<^verbatim>\<open>
  import os.path as op
  import plotly
  import numpy as np
  from IPython.display import Image

  from AFQ.api.group import GroupAFQ
  import AFQ.api.bundle_dict as abd
  import AFQ.data.fetch as afd
  from AFQ.definitions.image import ImageFile, RoiImage
  np.random.seed(1234)
  \<close>
\<close>

definition slf_imports :: "world \<Rightarrow> world" where
  "slf_imports w0 = np_random_seed 1234 w0"

text \<open>
  \<^verbatim>\<open>
  _, study_dir = afd.fetch_hbn_preproc(['NDARAA948VFH'])
  \<close>
\<close>

definition slf_fetch :: "afq_data \<Rightarrow> world \<Rightarrow> string \<times> world" where
  "slf_fetch lib w0 =
     (let (r, w1) = fetch_hbn_preproc [''NDARAA948VFH''] lib w0;
          study_dir = snd r
      in (study_dir, w1))"

text \<open>
  \<^verbatim>\<open>
  template_dir = op.join(afq_home, 'SLF_ROIs')
  templates_afq = afd.read_templates(as_img=False)

  bundles = abd.BundleDict({
      "L_SLF1": {
          "include": [template_dir + '/SFgL.nii.gz', template_dir + '/PaL.nii.gz'],
          "exclude": [templates_afq['SLFt_roi2_L']],
          "cross_midline": False,
          "mahal": {"clean_rounds": 20, "length_threshold": 4, "distance_threshold": 2}
      }
  })
  \<close>
\<close>

definition slf_bundles :: "string \<Rightarrow> world \<Rightarrow> pyval \<times> world" where
  "slf_bundles afq_home w0 =
     (let template_dir = op_join afq_home [''SLF_ROIs''];
          (templates_afq, w1) = read_templates [(''as_img'', PBool False)] w0
      in BundleDict (PDict
           [(''L_SLF1'', PDict
              [(''include'', PList [PStr (template_dir @ ''/SFgL.nii.gz''),
                                   PStr (template_dir @ ''/PaL.nii.gz'')]),
               (''exclude'', PList [py_getitem templates_afq (PStr ''SLFt_roi2_L'')]),
               (''cross_midline'', PBool False),
               (''mahal'', PDict [(''clean_rounds'', PInt 20), (''length_threshold'', PInt 4),
                                  (''distance_threshold'', PInt 2)])])]) w1)"

text \<open>
  \<^verbatim>\<open>
  brain_mask_definition = ImageFile(
      suffix="mask",
      filters={'desc': 'brain', 'space': 'T1w', 'scope': 'qsiprep'}
  )

  my_afq = GroupAFQ(
      bids_path=study_dir,
      preproc_pipeline="qsiprep",
      participant_labels=["NDARAA948VFH"],
      output_dir=op.join(study_dir, "derivatives", "afq_slf"),
      brain_mask_definition=brain_mask_definition,
      tracking_params={"n_seeds": 4, "directions": "prob", "odf_model": "CSD", "seed_mask": RoiImage()},
      segmentation_params={"parallel_segmentation": {"engine": "serial"}},
      bundle_info=bundles
  )

  my_afq.export("profiles")
  \<close>
\<close>

definition slf_pipeline :: "string \<Rightarrow> pyval \<Rightarrow> world \<Rightarrow> nat \<times> world" where
  "slf_pipeline study_dir bundles w0 =
     (let (brain_mask_definition, w1) =
            ImageFile [(''suffix'', PStr ''mask''),
                       (''filters'', PDict [(''desc'', PStr ''brain''), (''space'', PStr ''T1w''),
                                            (''scope'', PStr ''qsiprep'')])] w0;
          (seed_mask, w2) = RoiImage w1;
          (my_afq, w3) =
            GroupAFQ [(''bids_path'', PStr study_dir),
                      (''preproc_pipeline'', PStr ''qsiprep''),
                      (''participant_labels'', PList [PStr ''NDARAA948VFH'']),
                      (''output_dir'', PStr (op_join study_dir [''derivatives'', ''afq_slf''])),
                      (''brain_mask_definition'', brain_mask_definition),
                      (''tracking_params'', PDict [(''n_seeds'', PInt 4), (''directions'', PStr ''prob''),
                                                   (''odf_model'', PStr ''CSD''), (''seed_mask'', seed_mask)]),
                      (''segmentation_params'',
                         PDict [(''parallel_segmentation'', PDict [(''engine'', PStr ''serial'')])]),
                      (''bundle_info'', bundles)] w2;
          (profiles, w4) = export my_afq ''profiles'' w3
      in (my_afq, w4))"

text \<open>
  \<^verbatim>\<open>
  montage = my_afq.group_montage("L_SLF1", (3, 4), "Sagittal", "left", slice_pos=0.5)
  Image(filename=montage[0])
  \<close>
\<close>

definition slf_montage :: "nat \<Rightarrow> world \<Rightarrow> error + world" where
  "slf_montage my_afq w0 =
     (let (montage, w1) = group_montage my_afq
            [PStr ''L_SLF1'', PTuple [PInt 3, PInt 4], PStr ''Sagittal'', PStr ''left'']
            [(''slice_pos'', PFloat ''0.5'')] w0
      in bind_err (py_index montage 0) (\<lambda>m0.
           Inr (IPython_Image [(''filename'', PStr m0)] w1)))"

text \<open>
  \<^verbatim>\<open>
  bundle_html = my_afq.export("all_bundles_figure")
  plotly.io.show(bundle_html["NDARAA948VFH"][0])
  \<close>
\<close>

definition slf_interactive :: "nat \<Rightarrow> world \<Rightarrow> world" where
  "slf_interactive my_afq w0 =
     (let (bundle_html, w1) = export my_afq ''all_bundles_figure'' w0
      in plotly_io_show (py_getitem (py_getitem bundle_html (PStr ''NDARAA948VFH'')) (PInt 0)) w1)"

definition slf_notebook :: "string \<Rightarrow> afq_data \<Rightarrow> world \<Rightarrow> error + world" where
  "slf_notebook afq_home lib w0 =
     (let w1 = slf_imports w0;
          (study_dir, w2) = slf_fetch lib w1;
          (bundles, w3) = slf_bundles afq_home w2;
          (my_afq, w4) = slf_pipeline study_dir bundles w3
      in bind_err (slf_montage my_afq w4) (\<lambda>w5.
           Inr (slf_interactive my_afq w5)))"

section \<open>The notebook on RecoBundles, cell by cell\<close>

text \<open>
  \<^verbatim>\<open>
  myafq = GroupAFQ(
      output_dir=op.join(afq_home, 'stanford_hardi', 'derivatives',
                         'recobundles'),
      bids_path=op.join(afq_home, 'stanford_hardi'),
      # Set the algorithm to use RecoBundles for bundle recognition:
      bundle_info=abd.reco_bd(16),
      preproc_pipeline='vistasoft')

  myafq.export("profiles")
  \<close>
\<close>

definition reco_pipeline :: "string \<Rightarrow> world \<Rightarrow> nat \<times> world" where
  "reco_pipeline afq_home w0 =
     (let output_dir = op_join afq_home [''stanford_hardi'', ''derivatives'', ''recobundles''];
          bids_path = op_join afq_home [''stanford_hardi''];
          (bundle_info, w1) = reco_bd 16 w0;
          (myafq, w2) = GroupAFQ [(''output_dir'', PStr output_dir),
                                  (''bids_path'', PStr bids_path),
                                  (''bundle_info'', bundle_info),
                                  (''preproc_pipeline'', PStr ''vistasoft'')] w1;
          (profiles, w3) = export myafq ''profiles'' w2
      in (myafq, w3))"

text \<open>
  \<^verbatim>\<open>
  plotly.io.show(myafq.export("all_bundles_figure")["01"][0])
  \<close>
\<close>

definition reco_show :: "nat \<Rightarrow> world \<Rightarrow> world" where
  "reco_show myafq w0 =
     (let (fig, w1) = export myafq ''all_bundles_figure'' w0
      in plotly_io_show (py_getitem (py_getitem fig (PStr ''01'')) (PInt 0)) w1)"

definition reco_notebook :: "string \<Rightarrow> world \<Rightarrow> world" where
  "reco_notebook afq_home w0 =
     (let (myafq, w1) = reco_pipeline afq_home w0
      in reco_show myafq w1)"


section \<open>What is observed of a run\<close>

text \<open>
  The calls a run has added to the log, the name of a call, and the file a rendering or
  saving call writes (\<open>window.record\<close> names it by \<open>out_path\<close>,
  \<open>format_and_save_figure\<close> by its argument).
\<close>

definition new_calls :: "world \<Rightarrow> world \<Rightarrow> event list" where
  "new_calls w w' = drop (length (calls w)) (calls w')"

fun call_name :: "event \<Rightarrow> string" where
  "call_name (Call n args kw) = n"

fun path_arg :: "pyval option \<Rightarrow> string option" where
  "path_arg (Some (PStr p)) = Some p"
| "path_arg v = None"

fun figure_path :: "event \<Rightarrow> string option" where
  "figure_path (Call n args kw) =
     (if n = ''window.record'' then path_arg (map_of kw ''out_path'')
      else if n = ''format_and_save_figure'' then path_arg (if length args = 2 then Some (args ! 1) else None)
      else None)"

definition figures_written :: "event list \<Rightarrow> string list" where
  "figures_written evs = List.map_filter figure_path evs"

definition viz_outputs :: "string \<Rightarrow> string list" where
  "viz_outputs afq_home =
     map (\<lambda>n. op_join (op_join afq_home [''viz_results'']) [n])
       [''arc_cst1.png'', ''arc_cst2.png'', ''arc_cst3.png'', ''arc_cst4.png'', ''arc_cst_fig.png'']"

text \<open>
  The names of the calls the visualization notebook makes, given for each of its five
  figures whether the file is already there; and the names of the calls of the other two
  notebooks.
\<close>

definition unless :: "bool \<Rightarrow> 'a list \<Rightarrow> 'a list" where
  "unless b xs = (if b then [] else xs)"

definition tube_names :: "string list" where
  "tube_names = [''actor.line'', ''SetRenderLinesAsTubes'', ''SetLineWidth'']"

definition viz_first_names :: "bool \<Rightarrow> string list" where
  "viz_first_names e1 =
     [''afd.fetch_hbn_preproc'', ''afd.fetch_hbn_afq'',
      ''nib.load'', ''get_fdata'', ''load_trk'', ''load_trk'',
      ''nib.load'', ''get_fdata'', ''to_rasmm'', ''to_rasmm'',
      ''transform_streamlines'', ''transform_streamlines'']
     @ tube_names @ tube_names
     @ [''actor.slicer'', ''display_extent'', ''copy'', ''display_extent'',
        ''window.Scene'', ''add'', ''add'', ''add'', ''add'',
        ''set_camera'']
     @ unless e1 [''window.record'']"

definition viz_later_names :: "bool \<Rightarrow> bool \<Rightarrow> bool \<Rightarrow> bool \<Rightarrow> string list" where
  "viz_later_names e2 e3 e4 e5 =
     tube_names @ tube_names
     @ [''clear'', ''add'', ''add'', ''add'', ''add'']
     @ unless e2 [''window.record'']
     @ [''set_number_of_points'', ''set_number_of_points'', ''to_vox'', ''to_vox'',
        ''afq_profile'', ''afq_profile'', ''create_colormap'']
     @ tube_names @ [''create_colormap''] @ tube_names
     @ [''clear'']
     @ tube_names @ tube_names
     @ [''add'', ''add'', ''add'', ''add'', ''add'', ''add'']
     @ unless e3 [''window.record'']
     @ [''nib.load'', ''nib.load'', ''resample'', ''resample'', ''get_fdata'', ''get_fdata'',
        ''clear'']
     @ tube_names @ tube_names
     @ [''add'', ''add'', ''add'', ''add'',
        ''actor.contour_from_roi'', ''actor.contour_from_roi'', ''add'', ''add'']
     @ unless e4 [''window.record'']
     @ [''PanelFigure'', ''add_img'', ''add_img'', ''add_img'', ''add_img'']
     @ unless e5 [''format_and_save_figure'']"

definition slf_names :: "string list" where
  "slf_names =
     [''np.random.seed'', ''afd.fetch_hbn_preproc'', ''afd.read_templates'', ''abd.BundleDict'',
      ''ImageFile'', ''RoiImage'', ''GroupAFQ'', ''export'', ''group_montage'', ''Image'',
      ''export'', ''plotly.io.show'']"

definition reco_names :: "string list" where
  "reco_names = [''abd.reco_bd'', ''GroupAFQ'', ''export'', ''export'', ''plotly.io.show'']"

text \<open>
  A notebook fetches before it works on data when the first call it makes, the seeding
  of the random number generator apart, is a call of a fetcher.
\<close>

definition is_fetch :: "string \<Rightarrow> bool" where
  "is_fetch n = (n = ''afd.fetch_hbn_preproc'' \<or> n = ''afd.fetch_hbn_afq'')"

definition fetches_first :: "string list \<Rightarrow> bool" where
  "fetches_first ns =
     (case filter (\<lambda>n. n \<noteq> ''np.random.seed'') ns of [] \<Rightarrow> False | n # rest \<Rightarrow> is_fetch n)"





text \<open>
  A value carries a parallelism option when a dictionary in it has one of the keys by
  which pyAFQ is told how to parallelize; results computed by a library and arrays carry
  none. A call controls parallelism when one of its arguments carries such an option.
\<close>

definition parallel_key :: "string \<Rightarrow> bool" where
  "parallel_key k = (k = ''parallel_segmentation'' \<or> k = ''engine'' \<or> k = ''n_jobs'')"

fun parallel_opt :: "pyval \<Rightarrow> bool"
  and parallel_opts :: "pyval list \<Rightarrow> bool"
  and parallel_items :: "(string \<times> pyval) list \<Rightarrow> bool" where
  "parallel_opt (PDict kvs) = parallel_items kvs"
| "parallel_opt (PList vs) = parallel_opts vs"
| "parallel_opt (PTuple vs) = parallel_opts vs"
| "parallel_opt PNone = False"
| "parallel_opt (PBool b) = False"
| "parallel_opt (PInt i) = False"
| "parallel_opt (PFloat f) = False"
| "parallel_opt (PStr s) = False"
| "parallel_opt (PRef r) = False"
| "parallel_opt (PArr shp c) = False"
| "parallel_opt (PSym f args) = False"
| "parallel_opts [] = False"
| "parallel_opts (v # vs) = (parallel_opt v \<or> parallel_opts vs)"
| "parallel_items [] = False"
| "parallel_items ((k, v) # kvs) = (parallel_key k \<or> parallel_opt v \<or> parallel_items kvs)"

fun controls_parallelism :: "event \<Rightarrow> bool" where
  "controls_parallelism (Call n args kw) = (parallel_opts args \<or> parallel_items kw)"

text \<open>
  The parallelism settings a run passes: for each call that controls parallelism, its name
  and what it passes as \<open>segmentation_params\<close>.
\<close>

fun setting_of :: "event \<Rightarrow> string \<times> pyval option" where
  "setting_of (Call n args kw) = (n, map_of kw ''segmentation_params'')"

definition parallel_settings :: "event list \<Rightarrow> (string \<times> pyval option) list" where
  "parallel_settings evs = map setting_of (filter controls_parallelism evs)"

text \<open>Whether an object is a NIfTI image, and whether a step keeps the images it found.\<close>

fun is_nifti :: "obj \<Rightarrow> bool" where
  "is_nifti (Nifti c) = True"
| "is_nifti ob = False"

definition images_kept :: "world \<Rightarrow> world \<Rightarrow> bool" where
  "images_kept w w' =
     (length (heap w) \<le> length (heap w') \<and>
      (\<forall>a < length (heap w). is_nifti (heap w ! a) \<longrightarrow> heap w' ! a = heap w ! a))"

text \<open>
  Auxiliary notions for the proofs: the world a computation ends in when it returns, and
  whether a computation started in \<open>w\<close> keeps the images of \<open>w\<close>.
\<close>

definition fin_w :: "world \<Rightarrow> world option" where
  "fin_w x = Some x"

definition fin_p :: "'a \<times> world \<Rightarrow> world option" where
  "fin_p p = Some (snd p)"

definition fin_e :: "error + world \<Rightarrow> world option" where
  "fin_e m = (case m of Inl e \<Rightarrow> None | Inr x \<Rightarrow> Some x)"

definition fin_ep :: "error + 'a \<times> world \<Rightarrow> world option" where
  "fin_ep m = (case m of Inl e \<Rightarrow> None | Inr p \<Rightarrow> Some (snd p))"

definition kp :: "('r \<Rightarrow> world option) \<Rightarrow> world \<Rightarrow> 'r \<Rightarrow> bool" where
  "kp g w r = (case g r of None \<Rightarrow> True | Some w' \<Rightarrow> images_kept w w')"


text \<open>Auxiliary notions for the proofs: what a write guarded by an existence check leaves.\<close>

definition kept_or :: "'a option \<Rightarrow> 'a \<Rightarrow> 'a option" where
  "kept_or m v = (case m of None \<Rightarrow> Some v | Some f \<Rightarrow> Some f)"

definition out_path :: "string \<Rightarrow> string \<Rightarrow> string" where
  "out_path afq_home n = op_join (op_join afq_home [''viz_results'']) [n]"

definition with_hbn :: "afq_data \<Rightarrow> (string \<rightharpoonup> fkind \<times> pyval) \<Rightarrow> (string \<rightharpoonup> fkind \<times> pyval)" where
  "with_hbn lib F =
     F(hbn_t1w lib ''NDARAA948VFH'' \<mapsto>
         (NIFTI, PArr (t1w_shape lib ''NDARAA948VFH'') (PSym ''T1w'' [PStr ''NDARAA948VFH''])),
       hbn_fa lib ''NDARAA948VFH'' \<mapsto> (NIFTI, PSym ''FA'' [PStr ''NDARAA948VFH'']),
       hbn_bundle lib ''NDARAA948VFH'' ''ARC_L'' \<mapsto> (TRK, PSym ''ARC_L'' [PStr ''NDARAA948VFH'']),
       hbn_bundle lib ''NDARAA948VFH'' ''CST_L'' \<mapsto> (TRK, PSym ''CST_L'' [PStr ''NDARAA948VFH'']),
       hbn_roi lib ''NDARAA948VFH'' ''ARC_L-1'' \<mapsto> (NIFTI, PSym ''ROI-ARC_L-1'' [PStr ''NDARAA948VFH'']),
       hbn_roi lib ''NDARAA948VFH'' ''ARC_L-2'' \<mapsto> (NIFTI, PSym ''ROI-ARC_L-2'' [PStr ''NDARAA948VFH'']))"

definition rendered :: "nat \<Rightarrow> pyval \<Rightarrow> world \<Rightarrow> pyval" where
  "rendered s sz w = rendering (heap w ! s) sz"

definition assembled :: "nat \<Rightarrow> world \<Rightarrow> pyval" where
  "assembled pf w = figure_of (heap w ! pf)"

definition observed :: "world \<Rightarrow> world \<Rightarrow> string list \<Rightarrow> string list \<Rightarrow> (string \<rightharpoonup> fkind \<times> pyval) \<Rightarrow> bool" where
  "observed w w' ns ps F =
     ((\<exists>evs. calls w' = calls w @ evs \<and> map call_name evs = ns \<and> figures_written evs = ps \<and>
             \<not> list_ex controls_parallelism evs) \<and>
      rng w' = rng w \<and> fs w' = F)"

text \<open>
  A concrete starting point for examples: a freshly started kernel on an empty disk, and a
  data set whose T1-weighted volume has 200 x 240 x 180 voxels.
\<close>

definition fresh_kernel :: world where
  "fresh_kernel = \<lparr>fs = Map.empty, heap = [], rng = Unseeded 0, calls = []\<rparr>"

definition sample_data :: afq_data where
  "sample_data = \<lparr>hbn_home = ''/data/HBN'', t1w_shape = (\<lambda>s. [200, 240, 180])\<rparr>"

section \<open>Basic facts about the world\<close>

lemma emit_fields:
  "heap (emit e w) = heap w" "fs (emit e w) = fs w" "rng (emit e w) = rng w"
  "calls (emit e w) = calls w @ [e]"
  by (simp_all add: emit_def)

lemma mutate_fields:
  "heap (mutate r f w) = (heap w)[r := f (heap w ! r)]" "fs (mutate r f w) = fs w"
  "rng (mutate r f w) = rng w" "calls (mutate r f w) = calls w"
  by (simp_all add: mutate_def)

lemma whole_width: "0 \<le> i \<Longrightarrow> i \<le> 2 ^ 24 \<Longrightarrow> line_width_of (PInt i) = Inr (Whole i)"
  by simp

section \<open>The helper functions of the visualization notebook\<close>

text \<open>
  Claim C9, for a line width that is an integer from 0 to \<open>2 ^ 24\<close>.
  \<open>lines_as_tubes(sl, line_width, **kwargs)\<close> returns, and returns the very actor that
  \<open>actor.line(sl, **kwargs)\<close> produced; in the property object of that actor
  RenderLinesAsTubes is 1 and LineWidth is the float with the value of \<open>line_width\<close>, and
  the rest of the property is what \<open>actor.line\<close> put there; no other object, and nothing
  on disk, is touched.
\<close>

theorem lines_as_tubes_sets_two_properties:
  assumes "actor_line sl kw w = (a, w1)" and "0 \<le> i" and "i \<le> 2 ^ 24"
  shows "\<exists>w' p t0 l0 rest.
      lines_as_tubes sl (PInt i) kw w = Inr (a, w') \<and>
      heap w1 ! a = LineActor sl kw p \<and> heap w' ! a = LineActor sl kw p \<and>
      heap w1 ! p = Property t0 l0 rest \<and>
      heap w' ! p = Property (PInt 1) (Whole i) rest \<and>
      length (heap w') = length (heap w1) \<and>
      (\<forall>j. j \<noteq> p \<longrightarrow> heap w' ! j = heap w1 ! j) \<and>
      fs w' = fs w1 \<and> rng w' = rng w1 \<and>
      calls w' = calls w1 @ [Call ''SetRenderLinesAsTubes'' [PRef p, PInt 1] [],
                             Call ''SetLineWidth'' [PRef p, PInt i] []]"
proof -
  from assms(2,3) have "line_width_of (PInt i) = Inr (Whole i)"
    by (rule whole_width)
  with assms(1) show ?thesis
    by (auto simp add: lines_as_tubes_def actor_line_def alloc_def GetProperty_def
        SetRenderLinesAsTubes_def SetLineWidth_def bind_err_def emit_fields mutate_fields
        Let_def nth_append simp del: line_width_of.simps)
qed

theorem lines_as_tubes_sets_two_properties_witness:
  "actor_line (PStr ''sl'') [] fresh_kernel =
     (1, \<lparr>fs = Map.empty,
          heap = [Property (PSym ''actor.line.RenderLinesAsTubes'' [PDict []])
                           (Clamped (PSym ''actor.line.LineWidth'' [PDict []]))
                           (PSym ''actor.line.Property'' [PDict []]),
                  LineActor (PStr ''sl'') [] 0],
          rng = Unseeded 0, calls = [Call ''actor.line'' [PStr ''sl''] []]\<rparr>) \<and>
   (0::int) \<le> 8 \<and> (8::int) \<le> 2 ^ 24 \<and>
   (\<exists>w'. lines_as_tubes (PStr ''sl'') (PInt 8) [] fresh_kernel = Inr (1, w') \<and>
      heap w' = [Property (PInt 1) (Whole 8) (PSym ''actor.line.Property'' [PDict []]),
                 LineActor (PStr ''sl'') [] 0])"
proof -
  let ?w1 = "\<lparr>fs = Map.empty,
          heap = [Property (PSym ''actor.line.RenderLinesAsTubes'' [PDict []])
                           (Clamped (PSym ''actor.line.LineWidth'' [PDict []]))
                           (PSym ''actor.line.Property'' [PDict []]),
                  LineActor (PStr ''sl'') [] 0],
          rng = Unseeded 0, calls = [Call ''actor.line'' [PStr ''sl''] []]\<rparr>"
  have h: "actor_line (PStr ''sl'') [] fresh_kernel = (1, ?w1)"
    by (simp add: actor_line_def alloc_def emit_def fresh_kernel_def)
  have lo: "(0::int) \<le> 8" by simp
  have hi: "(8::int) \<le> 2 ^ 24" by simp
  from lines_as_tubes_sets_two_properties [OF h lo hi]
  obtain w' p t0 l0 rest where r:
    "lines_as_tubes (PStr ''sl'') (PInt 8) [] fresh_kernel = Inr (1, w')"
    "heap ?w1 ! 1 = LineActor (PStr ''sl'') [] p"
    "heap ?w1 ! p = Property t0 l0 rest"
    "heap w' ! p = Property (PInt 1) (Whole 8) rest"
    "length (heap w') = length (heap ?w1)"
    "\<forall>j. j \<noteq> p \<longrightarrow> heap w' ! j = heap ?w1 ! j"
    by blast
  from r(2) have p: "p = 0" by simp
  from r(3) p have rest: "rest = PSym ''actor.line.Property'' [PDict []]" by simp
  from r(6) p have "heap w' ! 1 = LineActor (PStr ''sl'') [] 0" by simp
  moreover from r(4) p rest have "heap w' ! 0 = Property (PInt 1) (Whole 8) (PSym ''actor.line.Property'' [PDict []])"
    by simp
  moreover from r(5) have "length (heap w') = 2" by simp
  ultimately have "heap w' = [Property (PInt 1) (Whole 8) (PSym ''actor.line.Property'' [PDict []]),
                 LineActor (PStr ''sl'') [] 0]"
    by (intro nth_equalityI) (auto simp: less_Suc_eq numeral_2_eq_2)
  with h r(1) lo hi show ?thesis by blast
qed

text \<open>
  Outside that range the claim fails. A negative width is clamped: after
  \<open>lines_as_tubes(sl, -3)\<close> the LineWidth of the actor is 0, not -3. A width that is not a
  number makes \<open>SetLineWidth\<close> raise, so \<open>lines_as_tubes(sl, None)\<close> returns no actor.
\<close>

theorem lines_as_tubes_width_not_stored:
  "lines_as_tubes (PStr ''sl'') (PInt (- 3)) [] fresh_kernel =
     Inr (1, fresh_kernel\<lparr>
       heap := [Property (PInt 1) (Whole 0) (PSym ''actor.line.Property'' [PDict []]),
                LineActor (PStr ''sl'') [] 0],
       calls := [Call ''actor.line'' [PStr ''sl''] [],
                 Call ''SetRenderLinesAsTubes'' [PRef 0, PInt 1] [],
                 Call ''SetLineWidth'' [PRef 0, PInt (- 3)] []]\<rparr>) \<and>
   lines_as_tubes (PStr ''sl'') PNone [] fresh_kernel = Inl TypeError"
  by (simp add: lines_as_tubes_def actor_line_def alloc_def GetProperty_def
      SetRenderLinesAsTubes_def SetLineWidth_def bind_err_def emit_def mutate_def
      fresh_kernel_def Let_def)

text \<open>
  Claim C8. For a three-dimensional volume and any choice of \<open>x\<close>, \<open>y\<close>, \<open>z\<close>,
  \<open>slice_volume\<close> returns, in the order z, y, x, one new slicer actor for each argument
  that is not \<open>None\<close>; each shows the selected slice alone along its own axis and the full
  extent \<open>0 .. shape - 1\<close> along the other two; with all three \<open>None\<close> the list is empty.
  Objects that existed before are left as they were.
\<close>

theorem slice_volume_one_slicer_per_axis:
  assumes "data = PArr [nx, ny, nz] c"
  shows "\<exists>refs w'. slice_volume data x y z w = Inr (refs, w') \<and>
     map (\<lambda>r. heap w' ! r) refs =
       (case z of None \<Rightarrow> [] | Some k \<Rightarrow> [Slicer data (Some (0, nx - 1, 0, ny - 1, k, k))]) @
       (case y of None \<Rightarrow> [] | Some k \<Rightarrow> [Slicer data (Some (0, nx - 1, k, k, 0, nz - 1))]) @
       (case x of None \<Rightarrow> [] | Some k \<Rightarrow> [Slicer data (Some (k, k, 0, ny - 1, 0, nz - 1))]) \<and>
     distinct refs \<and>
     (x = None \<and> y = None \<and> z = None \<longrightarrow> refs = []) \<and>
     (\<forall>r \<in> set refs. length (heap w) \<le> r \<and> r < length (heap w')) \<and>
     take (length (heap w)) (heap w') = heap w"
  using assms
  by (cases x; cases y; cases z)
     (simp_all add: slice_volume_def actor_slicer_def slicer_copy_def display_extent_def alloc_def
      shape_at_def py_index_def bind_err_def emit_fields mutate_fields Let_def nth_append)

theorem slice_volume_one_slicer_per_axis_witness:
  "PArr [200, 240, 180] PNone = PArr [200, 240, 180] PNone \<and>
   (\<exists>refs w'. slice_volume (PArr [200, 240, 180] PNone) (Some 100) None (Some 60) fresh_kernel = Inr (refs, w') \<and>
      map (\<lambda>r. heap w' ! r) refs =
        [Slicer (PArr [200, 240, 180] PNone) (Some (0, 199, 0, 239, 60, 60)),
         Slicer (PArr [200, 240, 180] PNone) (Some (100, 100, 0, 239, 0, 179))])"
proof -
  have h: "PArr [200, 240, 180] PNone = PArr [200, 240, 180] PNone" by simp
  from slice_volume_one_slicer_per_axis [OF h, of "Some 100" None "Some 60" fresh_kernel]
  show ?thesis by auto
qed

section \<open>Paths\<close>

lemma join2_nonempty: "b \<noteq> [] \<Longrightarrow> join2 a b \<noteq> []"
  by (simp add: join2_def)

lemma last_join2: "b \<noteq> [] \<Longrightarrow> last (join2 a b) = last b"
  by (simp add: join2_def)

lemma join2_rel:
  "a \<noteq> [] \<Longrightarrow> last a \<noteq> CHR ''/'' \<Longrightarrow> b \<noteq> [] \<Longrightarrow> hd b \<noteq> CHR ''/'' \<Longrightarrow> join2 a b = a @ CHR ''/'' # b"
  by (simp add: join2_def)

lemma append_neq_last:
  "ys \<noteq> [] \<Longrightarrow> zs \<noteq> [] \<Longrightarrow> last ys \<noteq> last zs \<Longrightarrow> xs @ ys \<noteq> us @ zs"
  by (metis last_appendR)

lemmas path_norm = op_join_def hbn_t1w_def hbn_fa_def hbn_afq_dir_def hbn_bundle_def hbn_roi_def
  hbn_stem_def join2_rel join2_nonempty last_join2

text \<open>
  Every file of the subject lies under \<open>derivatives\<close> in the study directory, every figure
  under \<open>viz_results\<close> in \<open>afq_home\<close>; what follows the directory is a fixed string.
\<close>

lemma nf_t1w: "hbn_t1w lib ''NDARAA948VFH'' = join2 (hbn_home lib) ''derivatives'' @ ''/qsiprep/sub-NDARAA948VFH/anat/sub-NDARAA948VFH_desc-preproc_T1w.nii.gz''"
  by (simp add: path_norm)

lemma nf_fa: "hbn_fa lib ''NDARAA948VFH'' = join2 (hbn_home lib) ''derivatives'' @ ''/afq/sub-NDARAA948VFH/ses-HBNsiteRU/sub-NDARAA948VFH_ses-HBNsiteRU_acq-64dir_space-T1w_desc-preproc_dwi_model-DKI_FA.nii.gz''"
  by (simp add: path_norm)

lemma nf_arc: "hbn_bundle lib ''NDARAA948VFH'' ''ARC_L'' = join2 (hbn_home lib) ''derivatives'' @ ''/afq/sub-NDARAA948VFH/ses-HBNsiteRU/bundles/sub-NDARAA948VFH_ses-HBNsiteRU_acq-64dir_space-T1w_desc-preproc_dwi_space-RASMM_model-CSD_desc-prob-afq-ARC_L_tractography.trk''"
  by (simp add: path_norm)

lemma nf_cst: "hbn_bundle lib ''NDARAA948VFH'' ''CST_L'' = join2 (hbn_home lib) ''derivatives'' @ ''/afq/sub-NDARAA948VFH/ses-HBNsiteRU/bundles/sub-NDARAA948VFH_ses-HBNsiteRU_acq-64dir_space-T1w_desc-preproc_dwi_space-RASMM_model-CSD_desc-prob-afq-CST_L_tractography.trk''"
  by (simp add: path_norm)

lemma nf_roi1: "hbn_roi lib ''NDARAA948VFH'' ''ARC_L-1'' = join2 (hbn_home lib) ''derivatives'' @ ''/afq/sub-NDARAA948VFH/ses-HBNsiteRU/ROIs/sub-NDARAA948VFH_ses-HBNsiteRU_acq-64dir_space-T1w_desc-preproc_dwi_desc-ROI-ARC_L-1-include.nii.gz''"
  by (simp add: path_norm)

lemma nf_roi2: "hbn_roi lib ''NDARAA948VFH'' ''ARC_L-2'' = join2 (hbn_home lib) ''derivatives'' @ ''/afq/sub-NDARAA948VFH/ses-HBNsiteRU/ROIs/sub-NDARAA948VFH_ses-HBNsiteRU_acq-64dir_space-T1w_desc-preproc_dwi_desc-ROI-ARC_L-2-include.nii.gz''"
  by (simp add: path_norm)

lemma nf_out1: "op_join (op_join afq_home [''viz_results'']) [''arc_cst1.png''] = join2 afq_home ''viz_results'' @ ''/arc_cst1.png''"
  by (simp add: path_norm)

lemma nf_out2: "op_join (op_join afq_home [''viz_results'']) [''arc_cst2.png''] = join2 afq_home ''viz_results'' @ ''/arc_cst2.png''"
  by (simp add: path_norm)

lemma nf_out3: "op_join (op_join afq_home [''viz_results'']) [''arc_cst3.png''] = join2 afq_home ''viz_results'' @ ''/arc_cst3.png''"
  by (simp add: path_norm)

lemma nf_out4: "op_join (op_join afq_home [''viz_results'']) [''arc_cst4.png''] = join2 afq_home ''viz_results'' @ ''/arc_cst4.png''"
  by (simp add: path_norm)

lemma nf_out5: "op_join (op_join afq_home [''viz_results'']) [''arc_cst_fig.png''] = join2 afq_home ''viz_results'' @ ''/arc_cst_fig.png''"
  by (simp add: path_norm)

lemma last_t1w: "last ''/qsiprep/sub-NDARAA948VFH/anat/sub-NDARAA948VFH_desc-preproc_T1w.nii.gz'' = CHR ''z''"
  by simp

lemma last_fa: "last ''/afq/sub-NDARAA948VFH/ses-HBNsiteRU/sub-NDARAA948VFH_ses-HBNsiteRU_acq-64dir_space-T1w_desc-preproc_dwi_model-DKI_FA.nii.gz'' = CHR ''z''"
  by simp

lemma last_arc: "last ''/afq/sub-NDARAA948VFH/ses-HBNsiteRU/bundles/sub-NDARAA948VFH_ses-HBNsiteRU_acq-64dir_space-T1w_desc-preproc_dwi_space-RASMM_model-CSD_desc-prob-afq-ARC_L_tractography.trk'' = CHR ''k''"
  by simp

lemma last_cst: "last ''/afq/sub-NDARAA948VFH/ses-HBNsiteRU/bundles/sub-NDARAA948VFH_ses-HBNsiteRU_acq-64dir_space-T1w_desc-preproc_dwi_space-RASMM_model-CSD_desc-prob-afq-CST_L_tractography.trk'' = CHR ''k''"
  by simp

lemma last_roi1: "last ''/afq/sub-NDARAA948VFH/ses-HBNsiteRU/ROIs/sub-NDARAA948VFH_ses-HBNsiteRU_acq-64dir_space-T1w_desc-preproc_dwi_desc-ROI-ARC_L-1-include.nii.gz'' = CHR ''z''"
  by simp

lemma last_roi2: "last ''/afq/sub-NDARAA948VFH/ses-HBNsiteRU/ROIs/sub-NDARAA948VFH_ses-HBNsiteRU_acq-64dir_space-T1w_desc-preproc_dwi_desc-ROI-ARC_L-2-include.nii.gz'' = CHR ''z''"
  by simp

lemma last_out1: "last ''/arc_cst1.png'' = CHR ''g''"
  by simp

lemma last_out2: "last ''/arc_cst2.png'' = CHR ''g''"
  by simp

lemma last_out3: "last ''/arc_cst3.png'' = CHR ''g''"
  by simp

lemma last_out4: "last ''/arc_cst4.png'' = CHR ''g''"
  by simp

lemma last_out5: "last ''/arc_cst_fig.png'' = CHR ''g''"
  by simp

lemmas nf_paths = nf_t1w nf_fa nf_arc nf_cst nf_roi1 nf_roi2 nf_out1 nf_out2 nf_out3 nf_out4 nf_out5

lemmas last_paths = last_t1w last_fa last_arc last_cst last_roi1 last_roi2 last_out1 last_out2 last_out3 last_out4 last_out5

text \<open>The six files of the subject and the five figures are eleven different paths.\<close>

lemma paths_distinct:
  "(hbn_t1w lib ''NDARAA948VFH'' = hbn_fa lib ''NDARAA948VFH'') = False"
  "(hbn_t1w lib ''NDARAA948VFH'' = hbn_bundle lib ''NDARAA948VFH'' ''ARC_L'') = False"
  "(hbn_t1w lib ''NDARAA948VFH'' = hbn_bundle lib ''NDARAA948VFH'' ''CST_L'') = False"
  "(hbn_t1w lib ''NDARAA948VFH'' = hbn_roi lib ''NDARAA948VFH'' ''ARC_L-1'') = False"
  "(hbn_t1w lib ''NDARAA948VFH'' = hbn_roi lib ''NDARAA948VFH'' ''ARC_L-2'') = False"
  "(hbn_t1w lib ''NDARAA948VFH'' = op_join (op_join afq_home [''viz_results'']) [''arc_cst1.png'']) = False"
  "(hbn_t1w lib ''NDARAA948VFH'' = op_join (op_join afq_home [''viz_results'']) [''arc_cst2.png'']) = False"
  "(hbn_t1w lib ''NDARAA948VFH'' = op_join (op_join afq_home [''viz_results'']) [''arc_cst3.png'']) = False"
  "(hbn_t1w lib ''NDARAA948VFH'' = op_join (op_join afq_home [''viz_results'']) [''arc_cst4.png'']) = False"
  "(hbn_t1w lib ''NDARAA948VFH'' = op_join (op_join afq_home [''viz_results'']) [''arc_cst_fig.png'']) = False"
  "(hbn_fa lib ''NDARAA948VFH'' = hbn_t1w lib ''NDARAA948VFH'') = False"
  "(hbn_fa lib ''NDARAA948VFH'' = hbn_bundle lib ''NDARAA948VFH'' ''ARC_L'') = False"
  "(hbn_fa lib ''NDARAA948VFH'' = hbn_bundle lib ''NDARAA948VFH'' ''CST_L'') = False"
  "(hbn_fa lib ''NDARAA948VFH'' = hbn_roi lib ''NDARAA948VFH'' ''ARC_L-1'') = False"
  "(hbn_fa lib ''NDARAA948VFH'' = hbn_roi lib ''NDARAA948VFH'' ''ARC_L-2'') = False"
  "(hbn_fa lib ''NDARAA948VFH'' = op_join (op_join afq_home [''viz_results'']) [''arc_cst1.png'']) = False"
  "(hbn_fa lib ''NDARAA948VFH'' = op_join (op_join afq_home [''viz_results'']) [''arc_cst2.png'']) = False"
  "(hbn_fa lib ''NDARAA948VFH'' = op_join (op_join afq_home [''viz_results'']) [''arc_cst3.png'']) = False"
  "(hbn_fa lib ''NDARAA948VFH'' = op_join (op_join afq_home [''viz_results'']) [''arc_cst4.png'']) = False"
  "(hbn_fa lib ''NDARAA948VFH'' = op_join (op_join afq_home [''viz_results'']) [''arc_cst_fig.png'']) = False"
  "(hbn_bundle lib ''NDARAA948VFH'' ''ARC_L'' = hbn_t1w lib ''NDARAA948VFH'') = False"
  "(hbn_bundle lib ''NDARAA948VFH'' ''ARC_L'' = hbn_fa lib ''NDARAA948VFH'') = False"
  "(hbn_bundle lib ''NDARAA948VFH'' ''ARC_L'' = hbn_bundle lib ''NDARAA948VFH'' ''CST_L'') = False"
  "(hbn_bundle lib ''NDARAA948VFH'' ''ARC_L'' = hbn_roi lib ''NDARAA948VFH'' ''ARC_L-1'') = False"
  "(hbn_bundle lib ''NDARAA948VFH'' ''ARC_L'' = hbn_roi lib ''NDARAA948VFH'' ''ARC_L-2'') = False"
  "(hbn_bundle lib ''NDARAA948VFH'' ''ARC_L'' = op_join (op_join afq_home [''viz_results'']) [''arc_cst1.png'']) = False"
  "(hbn_bundle lib ''NDARAA948VFH'' ''ARC_L'' = op_join (op_join afq_home [''viz_results'']) [''arc_cst2.png'']) = False"
  "(hbn_bundle lib ''NDARAA948VFH'' ''ARC_L'' = op_join (op_join afq_home [''viz_results'']) [''arc_cst3.png'']) = False"
  "(hbn_bundle lib ''NDARAA948VFH'' ''ARC_L'' = op_join (op_join afq_home [''viz_results'']) [''arc_cst4.png'']) = False"
  "(hbn_bundle lib ''NDARAA948VFH'' ''ARC_L'' = op_join (op_join afq_home [''viz_results'']) [''arc_cst_fig.png'']) = False"
  "(hbn_bundle lib ''NDARAA948VFH'' ''CST_L'' = hbn_t1w lib ''NDARAA948VFH'') = False"
  "(hbn_bundle lib ''NDARAA948VFH'' ''CST_L'' = hbn_fa lib ''NDARAA948VFH'') = False"
  "(hbn_bundle lib ''NDARAA948VFH'' ''CST_L'' = hbn_bundle lib ''NDARAA948VFH'' ''ARC_L'') = False"
  "(hbn_bundle lib ''NDARAA948VFH'' ''CST_L'' = hbn_roi lib ''NDARAA948VFH'' ''ARC_L-1'') = False"
  "(hbn_bundle lib ''NDARAA948VFH'' ''CST_L'' = hbn_roi lib ''NDARAA948VFH'' ''ARC_L-2'') = False"
  "(hbn_bundle lib ''NDARAA948VFH'' ''CST_L'' = op_join (op_join afq_home [''viz_results'']) [''arc_cst1.png'']) = False"
  "(hbn_bundle lib ''NDARAA948VFH'' ''CST_L'' = op_join (op_join afq_home [''viz_results'']) [''arc_cst2.png'']) = False"
  "(hbn_bundle lib ''NDARAA948VFH'' ''CST_L'' = op_join (op_join afq_home [''viz_results'']) [''arc_cst3.png'']) = False"
  "(hbn_bundle lib ''NDARAA948VFH'' ''CST_L'' = op_join (op_join afq_home [''viz_results'']) [''arc_cst4.png'']) = False"
  "(hbn_bundle lib ''NDARAA948VFH'' ''CST_L'' = op_join (op_join afq_home [''viz_results'']) [''arc_cst_fig.png'']) = False"
  "(hbn_roi lib ''NDARAA948VFH'' ''ARC_L-1'' = hbn_t1w lib ''NDARAA948VFH'') = False"
  "(hbn_roi lib ''NDARAA948VFH'' ''ARC_L-1'' = hbn_fa lib ''NDARAA948VFH'') = False"
  "(hbn_roi lib ''NDARAA948VFH'' ''ARC_L-1'' = hbn_bundle lib ''NDARAA948VFH'' ''ARC_L'') = False"
  "(hbn_roi lib ''NDARAA948VFH'' ''ARC_L-1'' = hbn_bundle lib ''NDARAA948VFH'' ''CST_L'') = False"
  "(hbn_roi lib ''NDARAA948VFH'' ''ARC_L-1'' = hbn_roi lib ''NDARAA948VFH'' ''ARC_L-2'') = False"
  "(hbn_roi lib ''NDARAA948VFH'' ''ARC_L-1'' = op_join (op_join afq_home [''viz_results'']) [''arc_cst1.png'']) = False"
  "(hbn_roi lib ''NDARAA948VFH'' ''ARC_L-1'' = op_join (op_join afq_home [''viz_results'']) [''arc_cst2.png'']) = False"
  "(hbn_roi lib ''NDARAA948VFH'' ''ARC_L-1'' = op_join (op_join afq_home [''viz_results'']) [''arc_cst3.png'']) = False"
  "(hbn_roi lib ''NDARAA948VFH'' ''ARC_L-1'' = op_join (op_join afq_home [''viz_results'']) [''arc_cst4.png'']) = False"
  "(hbn_roi lib ''NDARAA948VFH'' ''ARC_L-1'' = op_join (op_join afq_home [''viz_results'']) [''arc_cst_fig.png'']) = False"
  "(hbn_roi lib ''NDARAA948VFH'' ''ARC_L-2'' = hbn_t1w lib ''NDARAA948VFH'') = False"
  "(hbn_roi lib ''NDARAA948VFH'' ''ARC_L-2'' = hbn_fa lib ''NDARAA948VFH'') = False"
  "(hbn_roi lib ''NDARAA948VFH'' ''ARC_L-2'' = hbn_bundle lib ''NDARAA948VFH'' ''ARC_L'') = False"
  "(hbn_roi lib ''NDARAA948VFH'' ''ARC_L-2'' = hbn_bundle lib ''NDARAA948VFH'' ''CST_L'') = False"
  "(hbn_roi lib ''NDARAA948VFH'' ''ARC_L-2'' = hbn_roi lib ''NDARAA948VFH'' ''ARC_L-1'') = False"
  "(hbn_roi lib ''NDARAA948VFH'' ''ARC_L-2'' = op_join (op_join afq_home [''viz_results'']) [''arc_cst1.png'']) = False"
  "(hbn_roi lib ''NDARAA948VFH'' ''ARC_L-2'' = op_join (op_join afq_home [''viz_results'']) [''arc_cst2.png'']) = False"
  "(hbn_roi lib ''NDARAA948VFH'' ''ARC_L-2'' = op_join (op_join afq_home [''viz_results'']) [''arc_cst3.png'']) = False"
  "(hbn_roi lib ''NDARAA948VFH'' ''ARC_L-2'' = op_join (op_join afq_home [''viz_results'']) [''arc_cst4.png'']) = False"
  "(hbn_roi lib ''NDARAA948VFH'' ''ARC_L-2'' = op_join (op_join afq_home [''viz_results'']) [''arc_cst_fig.png'']) = False"
  "(op_join (op_join afq_home [''viz_results'']) [''arc_cst1.png''] = hbn_t1w lib ''NDARAA948VFH'') = False"
  "(op_join (op_join afq_home [''viz_results'']) [''arc_cst1.png''] = hbn_fa lib ''NDARAA948VFH'') = False"
  "(op_join (op_join afq_home [''viz_results'']) [''arc_cst1.png''] = hbn_bundle lib ''NDARAA948VFH'' ''ARC_L'') = False"
  "(op_join (op_join afq_home [''viz_results'']) [''arc_cst1.png''] = hbn_bundle lib ''NDARAA948VFH'' ''CST_L'') = False"
  "(op_join (op_join afq_home [''viz_results'']) [''arc_cst1.png''] = hbn_roi lib ''NDARAA948VFH'' ''ARC_L-1'') = False"
  "(op_join (op_join afq_home [''viz_results'']) [''arc_cst1.png''] = hbn_roi lib ''NDARAA948VFH'' ''ARC_L-2'') = False"
  "(op_join (op_join afq_home [''viz_results'']) [''arc_cst1.png''] = op_join (op_join afq_home [''viz_results'']) [''arc_cst2.png'']) = False"
  "(op_join (op_join afq_home [''viz_results'']) [''arc_cst1.png''] = op_join (op_join afq_home [''viz_results'']) [''arc_cst3.png'']) = False"
  "(op_join (op_join afq_home [''viz_results'']) [''arc_cst1.png''] = op_join (op_join afq_home [''viz_results'']) [''arc_cst4.png'']) = False"
  "(op_join (op_join afq_home [''viz_results'']) [''arc_cst1.png''] = op_join (op_join afq_home [''viz_results'']) [''arc_cst_fig.png'']) = False"
  "(op_join (op_join afq_home [''viz_results'']) [''arc_cst2.png''] = hbn_t1w lib ''NDARAA948VFH'') = False"
  "(op_join (op_join afq_home [''viz_results'']) [''arc_cst2.png''] = hbn_fa lib ''NDARAA948VFH'') = False"
  "(op_join (op_join afq_home [''viz_results'']) [''arc_cst2.png''] = hbn_bundle lib ''NDARAA948VFH'' ''ARC_L'') = False"
  "(op_join (op_join afq_home [''viz_results'']) [''arc_cst2.png''] = hbn_bundle lib ''NDARAA948VFH'' ''CST_L'') = False"
  "(op_join (op_join afq_home [''viz_results'']) [''arc_cst2.png''] = hbn_roi lib ''NDARAA948VFH'' ''ARC_L-1'') = False"
  "(op_join (op_join afq_home [''viz_results'']) [''arc_cst2.png''] = hbn_roi lib ''NDARAA948VFH'' ''ARC_L-2'') = False"
  "(op_join (op_join afq_home [''viz_results'']) [''arc_cst2.png''] = op_join (op_join afq_home [''viz_results'']) [''arc_cst1.png'']) = False"
  "(op_join (op_join afq_home [''viz_results'']) [''arc_cst2.png''] = op_join (op_join afq_home [''viz_results'']) [''arc_cst3.png'']) = False"
  "(op_join (op_join afq_home [''viz_results'']) [''arc_cst2.png''] = op_join (op_join afq_home [''viz_results'']) [''arc_cst4.png'']) = False"
  "(op_join (op_join afq_home [''viz_results'']) [''arc_cst2.png''] = op_join (op_join afq_home [''viz_results'']) [''arc_cst_fig.png'']) = False"
  "(op_join (op_join afq_home [''viz_results'']) [''arc_cst3.png''] = hbn_t1w lib ''NDARAA948VFH'') = False"
  "(op_join (op_join afq_home [''viz_results'']) [''arc_cst3.png''] = hbn_fa lib ''NDARAA948VFH'') = False"
  "(op_join (op_join afq_home [''viz_results'']) [''arc_cst3.png''] = hbn_bundle lib ''NDARAA948VFH'' ''ARC_L'') = False"
  "(op_join (op_join afq_home [''viz_results'']) [''arc_cst3.png''] = hbn_bundle lib ''NDARAA948VFH'' ''CST_L'') = False"
  "(op_join (op_join afq_home [''viz_results'']) [''arc_cst3.png''] = hbn_roi lib ''NDARAA948VFH'' ''ARC_L-1'') = False"
  "(op_join (op_join afq_home [''viz_results'']) [''arc_cst3.png''] = hbn_roi lib ''NDARAA948VFH'' ''ARC_L-2'') = False"
  "(op_join (op_join afq_home [''viz_results'']) [''arc_cst3.png''] = op_join (op_join afq_home [''viz_results'']) [''arc_cst1.png'']) = False"
  "(op_join (op_join afq_home [''viz_results'']) [''arc_cst3.png''] = op_join (op_join afq_home [''viz_results'']) [''arc_cst2.png'']) = False"
  "(op_join (op_join afq_home [''viz_results'']) [''arc_cst3.png''] = op_join (op_join afq_home [''viz_results'']) [''arc_cst4.png'']) = False"
  "(op_join (op_join afq_home [''viz_results'']) [''arc_cst3.png''] = op_join (op_join afq_home [''viz_results'']) [''arc_cst_fig.png'']) = False"
  "(op_join (op_join afq_home [''viz_results'']) [''arc_cst4.png''] = hbn_t1w lib ''NDARAA948VFH'') = False"
  "(op_join (op_join afq_home [''viz_results'']) [''arc_cst4.png''] = hbn_fa lib ''NDARAA948VFH'') = False"
  "(op_join (op_join afq_home [''viz_results'']) [''arc_cst4.png''] = hbn_bundle lib ''NDARAA948VFH'' ''ARC_L'') = False"
  "(op_join (op_join afq_home [''viz_results'']) [''arc_cst4.png''] = hbn_bundle lib ''NDARAA948VFH'' ''CST_L'') = False"
  "(op_join (op_join afq_home [''viz_results'']) [''arc_cst4.png''] = hbn_roi lib ''NDARAA948VFH'' ''ARC_L-1'') = False"
  "(op_join (op_join afq_home [''viz_results'']) [''arc_cst4.png''] = hbn_roi lib ''NDARAA948VFH'' ''ARC_L-2'') = False"
  "(op_join (op_join afq_home [''viz_results'']) [''arc_cst4.png''] = op_join (op_join afq_home [''viz_results'']) [''arc_cst1.png'']) = False"
  "(op_join (op_join afq_home [''viz_results'']) [''arc_cst4.png''] = op_join (op_join afq_home [''viz_results'']) [''arc_cst2.png'']) = False"
  "(op_join (op_join afq_home [''viz_results'']) [''arc_cst4.png''] = op_join (op_join afq_home [''viz_results'']) [''arc_cst3.png'']) = False"
  "(op_join (op_join afq_home [''viz_results'']) [''arc_cst4.png''] = op_join (op_join afq_home [''viz_results'']) [''arc_cst_fig.png'']) = False"
  "(op_join (op_join afq_home [''viz_results'']) [''arc_cst_fig.png''] = hbn_t1w lib ''NDARAA948VFH'') = False"
  "(op_join (op_join afq_home [''viz_results'']) [''arc_cst_fig.png''] = hbn_fa lib ''NDARAA948VFH'') = False"
  "(op_join (op_join afq_home [''viz_results'']) [''arc_cst_fig.png''] = hbn_bundle lib ''NDARAA948VFH'' ''ARC_L'') = False"
  "(op_join (op_join afq_home [''viz_results'']) [''arc_cst_fig.png''] = hbn_bundle lib ''NDARAA948VFH'' ''CST_L'') = False"
  "(op_join (op_join afq_home [''viz_results'']) [''arc_cst_fig.png''] = hbn_roi lib ''NDARAA948VFH'' ''ARC_L-1'') = False"
  "(op_join (op_join afq_home [''viz_results'']) [''arc_cst_fig.png''] = hbn_roi lib ''NDARAA948VFH'' ''ARC_L-2'') = False"
  "(op_join (op_join afq_home [''viz_results'']) [''arc_cst_fig.png''] = op_join (op_join afq_home [''viz_results'']) [''arc_cst1.png'']) = False"
  "(op_join (op_join afq_home [''viz_results'']) [''arc_cst_fig.png''] = op_join (op_join afq_home [''viz_results'']) [''arc_cst2.png'']) = False"
  "(op_join (op_join afq_home [''viz_results'']) [''arc_cst_fig.png''] = op_join (op_join afq_home [''viz_results'']) [''arc_cst3.png'']) = False"
  "(op_join (op_join afq_home [''viz_results'']) [''arc_cst_fig.png''] = op_join (op_join afq_home [''viz_results'']) [''arc_cst4.png'']) = False"
  by (simp_all add: nf_paths last_paths append_neq_last del: last.simps)

text \<open>The paths the cells compute are the paths the fetchers wrote.\<close>

lemma cell_paths:
  "op_join (op_join (op_join (hbn_home lib) [''derivatives'']) [''afq'', ''sub-NDARAA948VFH'', ''ses-HBNsiteRU''])
     [''sub-NDARAA948VFH_ses-HBNsiteRU_acq-64dir_space-T1w_desc-preproc_dwi_model-DKI_FA.nii.gz'']
   = hbn_fa lib ''NDARAA948VFH''"
  "op_join (op_join (op_join (op_join (hbn_home lib) [''derivatives'']) [''afq'', ''sub-NDARAA948VFH'', ''ses-HBNsiteRU'']) [''bundles''])
     [''sub-NDARAA948VFH_ses-HBNsiteRU_acq-64dir_space-T1w_desc-preproc_dwi_space-RASMM_model-CSD_desc-prob-afq-ARC_L_tractography.trk'']
   = hbn_bundle lib ''NDARAA948VFH'' ''ARC_L''"
  "op_join (op_join (op_join (op_join (hbn_home lib) [''derivatives'']) [''afq'', ''sub-NDARAA948VFH'', ''ses-HBNsiteRU'']) [''bundles''])
     [''sub-NDARAA948VFH_ses-HBNsiteRU_acq-64dir_space-T1w_desc-preproc_dwi_space-RASMM_model-CSD_desc-prob-afq-CST_L_tractography.trk'']
   = hbn_bundle lib ''NDARAA948VFH'' ''CST_L''"
  "op_join (op_join (hbn_home lib) [''derivatives''])
     [''qsiprep/sub-NDARAA948VFH/anat/sub-NDARAA948VFH_desc-preproc_T1w.nii.gz'']
   = hbn_t1w lib ''NDARAA948VFH''"
  "op_join (op_join (op_join (hbn_home lib) [''derivatives'']) [''afq'', ''sub-NDARAA948VFH'', ''ses-HBNsiteRU''])
     [''ROIs'', ''sub-NDARAA948VFH_ses-HBNsiteRU_acq-64dir_space-T1w_desc-preproc_dwi_desc-ROI-ARC_L-1-include.nii.gz'']
   = hbn_roi lib ''NDARAA948VFH'' ''ARC_L-1''"
  "op_join (op_join (op_join (hbn_home lib) [''derivatives'']) [''afq'', ''sub-NDARAA948VFH'', ''ses-HBNsiteRU''])
     [''ROIs'', ''sub-NDARAA948VFH_ses-HBNsiteRU_acq-64dir_space-T1w_desc-preproc_dwi_desc-ROI-ARC_L-2-include.nii.gz'']
   = hbn_roi lib ''NDARAA948VFH'' ''ARC_L-2''"
  by (simp_all add: path_norm)

section \<open>Observations compose\<close>

lemma figures_written_simps:
  "figures_written [] = []"
  "figures_written (e # es) =
     (case figure_path e of None \<Rightarrow> figures_written es | Some p \<Rightarrow> p # figures_written es)"
  "figures_written (xs @ ys) = figures_written xs @ figures_written ys"
  by (simp_all add: figures_written_def List.map_filter_def split: option.split)

lemma unless_simps:
  "unless True xs = []" "unless False xs = xs"
  by (simp_all add: unless_def)

lemma observed_refl: "observed w w [] [] (fs w)"
  by (simp add: observed_def figures_written_simps)

lemma observed_trans:
  assumes "observed w w1 ns1 ps1 F1" and "observed w1 w2 ns2 ps2 F2"
  shows "observed w w2 (ns1 @ ns2) (ps1 @ ps2) F2"
proof -
  from assms(1) obtain e1 where a:
    "calls w1 = calls w @ e1" "map call_name e1 = ns1" "figures_written e1 = ps1"
    "\<not> list_ex controls_parallelism e1" "rng w1 = rng w"
    by (auto simp: observed_def)
  from assms(2) obtain e2 where b:
    "calls w2 = calls w1 @ e2" "map call_name e2 = ns2" "figures_written e2 = ps2"
    "\<not> list_ex controls_parallelism e2" "rng w2 = rng w1" "fs w2 = F2"
    by (auto simp: observed_def)
  from a b have "calls w2 = calls w @ (e1 @ e2)" "map call_name (e1 @ e2) = ns1 @ ns2"
    "figures_written (e1 @ e2) = ps1 @ ps2" "\<not> list_ex controls_parallelism (e1 @ e2)"
    by (simp_all add: figures_written_simps)
  with a(5) b(5,6) show ?thesis
    unfolding observed_def by metis
qed

lemma observed_eq:
  "observed w w' ns ps F \<Longrightarrow> ns = ns' \<Longrightarrow> ps = ps' \<Longrightarrow> F = F' \<Longrightarrow> observed w w' ns' ps' F'"
  by simp

lemma observed_new_calls:
  assumes "observed w w' ns ps F"
  shows "map call_name (new_calls w w') = ns" "figures_written (new_calls w w') = ps"
    "\<not> list_ex controls_parallelism (new_calls w w')" "rng w' = rng w" "fs w' = F"
  using assms by (auto simp: observed_def new_calls_def)

text \<open>Nothing a library computes, and nothing read from a tractogram, carries an option.\<close>

lemma streamlines_quiet: "parallel_opt (streamlines_of ob) = False"
  by (cases ob) simp_all

lemma kept_or_simps:
  "kept_or None v = Some v" "kept_or (Some f) v = Some f"
  by (simp_all add: kept_or_def)

lemma guard_record:
  "(if \<not> op_exists p w then window_record s p sz w else w) =
     w\<lparr>fs := (fs w)(p := kept_or (fs w p) (PNG, rendered s sz w)),
       calls := calls w @ unless (fs w p \<noteq> None)
                  [Call ''window.record'' [PRef s] [(''out_path'', PStr p), (''size'', sz)]]\<rparr>"
  by (cases "fs w p")
     (auto simp: op_exists_def window_record_def write_file_def emit_def fun_upd_idem kept_or_def
        unless_def rendered_def)

lemma guard_figure:
  "(if \<not> op_exists p w then format_and_save_figure pf p w else w) =
     w\<lparr>fs := (fs w)(p := kept_or (fs w p) (PNG, assembled pf w)),
       calls := calls w @ unless (fs w p \<noteq> None)
                  [Call ''format_and_save_figure'' [PRef pf, PStr p] []]\<rparr>"
  by (cases "fs w p")
     (auto simp: op_exists_def format_and_save_figure_def write_file_def emit_def fun_upd_idem
        kept_or_def unless_def assembled_def)

lemma bind_err_weak_cong: "m = m' \<Longrightarrow> bind_err m f = bind_err m' f"
  by simp

lemma bind_err_Inr: "bind_err (Inr v) f = f v"
  by (simp add: bind_err_def)

text \<open>\<open>lines_as_tubes\<close> as one step.\<close>

lemma lines_as_tubes_run:
  assumes "0 \<le> i" and "i \<le> 2 ^ 24"
  shows "lines_as_tubes sl (PInt i) kw w =
     Inr (Suc (length (heap w)),
      w\<lparr>heap := heap w @ [Property (PInt 1) (Whole i) (PSym ''actor.line.Property'' [PDict kw]),
                           LineActor sl kw (length (heap w))],
        calls := calls w @ [Call ''actor.line'' [sl] kw,
                            Call ''SetRenderLinesAsTubes'' [PRef (length (heap w)), PInt 1] [],
                            Call ''SetLineWidth'' [PRef (length (heap w)), PInt i] []]\<rparr>)"
proof -
  from assms have "line_width_of (PInt i) = Inr (Whole i)"
    by (rule whole_width)
  then show ?thesis
    by (simp add: lines_as_tubes_def actor_line_def GetProperty_def SetRenderLinesAsTubes_def
        SetLineWidth_def emit_def alloc_def mutate_def bind_err_def Let_def nth_append
        del: line_width_of.simps cong: let_weak_cong)
qed

lemmas op_defs = emit_def alloc_def mutate_def lines_as_tubes_run actor_slicer_def display_extent_def
  slicer_copy_def py_index_def shape_at_def slice_volume_def
  read_file_def nib_load_def get_fdata_def affine_def load_trk_def
  to_rasmm_def to_vox_def streamlines_def np_linalg_inv_def transform_streamlines_def
  set_number_of_points_def np_median_axis0_def afq_profile_def resample_def window_Scene_def
  scene_add_def scene_clear_def set_camera_def add_each_def contour_from_roi_def
  create_colormap_def tab20_colors_def PanelFigure_def add_img_def
  bind_err_Inr Let_def

lemmas obs_defs = observed_def figures_written_simps streamlines_quiet parallel_key_def
  kept_or_simps unless_simps

section \<open>The cells of the visualization notebook, one by one\<close>

lemma viz_fetch_run:
  "\<exists>w'. viz_fetch lib w =
      ((op_join (hbn_home lib) [''derivatives''],
        op_join (op_join (hbn_home lib) [''derivatives'']) [''afq'', ''sub-NDARAA948VFH'', ''ses-HBNsiteRU''],
        op_join (op_join (op_join (hbn_home lib) [''derivatives''])
                   [''afq'', ''sub-NDARAA948VFH'', ''ses-HBNsiteRU'']) [''bundles'']), w') \<and>
     observed w w' [''afd.fetch_hbn_preproc'', ''afd.fetch_hbn_afq''] [] (with_hbn lib (fs w))"
  by (simp add: viz_fetch_def fetch_hbn_preproc_def fetch_hbn_afq_def write_files_def write_file_def
      hbn_preproc_files_def hbn_afq_files_def emit_def with_hbn_def obs_defs Let_def)

lemma viz_read_run:
  assumes "fs w (op_join afq_path
      [''sub-NDARAA948VFH_ses-HBNsiteRU_acq-64dir_space-T1w_desc-preproc_dwi_model-DKI_FA.nii.gz'']) = Some (k1, c1)"
    and "fs w (op_join bundle_path
      [''sub-NDARAA948VFH_ses-HBNsiteRU_acq-64dir_space-T1w_desc-preproc_dwi_space-RASMM_model-CSD_desc-prob-afq-ARC_L_tractography.trk'']) = Some (k2, c2)"
    and "fs w (op_join bundle_path
      [''sub-NDARAA948VFH_ses-HBNsiteRU_acq-64dir_space-T1w_desc-preproc_dwi_space-RASMM_model-CSD_desc-prob-afq-CST_L_tractography.trk'']) = Some (k3, c3)"
  shows "\<exists>sft_arc sft_cst w'. viz_read afq_path bundle_path w = Inr ((c1, sft_arc, sft_cst), w') \<and>
     observed w w' [''nib.load'', ''get_fdata'', ''load_trk'', ''load_trk''] [] (fs w)"
  using assms
  by (simp add: viz_read_def op_defs obs_defs nth_append cong: bind_err_weak_cong let_weak_cong)

lemma viz_transform_run:
  assumes "fs w (op_join deriv_path
      [''qsiprep/sub-NDARAA948VFH/anat/sub-NDARAA948VFH_desc-preproc_T1w.nii.gz'']) = Some (k, c)"
  shows "\<exists>t1w_img arc_t1w cst_t1w w'.
     viz_transform deriv_path sft_arc sft_cst w = Inr ((t1w_img, c, arc_t1w, cst_t1w), w') \<and>
     \<not> parallel_opt arc_t1w \<and> \<not> parallel_opt cst_t1w \<and>
     observed w w' [''nib.load'', ''get_fdata'', ''to_rasmm'', ''to_rasmm'',
                    ''transform_streamlines'', ''transform_streamlines''] [] (fs w)"
  using assms
  by (simp add: viz_transform_def op_defs obs_defs nth_append cong: bind_err_weak_cong let_weak_cong)

lemma viz_bundle_actors_run:
  assumes "\<not> parallel_opt arc_t1w" and "\<not> parallel_opt cst_t1w"
  shows "\<exists>arc_actor cst_actor w'.
     viz_bundle_actors arc_t1w cst_t1w w = Inr ((arc_actor, cst_actor), w') \<and>
     observed w w' (tube_names @ tube_names) [] (fs w)"
  using assms
  by (simp add: viz_bundle_actors_def op_defs obs_defs tube_names_def
      cong: let_weak_cong bind_err_weak_cong)

lemma viz_slicers_run:
  assumes "t1w = PArr [nx, ny, nz] c"
  shows "\<exists>s1 s2 w'. viz_slicers t1w w = Inr ([s1, s2], w') \<and>
     observed w w' [''actor.slicer'', ''display_extent'', ''copy'', ''display_extent''] [] (fs w)"
  using assms
  by (simp add: viz_slicers_def op_defs obs_defs cong: bind_err_weak_cong let_weak_cong)

lemma viz_scene_run:
  "\<exists>scene w'. viz_scene arc_actor cst_actor [s1, s2] w = (scene, w') \<and>
     observed w w' [''window.Scene'', ''add'', ''add'', ''add'', ''add''] [] (fs w)"
  by (simp add: viz_scene_def op_defs obs_defs cong: let_weak_cong)

lemma viz_camera_run:
  "observed w (viz_camera scene w) [''set_camera''] [] (fs w)"
  by (simp add: viz_camera_def op_defs obs_defs)

lemma viz_record1_run:
  "\<exists>c w'. viz_record1 afq_home scene w = (op_join afq_home [''viz_results''], w') \<and>
     observed w w'
       (unless (fs w (op_join (op_join afq_home [''viz_results'']) [''arc_cst1.png'']) \<noteq> None)
          [''window.record''])
       (unless (fs w (op_join (op_join afq_home [''viz_results'']) [''arc_cst1.png'']) \<noteq> None)
          [op_join (op_join afq_home [''viz_results'']) [''arc_cst1.png'']])
       ((fs w)(op_join (op_join afq_home [''viz_results'']) [''arc_cst1.png''] :=
          kept_or (fs w (op_join (op_join afq_home [''viz_results'']) [''arc_cst1.png''])) (PNG, c)))"
  apply (cases "fs w (op_join (op_join afq_home [''viz_results'']) [''arc_cst1.png''])")
   apply (simp_all add: viz_record1_def guard_record obs_defs Let_def)
  apply (rule exI, rule refl)
  done

lemma viz_colors_run:
  assumes "\<not> parallel_opt arc_t1w" and "\<not> parallel_opt cst_t1w"
  shows "\<exists>c color_arc color_cst w'.
     viz_colors arc_t1w cst_t1w scene [s1, s2] out_folder w = Inr ((color_arc, color_cst), w') \<and>
     \<not> parallel_opt color_arc \<and> \<not> parallel_opt color_cst \<and>
     observed w w'
       (tube_names @ tube_names @ [''clear'', ''add'', ''add'', ''add'', ''add'']
          @ unless (fs w (op_join out_folder [''arc_cst2.png'']) \<noteq> None) [''window.record''])
       (unless (fs w (op_join out_folder [''arc_cst2.png'']) \<noteq> None)
          [op_join out_folder [''arc_cst2.png'']])
       ((fs w)(op_join out_folder [''arc_cst2.png''] :=
          kept_or (fs w (op_join out_folder [''arc_cst2.png''])) (PNG, c)))"
  using assms
  apply (cases "fs w (op_join out_folder [''arc_cst2.png''])")
   apply (simp_all add: viz_colors_def guard_record op_defs obs_defs unless_simps tube_names_def
      cong: let_weak_cong bind_err_weak_cong)
  apply (rule exI, rule refl)
  done

lemma viz_profiles_run:
  assumes "\<not> parallel_opt arc_t1w" and "\<not> parallel_opt cst_t1w" and "\<not> parallel_opt fa"
    and "\<not> parallel_opt color_arc" and "\<not> parallel_opt color_cst"
  shows "\<exists>c w'.
     viz_profiles arc_t1w cst_t1w fa sft_arc sft_cst color_arc color_cst scene [s1, s2] out_folder w
       = Inr w' \<and>
     observed w w'
       ([''set_number_of_points'', ''set_number_of_points'', ''to_vox'', ''to_vox'',
         ''afq_profile'', ''afq_profile'', ''create_colormap'']
          @ tube_names @ [''create_colormap''] @ tube_names @ [''clear'']
          @ tube_names @ tube_names
          @ [''add'', ''add'', ''add'', ''add'', ''add'', ''add'']
          @ unless (fs w (op_join out_folder [''arc_cst3.png'']) \<noteq> None) [''window.record''])
       (unless (fs w (op_join out_folder [''arc_cst3.png'']) \<noteq> None)
          [op_join out_folder [''arc_cst3.png'']])
       ((fs w)(op_join out_folder [''arc_cst3.png''] :=
          kept_or (fs w (op_join out_folder [''arc_cst3.png''])) (PNG, c)))"
  using assms
  apply (cases "fs w (op_join out_folder [''arc_cst3.png''])")
   apply (simp_all add: viz_profiles_def guard_record op_defs obs_defs unless_simps tube_names_def
      cong: let_weak_cong bind_err_weak_cong)
  apply (rule exI, rule refl)
  done

lemma viz_rois_run:
  assumes "fs w (op_join afq_path [''ROIs'',
      ''sub-NDARAA948VFH_ses-HBNsiteRU_acq-64dir_space-T1w_desc-preproc_dwi_desc-ROI-ARC_L-1-include.nii.gz'']) = Some (k1, c1)"
    and "fs w (op_join afq_path [''ROIs'',
      ''sub-NDARAA948VFH_ses-HBNsiteRU_acq-64dir_space-T1w_desc-preproc_dwi_desc-ROI-ARC_L-2-include.nii.gz'']) = Some (k2, c2)"
    and "\<not> parallel_opt arc_t1w" and "\<not> parallel_opt cst_t1w"
    and "\<not> parallel_opt color_arc" and "\<not> parallel_opt color_cst"
  shows "\<exists>c w'.
     viz_rois afq_path t1w_img arc_t1w cst_t1w color_arc color_cst scene [s1, s2] out_folder w = Inr w' \<and>
     observed w w'
       ([''nib.load'', ''nib.load'', ''resample'', ''resample'', ''get_fdata'', ''get_fdata'', ''clear'']
          @ tube_names @ tube_names
          @ [''add'', ''add'', ''add'', ''add'',
             ''actor.contour_from_roi'', ''actor.contour_from_roi'', ''add'', ''add'']
          @ unless (fs w (op_join out_folder [''arc_cst4.png'']) \<noteq> None) [''window.record''])
       (unless (fs w (op_join out_folder [''arc_cst4.png'']) \<noteq> None)
          [op_join out_folder [''arc_cst4.png'']])
       ((fs w)(op_join out_folder [''arc_cst4.png''] :=
          kept_or (fs w (op_join out_folder [''arc_cst4.png''])) (PNG, c)))"
  using assms
  apply (cases "fs w (op_join out_folder [''arc_cst4.png''])")
   apply (simp_all add: viz_rois_def guard_record op_defs obs_defs unless_simps tube_names_def
      cong: let_weak_cong bind_err_weak_cong)
  apply (rule exI, rule refl)
  done

lemma viz_figure_run:
  assumes "fs w (op_join out_folder [''arc_cst1.png'']) = Some (k1, c1)"
    and "fs w (op_join out_folder [''arc_cst2.png'']) = Some (k2, c2)"
    and "fs w (op_join out_folder [''arc_cst3.png'']) = Some (k3, c3)"
    and "fs w (op_join out_folder [''arc_cst4.png'']) = Some (k4, c4)"
  shows "\<exists>c w'. viz_figure out_folder w = Inr w' \<and>
     observed w w'
       ([''PanelFigure'', ''add_img'', ''add_img'', ''add_img'', ''add_img'']
          @ unless (fs w (op_join out_folder [''arc_cst_fig.png'']) \<noteq> None) [''format_and_save_figure''])
       (unless (fs w (op_join out_folder [''arc_cst_fig.png'']) \<noteq> None)
          [op_join out_folder [''arc_cst_fig.png'']])
       ((fs w)(op_join out_folder [''arc_cst_fig.png''] :=
          kept_or (fs w (op_join out_folder [''arc_cst_fig.png''])) (PNG, c)))"
  using assms
  apply (cases "fs w (op_join out_folder [''arc_cst_fig.png''])")
   apply (simp_all add: viz_figure_def guard_figure op_defs obs_defs unless_simps
      cong: let_weak_cong bind_err_weak_cong)
  apply (rule exI, rule refl)
  done

section \<open>The visualization notebook as a whole\<close>

lemma with_hbn_files:
  "with_hbn lib F (hbn_t1w lib ''NDARAA948VFH'') =
     Some (NIFTI, PArr (t1w_shape lib ''NDARAA948VFH'') (PSym ''T1w'' [PStr ''NDARAA948VFH'']))"
  "with_hbn lib F (hbn_fa lib ''NDARAA948VFH'') = Some (NIFTI, PSym ''FA'' [PStr ''NDARAA948VFH''])"
  "with_hbn lib F (hbn_bundle lib ''NDARAA948VFH'' ''ARC_L'') = Some (TRK, PSym ''ARC_L'' [PStr ''NDARAA948VFH''])"
  "with_hbn lib F (hbn_bundle lib ''NDARAA948VFH'' ''CST_L'') = Some (TRK, PSym ''CST_L'' [PStr ''NDARAA948VFH''])"
  "with_hbn lib F (hbn_roi lib ''NDARAA948VFH'' ''ARC_L-1'') = Some (NIFTI, PSym ''ROI-ARC_L-1'' [PStr ''NDARAA948VFH''])"
  "with_hbn lib F (hbn_roi lib ''NDARAA948VFH'' ''ARC_L-2'') = Some (NIFTI, PSym ''ROI-ARC_L-2'' [PStr ''NDARAA948VFH''])"
  by (simp_all add: with_hbn_def paths_distinct)

lemma with_hbn_out:
  "with_hbn lib F (op_join (op_join afq_home [''viz_results'']) [''arc_cst1.png'']) =
     F (op_join (op_join afq_home [''viz_results'']) [''arc_cst1.png''])"
  "with_hbn lib F (op_join (op_join afq_home [''viz_results'']) [''arc_cst2.png'']) =
     F (op_join (op_join afq_home [''viz_results'']) [''arc_cst2.png''])"
  "with_hbn lib F (op_join (op_join afq_home [''viz_results'']) [''arc_cst3.png'']) =
     F (op_join (op_join afq_home [''viz_results'']) [''arc_cst3.png''])"
  "with_hbn lib F (op_join (op_join afq_home [''viz_results'']) [''arc_cst4.png'']) =
     F (op_join (op_join afq_home [''viz_results'']) [''arc_cst4.png''])"
  "with_hbn lib F (op_join (op_join afq_home [''viz_results'']) [''arc_cst_fig.png'']) =
     F (op_join (op_join afq_home [''viz_results'']) [''arc_cst_fig.png''])"
  by (simp_all add: with_hbn_def paths_distinct)

lemma kept_or_present: "\<exists>k c. kept_or m (PNG, v) = Some (k, c)"
  by (cases m) (auto simp: kept_or_def)

lemma viz_first_figure_run:
  assumes shape: "t1w_shape lib ''NDARAA948VFH'' = [nx, ny, nz]"
  shows "\<exists>fa sft_arc sft_cst t1w_img arc_t1w cst_t1w s1 s2 scene c w'.
     viz_first_figure afq_home lib w =
       Inr ((op_join (op_join (hbn_home lib) [''derivatives''])
               [''afq'', ''sub-NDARAA948VFH'', ''ses-HBNsiteRU''],
             fa, sft_arc, sft_cst, t1w_img, arc_t1w, cst_t1w, [s1, s2], scene,
             op_join afq_home [''viz_results'']), w') \<and>
     \<not> parallel_opt fa \<and> \<not> parallel_opt arc_t1w \<and> \<not> parallel_opt cst_t1w \<and>
     observed w w'
       (viz_first_names (fs w (out_path afq_home ''arc_cst1.png'') \<noteq> None))
       (unless (fs w (out_path afq_home ''arc_cst1.png'') \<noteq> None) [out_path afq_home ''arc_cst1.png''])
       ((with_hbn lib (fs w))(out_path afq_home ''arc_cst1.png'' :=
           kept_or (fs w (out_path afq_home ''arc_cst1.png'')) (PNG, c)))"
proof -
  let ?D = "op_join (hbn_home lib) [''derivatives'']"
  let ?A = "op_join ?D [''afq'', ''sub-NDARAA948VFH'', ''ses-HBNsiteRU'']"
  let ?B = "op_join ?A [''bundles'']"
  let ?o1 = "op_join (op_join afq_home [''viz_results'']) [''arc_cst1.png'']"
  obtain w1 where c1: "viz_fetch lib w = ((?D, ?A, ?B), w1)"
    and o1: "observed w w1 [''afd.fetch_hbn_preproc'', ''afd.fetch_hbn_afq''] [] (with_hbn lib (fs w))"
    using viz_fetch_run [of lib w] by blast
  have fs1: "fs w1 = with_hbn lib (fs w)"
    using o1 by (simp add: observed_def)
  obtain sft_arc sft_cst w2 where c2:
      "viz_read ?A ?B w1 = Inr ((PSym ''FA'' [PStr ''NDARAA948VFH''], sft_arc, sft_cst), w2)"
    and o2: "observed w1 w2 [''nib.load'', ''get_fdata'', ''load_trk'', ''load_trk''] [] (fs w1)"
    using viz_read_run [of w1 ?A NIFTI "PSym ''FA'' [PStr ''NDARAA948VFH'']" ?B
        TRK "PSym ''ARC_L'' [PStr ''NDARAA948VFH'']" TRK "PSym ''CST_L'' [PStr ''NDARAA948VFH'']"]
    by (auto simp: fs1 cell_paths with_hbn_files)
  have fs2: "fs w2 = with_hbn lib (fs w)"
    using o2 fs1 by (simp add: observed_def)
  obtain t1w_img arc_t1w cst_t1w w3 where c3:
      "viz_transform ?D sft_arc sft_cst w2 =
         Inr ((t1w_img, PArr [nx, ny, nz] (PSym ''T1w'' [PStr ''NDARAA948VFH'']), arc_t1w, cst_t1w), w3)"
    and q3: "\<not> parallel_opt arc_t1w" "\<not> parallel_opt cst_t1w"
    and o3: "observed w2 w3 [''nib.load'', ''get_fdata'', ''to_rasmm'', ''to_rasmm'',
                    ''transform_streamlines'', ''transform_streamlines''] [] (fs w2)"
    using viz_transform_run [of w2 ?D NIFTI "PArr [nx, ny, nz] (PSym ''T1w'' [PStr ''NDARAA948VFH''])"
        sft_arc sft_cst]
    by (auto simp: fs2 cell_paths with_hbn_files shape)
  obtain arc_actor cst_actor w4 where c4:
      "viz_bundle_actors arc_t1w cst_t1w w3 = Inr ((arc_actor, cst_actor), w4)"
    and o4: "observed w3 w4 (tube_names @ tube_names) [] (fs w3)"
    using viz_bundle_actors_run [OF q3, of w3] by blast
  obtain s1 s2 w5 where c5:
      "viz_slicers (PArr [nx, ny, nz] (PSym ''T1w'' [PStr ''NDARAA948VFH''])) w4 = Inr ([s1, s2], w5)"
    and o5: "observed w4 w5 [''actor.slicer'', ''display_extent'', ''copy'', ''display_extent''] [] (fs w4)"
    using viz_slicers_run [OF refl, of nx ny nz "PSym ''T1w'' [PStr ''NDARAA948VFH'']" w4] by blast
  obtain scene w6 where c6: "viz_scene arc_actor cst_actor [s1, s2] w5 = (scene, w6)"
    and o6: "observed w5 w6 [''window.Scene'', ''add'', ''add'', ''add'', ''add''] [] (fs w5)"
    using viz_scene_run [of arc_actor cst_actor s1 s2 w5] by blast
  have o7: "observed w6 (viz_camera scene w6) [''set_camera''] [] (fs w6)"
    by (rule viz_camera_run)
  obtain c w8 where c8: "viz_record1 afq_home scene (viz_camera scene w6) = (op_join afq_home [''viz_results''], w8)"
    and o8: "observed (viz_camera scene w6) w8
       (unless (fs (viz_camera scene w6) ?o1 \<noteq> None) [''window.record''])
       (unless (fs (viz_camera scene w6) ?o1 \<noteq> None) [?o1])
       ((fs (viz_camera scene w6))(?o1 := kept_or (fs (viz_camera scene w6) ?o1) (PNG, c)))"
    using viz_record1_run [of afq_home scene "viz_camera scene w6"] by blast
  have fs7: "fs (viz_camera scene w6) = with_hbn lib (fs w)"
    using o3 o4 o5 o6 o7 fs2 by (simp add: observed_def)
  have at1: "fs (viz_camera scene w6) ?o1 = fs w ?o1"
    by (simp add: fs7 with_hbn_out)
  note obs = observed_trans [OF observed_trans [OF observed_trans [OF observed_trans
      [OF observed_trans [OF observed_trans [OF observed_trans [OF o1 o2] o3] o4] o5] o6] o7] o8]
  have run: "viz_first_figure afq_home lib w =
       Inr ((?A, PSym ''FA'' [PStr ''NDARAA948VFH''], sft_arc, sft_cst, t1w_img, arc_t1w, cst_t1w,
             [s1, s2], scene, op_join afq_home [''viz_results'']), w8)"
    by (simp add: viz_first_figure_def c1 c2 c3 c4 c5 c6 c8 bind_err_Inr Let_def)
  have "observed w w8
       (viz_first_names (fs w ?o1 \<noteq> None))
       (unless (fs w ?o1 \<noteq> None) [?o1])
       ((with_hbn lib (fs w))(?o1 := kept_or (fs w ?o1) (PNG, c)))"
    by (rule observed_eq [OF obs]) (simp_all add: fs7 with_hbn_out viz_first_names_def)
  with run q3 show ?thesis
    unfolding out_path_def by (intro exI conjI) (assumption | simp)+
qed

lemma viz_notebook_run:
  assumes shape: "t1w_shape lib ''NDARAA948VFH'' = [nx, ny, nz]"
  shows "\<exists>c1 c2 c3 c4 c5 w'. viz_notebook afq_home lib w = Inr w' \<and>
     observed w w'
       (viz_first_names (fs w (out_path afq_home ''arc_cst1.png'') \<noteq> None) @
        viz_later_names (fs w (out_path afq_home ''arc_cst2.png'') \<noteq> None)
          (fs w (out_path afq_home ''arc_cst3.png'') \<noteq> None)
          (fs w (out_path afq_home ''arc_cst4.png'') \<noteq> None)
          (fs w (out_path afq_home ''arc_cst_fig.png'') \<noteq> None))
       (unless (fs w (out_path afq_home ''arc_cst1.png'') \<noteq> None) [out_path afq_home ''arc_cst1.png''] @
        unless (fs w (out_path afq_home ''arc_cst2.png'') \<noteq> None) [out_path afq_home ''arc_cst2.png''] @
        unless (fs w (out_path afq_home ''arc_cst3.png'') \<noteq> None) [out_path afq_home ''arc_cst3.png''] @
        unless (fs w (out_path afq_home ''arc_cst4.png'') \<noteq> None) [out_path afq_home ''arc_cst4.png''] @
        unless (fs w (out_path afq_home ''arc_cst_fig.png'') \<noteq> None) [out_path afq_home ''arc_cst_fig.png''])
       ((with_hbn lib (fs w))
          (out_path afq_home ''arc_cst1.png'' := kept_or (fs w (out_path afq_home ''arc_cst1.png'')) (PNG, c1),
           out_path afq_home ''arc_cst2.png'' := kept_or (fs w (out_path afq_home ''arc_cst2.png'')) (PNG, c2),
           out_path afq_home ''arc_cst3.png'' := kept_or (fs w (out_path afq_home ''arc_cst3.png'')) (PNG, c3),
           out_path afq_home ''arc_cst4.png'' := kept_or (fs w (out_path afq_home ''arc_cst4.png'')) (PNG, c4),
           out_path afq_home ''arc_cst_fig.png'' := kept_or (fs w (out_path afq_home ''arc_cst_fig.png'')) (PNG, c5)))"
proof -
  let ?A = "op_join (op_join (hbn_home lib) [''derivatives'']) [''afq'', ''sub-NDARAA948VFH'', ''ses-HBNsiteRU'']"
  let ?O = "op_join afq_home [''viz_results'']"
  let ?o1 = "op_join ?O [''arc_cst1.png'']"
  let ?o2 = "op_join ?O [''arc_cst2.png'']"
  let ?o3 = "op_join ?O [''arc_cst3.png'']"
  let ?o4 = "op_join ?O [''arc_cst4.png'']"
  let ?o5 = "op_join ?O [''arc_cst_fig.png'']"
  obtain fa sft_arc sft_cst t1w_img arc_t1w cst_t1w s1 s2 scene c1 w8 where
    r8: "viz_first_figure afq_home lib w =
       Inr ((?A, fa, sft_arc, sft_cst, t1w_img, arc_t1w, cst_t1w, [s1, s2], scene, ?O), w8)"
    and q: "\<not> parallel_opt fa" "\<not> parallel_opt arc_t1w" "\<not> parallel_opt cst_t1w"
    and o8: "observed w w8
       (viz_first_names (fs w ?o1 \<noteq> None)) (unless (fs w ?o1 \<noteq> None) [?o1])
       ((with_hbn lib (fs w))(?o1 := kept_or (fs w ?o1) (PNG, c1)))"
    using viz_first_figure_run [OF shape, of afq_home w] unfolding out_path_def by blast
  let ?F8 = "(with_hbn lib (fs w))(?o1 := kept_or (fs w ?o1) (PNG, c1))"
  have fs8: "fs w8 = ?F8"
    using o8 by (simp add: observed_def)
  obtain c2 color_arc color_cst w9 where
    r9: "viz_colors arc_t1w cst_t1w scene [s1, s2] ?O w8 = Inr ((color_arc, color_cst), w9)"
    and qc: "\<not> parallel_opt color_arc" "\<not> parallel_opt color_cst"
    and o9: "observed w8 w9
       (tube_names @ tube_names @ [''clear'', ''add'', ''add'', ''add'', ''add'']
          @ unless (fs w8 ?o2 \<noteq> None) [''window.record''])
       (unless (fs w8 ?o2 \<noteq> None) [?o2])
       ((fs w8)(?o2 := kept_or (fs w8 ?o2) (PNG, c2)))"
    using viz_colors_run [OF q(2,3), of scene s1 s2 ?O w8] by blast
  have at2: "fs w8 ?o2 = fs w ?o2"
    by (simp add: fs8 paths_distinct with_hbn_out)
  let ?F9 = "?F8(?o2 := kept_or (fs w ?o2) (PNG, c2))"
  have fs9: "fs w9 = ?F9"
    using o9 by (simp add: observed_def fs8 paths_distinct with_hbn_out)
  obtain c3 w10 where
    r10: "viz_profiles arc_t1w cst_t1w fa sft_arc sft_cst color_arc color_cst scene [s1, s2] ?O w9
            = Inr w10"
    and o10: "observed w9 w10
       ([''set_number_of_points'', ''set_number_of_points'', ''to_vox'', ''to_vox'',
         ''afq_profile'', ''afq_profile'', ''create_colormap'']
          @ tube_names @ [''create_colormap''] @ tube_names @ [''clear'']
          @ tube_names @ tube_names
          @ [''add'', ''add'', ''add'', ''add'', ''add'', ''add'']
          @ unless (fs w9 ?o3 \<noteq> None) [''window.record''])
       (unless (fs w9 ?o3 \<noteq> None) [?o3])
       ((fs w9)(?o3 := kept_or (fs w9 ?o3) (PNG, c3)))"
    using viz_profiles_run [OF q(2,3) q(1) qc, of sft_arc sft_cst scene s1 s2 ?O w9] by blast
  have at3: "fs w9 ?o3 = fs w ?o3"
    by (simp add: fs9 paths_distinct with_hbn_out)
  let ?F10 = "?F9(?o3 := kept_or (fs w ?o3) (PNG, c3))"
  have fs10: "fs w10 = ?F10"
    using o10 by (simp add: observed_def fs9 paths_distinct with_hbn_out)
  have roi1: "fs w10 (op_join ?A [''ROIs'',
      ''sub-NDARAA948VFH_ses-HBNsiteRU_acq-64dir_space-T1w_desc-preproc_dwi_desc-ROI-ARC_L-1-include.nii.gz''])
      = Some (NIFTI, PSym ''ROI-ARC_L-1'' [PStr ''NDARAA948VFH''])"
    by (simp add: fs10 cell_paths paths_distinct with_hbn_files)
  have roi2: "fs w10 (op_join ?A [''ROIs'',
      ''sub-NDARAA948VFH_ses-HBNsiteRU_acq-64dir_space-T1w_desc-preproc_dwi_desc-ROI-ARC_L-2-include.nii.gz''])
      = Some (NIFTI, PSym ''ROI-ARC_L-2'' [PStr ''NDARAA948VFH''])"
    by (simp add: fs10 cell_paths paths_distinct with_hbn_files)
  obtain c4 w11 where
    r11: "viz_rois ?A t1w_img arc_t1w cst_t1w color_arc color_cst scene [s1, s2] ?O w10 = Inr w11"
    and o11: "observed w10 w11
       ([''nib.load'', ''nib.load'', ''resample'', ''resample'', ''get_fdata'', ''get_fdata'', ''clear'']
          @ tube_names @ tube_names
          @ [''add'', ''add'', ''add'', ''add'',
             ''actor.contour_from_roi'', ''actor.contour_from_roi'', ''add'', ''add'']
          @ unless (fs w10 ?o4 \<noteq> None) [''window.record''])
       (unless (fs w10 ?o4 \<noteq> None) [?o4])
       ((fs w10)(?o4 := kept_or (fs w10 ?o4) (PNG, c4)))"
    using viz_rois_run [OF roi1 roi2 q(2,3) qc, of t1w_img scene s1 s2 ?O] by blast
  have at4: "fs w10 ?o4 = fs w ?o4"
    by (simp add: fs10 paths_distinct with_hbn_out)
  let ?F11 = "?F10(?o4 := kept_or (fs w ?o4) (PNG, c4))"
  have fs11: "fs w11 = ?F11"
    using o11 by (simp add: observed_def fs10 paths_distinct with_hbn_out)
  obtain k1 d1 where p1: "fs w11 ?o1 = Some (k1, d1)"
    using kept_or_present [of "fs w ?o1" c1] by (auto simp: fs11 paths_distinct)
  obtain k2 d2 where p2: "fs w11 ?o2 = Some (k2, d2)"
    using kept_or_present [of "fs w ?o2" c2] by (auto simp: fs11 paths_distinct)
  obtain k3 d3 where p3: "fs w11 ?o3 = Some (k3, d3)"
    using kept_or_present [of "fs w ?o3" c3] by (auto simp: fs11 paths_distinct)
  obtain k4 d4 where p4: "fs w11 ?o4 = Some (k4, d4)"
    using kept_or_present [of "fs w ?o4" c4] by (auto simp: fs11 paths_distinct)
  obtain c5 w12 where
    r12: "viz_figure ?O w11 = Inr w12"
    and o12: "observed w11 w12
       ([''PanelFigure'', ''add_img'', ''add_img'', ''add_img'', ''add_img'']
          @ unless (fs w11 ?o5 \<noteq> None) [''format_and_save_figure''])
       (unless (fs w11 ?o5 \<noteq> None) [?o5])
       ((fs w11)(?o5 := kept_or (fs w11 ?o5) (PNG, c5)))"
    using viz_figure_run [OF p1 p2 p3 p4] by blast
  have at5: "fs w11 ?o5 = fs w ?o5"
    by (simp add: fs11 paths_distinct with_hbn_out)
  have run: "viz_notebook afq_home lib w = Inr w12"
    by (simp add: viz_notebook_def r8 r9 r10 r11 r12 bind_err_Inr Let_def)
  note obs = observed_trans [OF observed_trans [OF observed_trans [OF observed_trans [OF o8 o9] o10] o11] o12]
  have "observed w w12
       (viz_first_names (fs w ?o1 \<noteq> None) @
        viz_later_names (fs w ?o2 \<noteq> None) (fs w ?o3 \<noteq> None) (fs w ?o4 \<noteq> None) (fs w ?o5 \<noteq> None))
       (unless (fs w ?o1 \<noteq> None) [?o1] @ unless (fs w ?o2 \<noteq> None) [?o2] @
        unless (fs w ?o3 \<noteq> None) [?o3] @ unless (fs w ?o4 \<noteq> None) [?o4] @
        unless (fs w ?o5 \<noteq> None) [?o5])
       (?F11(?o5 := kept_or (fs w ?o5) (PNG, c5)))"
    by (rule observed_eq [OF obs])
       (simp_all add: fs8 fs9 fs10 fs11 paths_distinct with_hbn_out viz_later_names_def)
  with run show ?thesis
    unfolding out_path_def by blast
qed

section \<open>The SLF notebook and the RecoBundles notebook as a whole\<close>

lemmas pipeline_defs = np_random_seed_def read_templates_def py_getitem_def BundleDict_def reco_bd_def
  ImageFile_def RoiImage_def GroupAFQ_def output_dir_of_def export_file_def export_def
  group_montage_def IPython_Image_def plotly_io_show_def fetch_hbn_preproc_def write_files_def
  write_file_def hbn_preproc_files_def emit_def alloc_def py_index_def bind_err_Inr Let_def nth_append

lemmas slf_defs = slf_imports_def slf_fetch_def slf_bundles_def slf_pipeline_def slf_montage_def
  slf_interactive_def slf_notebook_def

lemmas reco_defs = reco_pipeline_def reco_show_def reco_notebook_def

lemma slf_notebook_run:
  "\<exists>c1 c2 c3 w'. slf_notebook afq_home lib w = Inr w' \<and>
     map call_name (new_calls w w') = slf_names \<and>
     parallel_settings (new_calls w w') =
       [(''GroupAFQ'', Some (PDict [(''parallel_segmentation'', PDict [(''engine'', PStr ''serial'')])]))] \<and>
     rng w' = Advanced (Advanced (Seeded 1234)) \<and>
     fs w' = (fs w)
       (hbn_t1w lib ''NDARAA948VFH'' \<mapsto>
          (NIFTI, PArr (t1w_shape lib ''NDARAA948VFH'') (PSym ''T1w'' [PStr ''NDARAA948VFH''])),
        op_join (op_join (hbn_home lib) [''derivatives'', ''afq_slf'']) [''profiles.csv''] \<mapsto> (CSV, c1),
        op_join (op_join (hbn_home lib) [''derivatives'', ''afq_slf'']) [''montage.png''] \<mapsto> (PNG, c2),
        op_join (op_join (hbn_home lib) [''derivatives'', ''afq_slf'']) [''all_bundles_figure.html'']
          \<mapsto> (HTML, c3))"
  apply (simp add: slf_defs pipeline_defs new_calls_def slf_names_def parallel_settings_def
      parallel_key_def cong: let_weak_cong bind_err_weak_cong)
  apply (intro exI)
  apply (rule refl)
  done

lemma reco_notebook_run:
  "\<exists>c1 c2. 
     map call_name (new_calls w (reco_notebook afq_home w)) = reco_names \<and>
     parallel_settings (new_calls w (reco_notebook afq_home w)) = [] \<and>
     rng (reco_notebook afq_home w) = Advanced (Advanced (rng w)) \<and>
     fs (reco_notebook afq_home w) = (fs w)
       (op_join (op_join afq_home [''stanford_hardi'', ''derivatives'', ''recobundles'']) [''profiles.csv'']
          \<mapsto> (CSV, c1),
        op_join (op_join afq_home [''stanford_hardi'', ''derivatives'', ''recobundles''])
          [''all_bundles_figure.html''] \<mapsto> (HTML, c2))"
  apply (simp add: reco_defs pipeline_defs new_calls_def reco_names_def parallel_settings_def
      parallel_key_def cong: let_weak_cong bind_err_weak_cong)
  apply (intro exI)
  apply (rule refl)
  done

lemma slf_seeded:
  "slf_notebook afq_home lib (w\<lparr>rng := r1\<rparr>) = slf_notebook afq_home lib (w\<lparr>rng := r2\<rparr>)"
  by (simp add: slf_defs pipeline_defs cong: let_weak_cong bind_err_weak_cong)

lemma reco_unseeded:
  "reco_notebook ''/data'' (fresh_kernel\<lparr>rng := Unseeded 0\<rparr>) \<noteq>
   reco_notebook ''/data'' (fresh_kernel\<lparr>rng := Unseeded 1\<rparr>)"
  by (simp add: reco_defs pipeline_defs fresh_kernel_def cong: let_weak_cong bind_err_weak_cong)

section \<open>The figures of the visualization notebook\<close>

lemma viz_outputs_paths:
  "viz_outputs afq_home =
     [out_path afq_home ''arc_cst1.png'', out_path afq_home ''arc_cst2.png'',
      out_path afq_home ''arc_cst3.png'', out_path afq_home ''arc_cst4.png'',
      out_path afq_home ''arc_cst_fig.png'']"
  by (simp add: viz_outputs_def out_path_def)

lemmas out_distinct = paths_distinct [folded out_path_def]

lemmas with_hbn_kept = with_hbn_out [folded out_path_def]

text \<open>
  What a run of the visualization notebook is seen to do, in terms of the files that were
  there when it started.
\<close>

lemma viz_notebook_report:
  assumes "t1w_shape lib ''NDARAA948VFH'' = [nx, ny, nz]"
  shows "\<exists>w'. viz_notebook afq_home lib w = Inr w' \<and>
     map call_name (new_calls w w') =
       viz_first_names (op_exists (out_path afq_home ''arc_cst1.png'') w) @
       viz_later_names (op_exists (out_path afq_home ''arc_cst2.png'') w)
         (op_exists (out_path afq_home ''arc_cst3.png'') w)
         (op_exists (out_path afq_home ''arc_cst4.png'') w)
         (op_exists (out_path afq_home ''arc_cst_fig.png'') w) \<and>
     figures_written (new_calls w w') = filter (\<lambda>p. \<not> op_exists p w) (viz_outputs afq_home) \<and>
     parallel_settings (new_calls w w') = [] \<and>
     rng w' = rng w \<and>
     (\<exists>c1 c2 c3 c4 c5. fs w' = (with_hbn lib (fs w))
          (out_path afq_home ''arc_cst1.png'' := kept_or (fs w (out_path afq_home ''arc_cst1.png'')) (PNG, c1),
           out_path afq_home ''arc_cst2.png'' := kept_or (fs w (out_path afq_home ''arc_cst2.png'')) (PNG, c2),
           out_path afq_home ''arc_cst3.png'' := kept_or (fs w (out_path afq_home ''arc_cst3.png'')) (PNG, c3),
           out_path afq_home ''arc_cst4.png'' := kept_or (fs w (out_path afq_home ''arc_cst4.png'')) (PNG, c4),
           out_path afq_home ''arc_cst_fig.png'' := kept_or (fs w (out_path afq_home ''arc_cst_fig.png'')) (PNG, c5)))"
proof -
  from viz_notebook_run [OF assms, of afq_home w] obtain c1 c2 c3 c4 c5 w' where
    run: "viz_notebook afq_home lib w = Inr w'" and
    obs: "observed w w'
       (viz_first_names (fs w (out_path afq_home ''arc_cst1.png'') \<noteq> None) @
        viz_later_names (fs w (out_path afq_home ''arc_cst2.png'') \<noteq> None)
          (fs w (out_path afq_home ''arc_cst3.png'') \<noteq> None)
          (fs w (out_path afq_home ''arc_cst4.png'') \<noteq> None)
          (fs w (out_path afq_home ''arc_cst_fig.png'') \<noteq> None))
       (unless (fs w (out_path afq_home ''arc_cst1.png'') \<noteq> None) [out_path afq_home ''arc_cst1.png''] @
        unless (fs w (out_path afq_home ''arc_cst2.png'') \<noteq> None) [out_path afq_home ''arc_cst2.png''] @
        unless (fs w (out_path afq_home ''arc_cst3.png'') \<noteq> None) [out_path afq_home ''arc_cst3.png''] @
        unless (fs w (out_path afq_home ''arc_cst4.png'') \<noteq> None) [out_path afq_home ''arc_cst4.png''] @
        unless (fs w (out_path afq_home ''arc_cst_fig.png'') \<noteq> None) [out_path afq_home ''arc_cst_fig.png''])
       ((with_hbn lib (fs w))
          (out_path afq_home ''arc_cst1.png'' := kept_or (fs w (out_path afq_home ''arc_cst1.png'')) (PNG, c1),
           out_path afq_home ''arc_cst2.png'' := kept_or (fs w (out_path afq_home ''arc_cst2.png'')) (PNG, c2),
           out_path afq_home ''arc_cst3.png'' := kept_or (fs w (out_path afq_home ''arc_cst3.png'')) (PNG, c3),
           out_path afq_home ''arc_cst4.png'' := kept_or (fs w (out_path afq_home ''arc_cst4.png'')) (PNG, c4),
           out_path afq_home ''arc_cst_fig.png'' := kept_or (fs w (out_path afq_home ''arc_cst_fig.png'')) (PNG, c5)))"
    by blast
  note o = observed_new_calls [OF obs]
  have names: "map call_name (new_calls w w') =
       viz_first_names (op_exists (out_path afq_home ''arc_cst1.png'') w) @
       viz_later_names (op_exists (out_path afq_home ''arc_cst2.png'') w)
         (op_exists (out_path afq_home ''arc_cst3.png'') w)
         (op_exists (out_path afq_home ''arc_cst4.png'') w)
         (op_exists (out_path afq_home ''arc_cst_fig.png'') w)"
    using o(1) by (simp add: op_exists_def)
  have figs: "figures_written (new_calls w w') = filter (\<lambda>p. \<not> op_exists p w) (viz_outputs afq_home)"
    using o(2) by (simp add: viz_outputs_paths op_exists_def unless_def)
  have par: "parallel_settings (new_calls w w') = []"
    using o(3) by (simp add: parallel_settings_def list_ex_iff filter_empty_conv)
  from run names figs par o(4) o(5) show ?thesis
    by blast
qed

lemma kept_or_cases:
  "m \<noteq> None \<Longrightarrow> kept_or m v = m" "m = None \<Longrightarrow> kept_or m v = Some v"
  by (cases m; simp add: kept_or_def)+

text \<open>
  Claim C1. Started on any disk, the visualization notebook runs to its end, and the
  calls of \<open>window.record\<close> and \<open>format_and_save_figure\<close> it makes are exactly those for
  the figures that were missing, once each and in the order of the cells. A figure that
  was there is left as it was; a figure that was missing is there afterwards. Which calls
  the notebook makes depends on the disk through the presence of the five figures alone,
  and the two other notebooks make the same calls whatever they find.
\<close>

theorem figures_rendered_iff_missing:
  assumes "t1w_shape lib ''NDARAA948VFH'' = [nx, ny, nz]"
  shows "(\<exists>w'. viz_notebook afq_home lib w = Inr w' \<and>
       figures_written (new_calls w w') = filter (\<lambda>p. \<not> op_exists p w) (viz_outputs afq_home) \<and>
       distinct (viz_outputs afq_home) \<and>
       (\<forall>p \<in> set (viz_outputs afq_home).
          (p \<in> set (figures_written (new_calls w w')) \<longleftrightarrow> \<not> op_exists p w) \<and>
          (op_exists p w \<longrightarrow> fs w' p = fs w p) \<and>
          (\<not> op_exists p w \<longrightarrow> (\<exists>c. fs w' p = Some (PNG, c)))) \<and>
       map call_name (new_calls w w') =
         viz_first_names (op_exists (out_path afq_home ''arc_cst1.png'') w) @
         viz_later_names (op_exists (out_path afq_home ''arc_cst2.png'') w)
           (op_exists (out_path afq_home ''arc_cst3.png'') w)
           (op_exists (out_path afq_home ''arc_cst4.png'') w)
           (op_exists (out_path afq_home ''arc_cst_fig.png'') w)) \<and>
     (\<exists>w'. slf_notebook afq_home lib w = Inr w' \<and> map call_name (new_calls w w') = slf_names) \<and>
     map call_name (new_calls w (reco_notebook afq_home w)) = reco_names"
proof -
  from viz_notebook_report [OF assms, of afq_home w] obtain w' c1 c2 c3 c4 c5 where
    run: "viz_notebook afq_home lib w = Inr w'" and
    names: "map call_name (new_calls w w') =
       viz_first_names (op_exists (out_path afq_home ''arc_cst1.png'') w) @
       viz_later_names (op_exists (out_path afq_home ''arc_cst2.png'') w)
         (op_exists (out_path afq_home ''arc_cst3.png'') w)
         (op_exists (out_path afq_home ''arc_cst4.png'') w)
         (op_exists (out_path afq_home ''arc_cst_fig.png'') w)" and
    figs: "figures_written (new_calls w w') = filter (\<lambda>p. \<not> op_exists p w) (viz_outputs afq_home)" and
    files: "fs w' = (with_hbn lib (fs w))
          (out_path afq_home ''arc_cst1.png'' := kept_or (fs w (out_path afq_home ''arc_cst1.png'')) (PNG, c1),
           out_path afq_home ''arc_cst2.png'' := kept_or (fs w (out_path afq_home ''arc_cst2.png'')) (PNG, c2),
           out_path afq_home ''arc_cst3.png'' := kept_or (fs w (out_path afq_home ''arc_cst3.png'')) (PNG, c3),
           out_path afq_home ''arc_cst4.png'' := kept_or (fs w (out_path afq_home ''arc_cst4.png'')) (PNG, c4),
           out_path afq_home ''arc_cst_fig.png'' := kept_or (fs w (out_path afq_home ''arc_cst_fig.png'')) (PNG, c5))"
    by blast
  have dist: "distinct (viz_outputs afq_home)"
    by (simp add: viz_outputs_paths out_distinct)
  have mem: "\<forall>p \<in> set (viz_outputs afq_home).
      (p \<in> set (figures_written (new_calls w w')) \<longleftrightarrow> \<not> op_exists p w)"
    by (simp add: figs)
  have kept: "\<forall>p \<in> set (viz_outputs afq_home). op_exists p w \<longrightarrow> fs w' p = fs w p"
    by (simp add: viz_outputs_paths files out_distinct with_hbn_kept op_exists_def kept_or_cases)
  have made: "\<forall>p \<in> set (viz_outputs afq_home). \<not> op_exists p w \<longrightarrow> (\<exists>c. fs w' p = Some (PNG, c))"
    by (auto simp add: viz_outputs_paths files out_distinct with_hbn_kept op_exists_def kept_or_def
        split: option.splits)
  from slf_notebook_run [of afq_home lib w] obtain v' where
    slf: "slf_notebook afq_home lib w = Inr v'" "map call_name (new_calls w v') = slf_names"
    by blast
  from reco_notebook_run [of w afq_home] have
    reco: "map call_name (new_calls w (reco_notebook afq_home w)) = reco_names"
    by blast
  from run figs dist mem kept made names have
    "\<exists>w'. viz_notebook afq_home lib w = Inr w' \<and>
       figures_written (new_calls w w') = filter (\<lambda>p. \<not> op_exists p w) (viz_outputs afq_home) \<and>
       distinct (viz_outputs afq_home) \<and>
       (\<forall>p \<in> set (viz_outputs afq_home).
          (p \<in> set (figures_written (new_calls w w')) \<longleftrightarrow> \<not> op_exists p w) \<and>
          (op_exists p w \<longrightarrow> fs w' p = fs w p) \<and>
          (\<not> op_exists p w \<longrightarrow> (\<exists>c. fs w' p = Some (PNG, c)))) \<and>
       map call_name (new_calls w w') =
         viz_first_names (op_exists (out_path afq_home ''arc_cst1.png'') w) @
         viz_later_names (op_exists (out_path afq_home ''arc_cst2.png'') w)
           (op_exists (out_path afq_home ''arc_cst3.png'') w)
           (op_exists (out_path afq_home ''arc_cst4.png'') w)
           (op_exists (out_path afq_home ''arc_cst_fig.png'') w)"
    by blast
  with slf reco show ?thesis
    by blast
qed

theorem figures_rendered_iff_missing_witness:
  "t1w_shape sample_data ''NDARAA948VFH'' = [200, 240, 180] \<and>
   (\<exists>w'. viz_notebook ''/home/afq'' sample_data
            (fresh_kernel\<lparr>fs := [out_path ''/home/afq'' ''arc_cst1.png'' \<mapsto> (PNG, PStr ''old'')]\<rparr>) = Inr w' \<and>
      figures_written
        (new_calls (fresh_kernel\<lparr>fs := [out_path ''/home/afq'' ''arc_cst1.png'' \<mapsto> (PNG, PStr ''old'')]\<rparr>) w') =
        [out_path ''/home/afq'' ''arc_cst2.png'', out_path ''/home/afq'' ''arc_cst3.png'',
         out_path ''/home/afq'' ''arc_cst4.png'', out_path ''/home/afq'' ''arc_cst_fig.png''] \<and>
      fs w' (out_path ''/home/afq'' ''arc_cst1.png'') = Some (PNG, PStr ''old''))"
proof -
  let ?W = "fresh_kernel\<lparr>fs := [out_path ''/home/afq'' ''arc_cst1.png'' \<mapsto> (PNG, PStr ''old'')]\<rparr>"
  have shape: "t1w_shape sample_data ''NDARAA948VFH'' = [200, 240, 180]"
    by (simp add: sample_data_def)
  from figures_rendered_iff_missing [OF shape, of "''/home/afq''" ?W] obtain w' where
    run: "viz_notebook ''/home/afq'' sample_data ?W = Inr w'" and
    figs: "figures_written (new_calls ?W w') =
             filter (\<lambda>p. \<not> op_exists p ?W) (viz_outputs ''/home/afq'')" and
    kept: "\<forall>p \<in> set (viz_outputs ''/home/afq'').
             (p \<in> set (figures_written (new_calls ?W w')) \<longleftrightarrow> \<not> op_exists p ?W) \<and>
             (op_exists p ?W \<longrightarrow> fs w' p = fs ?W p) \<and>
             (\<not> op_exists p ?W \<longrightarrow> (\<exists>c. fs w' p = Some (PNG, c)))"
    by blast
  have a: "figures_written (new_calls ?W w') =
        [out_path ''/home/afq'' ''arc_cst2.png'', out_path ''/home/afq'' ''arc_cst3.png'',
         out_path ''/home/afq'' ''arc_cst4.png'', out_path ''/home/afq'' ''arc_cst_fig.png'']"
    by (simp add: figs viz_outputs_paths op_exists_def out_distinct)
  have b: "fs w' (out_path ''/home/afq'' ''arc_cst1.png'') = Some (PNG, PStr ''old'')"
    using kept by (simp add: viz_outputs_paths op_exists_def)
  from shape run a b show ?thesis
    by blast
qed


section \<open>Fetching\<close>

lemma viz_fetches_first: "fetches_first (viz_first_names e1 @ ns)"
  by (simp add: fetches_first_def viz_first_names_def is_fetch_def)

lemma slf_fetches_first: "fetches_first slf_names"
  by (simp add: fetches_first_def slf_names_def is_fetch_def)

lemma reco_fetches_nothing: "\<not> list_ex is_fetch reco_names" "\<not> fetches_first reco_names"
  by (simp_all add: fetches_first_def reco_names_def is_fetch_def)

text \<open>
  Claim C2, as far as it holds. The visualization notebook and the SLF notebook run to
  their end, and the first library function they call (the seeding of the random number
  generator apart) is a fetcher. The RecoBundles notebook calls no fetcher at all.
\<close>

theorem fetch_comes_first:
  assumes "t1w_shape lib ''NDARAA948VFH'' = [nx, ny, nz]"
  shows "(\<exists>w'. viz_notebook afq_home lib w = Inr w' \<and>
            fetches_first (map call_name (new_calls w w'))) \<and>
         (\<exists>w'. slf_notebook afq_home lib w = Inr w' \<and>
            fetches_first (map call_name (new_calls w w'))) \<and>
         \<not> list_ex is_fetch (map call_name (new_calls w (reco_notebook afq_home w)))"
proof -
  from viz_notebook_report [OF assms, of afq_home w] obtain w' where
    "viz_notebook afq_home lib w = Inr w'" "fetches_first (map call_name (new_calls w w'))"
    by (auto simp: viz_fetches_first)
  moreover from slf_notebook_run [of afq_home lib w] obtain v' where
    "slf_notebook afq_home lib w = Inr v'" "fetches_first (map call_name (new_calls w v'))"
    by (auto simp: slf_fetches_first)
  moreover from reco_notebook_run [of w afq_home] have
    "\<not> list_ex is_fetch (map call_name (new_calls w (reco_notebook afq_home w)))"
    by (auto simp: reco_fetches_nothing)
  ultimately show ?thesis
    by blast
qed

theorem fetch_comes_first_witness:
  "t1w_shape sample_data ''NDARAA948VFH'' = [200, 240, 180] \<and>
   (\<exists>w'. viz_notebook ''/home/afq'' sample_data fresh_kernel = Inr w' \<and>
      fetches_first (map call_name (new_calls fresh_kernel w'))) \<and>
   (\<exists>w'. slf_notebook ''/home/afq'' sample_data fresh_kernel = Inr w' \<and>
      fetches_first (map call_name (new_calls fresh_kernel w'))) \<and>
   \<not> list_ex is_fetch (map call_name (new_calls fresh_kernel (reco_notebook ''/home/afq'' fresh_kernel)))"
proof -
  have shape: "t1w_shape sample_data ''NDARAA948VFH'' = [200, 240, 180]"
    by (simp add: sample_data_def)
  from fetch_comes_first [OF shape, of "''/home/afq''" fresh_kernel] shape show ?thesis
    by simp
qed

text \<open>
  The RecoBundles notebook on a freshly started kernel: the library functions it calls,
  in order. No fetcher is among them, and the first call constructs the bundle
  dictionary.
\<close>

theorem reco_notebook_never_fetches:
  "map call_name (new_calls fresh_kernel (reco_notebook ''/home/afq'' fresh_kernel)) =
     [''abd.reco_bd'', ''GroupAFQ'', ''export'', ''export'', ''plotly.io.show''] \<and>
   \<not> fetches_first (map call_name (new_calls fresh_kernel (reco_notebook ''/home/afq'' fresh_kernel)))"
proof -
  from reco_notebook_run [of fresh_kernel "''/home/afq''"] have
    n: "map call_name (new_calls fresh_kernel (reco_notebook ''/home/afq'' fresh_kernel)) = reco_names"
    by blast
  then show ?thesis
    by (simp add: reco_fetches_nothing) (simp add: reco_names_def)
qed

section \<open>What is left on disk\<close>

lemma last_op_join1: "n \<noteq> [] \<Longrightarrow> last (op_join d [n]) = last n"
  by (simp add: op_join_def last_join2)

lemma last_hbn_t1w: "last (hbn_t1w lib ''NDARAA948VFH'') = CHR ''z''"
  by (simp add: nf_t1w last_t1w del: last.simps)

lemma last_hbn_bundle: "last (hbn_bundle lib ''NDARAA948VFH'' ''ARC_L'') = CHR ''k''"
  by (simp add: nf_arc last_arc del: last.simps)

lemma op_join1_neq:
  "a \<noteq> [] \<Longrightarrow> b \<noteq> [] \<Longrightarrow> last a \<noteq> last b \<Longrightarrow> (op_join d [a] = op_join e [b]) = False"
  by (metis last_op_join1)

lemma t1w_neq_op_join1:
  "b \<noteq> [] \<Longrightarrow> last b \<noteq> CHR ''z'' \<Longrightarrow> (hbn_t1w lib ''NDARAA948VFH'' = op_join e [b]) = False"
  by (metis last_op_join1 last_hbn_t1w)

lemma slf_files:
  "\<exists>w' c1 c2 c3. slf_notebook afq_home lib w = Inr w' \<and>
     fs w' (hbn_t1w lib ''NDARAA948VFH'') =
       Some (NIFTI, PArr (t1w_shape lib ''NDARAA948VFH'') (PSym ''T1w'' [PStr ''NDARAA948VFH''])) \<and>
     fs w' (op_join (op_join (hbn_home lib) [''derivatives'', ''afq_slf'']) [''profiles.csv'']) = Some (CSV, c1) \<and>
     fs w' (op_join (op_join (hbn_home lib) [''derivatives'', ''afq_slf'']) [''montage.png'']) = Some (PNG, c2) \<and>
     fs w' (op_join (op_join (hbn_home lib) [''derivatives'', ''afq_slf'']) [''all_bundles_figure.html''])
       = Some (HTML, c3)"
proof -
  from slf_notebook_run [of afq_home lib w] obtain c1 c2 c3 w' where
    run: "slf_notebook afq_home lib w = Inr w'" and
    files: "fs w' = (fs w)
       (hbn_t1w lib ''NDARAA948VFH'' \<mapsto>
          (NIFTI, PArr (t1w_shape lib ''NDARAA948VFH'') (PSym ''T1w'' [PStr ''NDARAA948VFH''])),
        op_join (op_join (hbn_home lib) [''derivatives'', ''afq_slf'']) [''profiles.csv''] \<mapsto> (CSV, c1),
        op_join (op_join (hbn_home lib) [''derivatives'', ''afq_slf'']) [''montage.png''] \<mapsto> (PNG, c2),
        op_join (op_join (hbn_home lib) [''derivatives'', ''afq_slf'']) [''all_bundles_figure.html'']
          \<mapsto> (HTML, c3))"
    by blast
  have "fs w' (hbn_t1w lib ''NDARAA948VFH'') =
       Some (NIFTI, PArr (t1w_shape lib ''NDARAA948VFH'') (PSym ''T1w'' [PStr ''NDARAA948VFH'']))"
    "fs w' (op_join (op_join (hbn_home lib) [''derivatives'', ''afq_slf'']) [''profiles.csv'']) = Some (CSV, c1)"
    "fs w' (op_join (op_join (hbn_home lib) [''derivatives'', ''afq_slf'']) [''montage.png'']) = Some (PNG, c2)"
    "fs w' (op_join (op_join (hbn_home lib) [''derivatives'', ''afq_slf'']) [''all_bundles_figure.html''])
       = Some (HTML, c3)"
    by (simp_all add: files op_join1_neq t1w_neq_op_join1)
  with run show ?thesis
    by blast
qed

lemma reco_files:
  "\<exists>c1 c2.
     fs (reco_notebook afq_home w)
        (op_join (op_join afq_home [''stanford_hardi'', ''derivatives'', ''recobundles'']) [''profiles.csv''])
       = Some (CSV, c1) \<and>
     fs (reco_notebook afq_home w)
        (op_join (op_join afq_home [''stanford_hardi'', ''derivatives'', ''recobundles''])
           [''all_bundles_figure.html''])
       = Some (HTML, c2)"
proof -
  from reco_notebook_run [of w afq_home] obtain c1 c2 where
    files: "fs (reco_notebook afq_home w) = (fs w)
       (op_join (op_join afq_home [''stanford_hardi'', ''derivatives'', ''recobundles'']) [''profiles.csv'']
          \<mapsto> (CSV, c1),
        op_join (op_join afq_home [''stanford_hardi'', ''derivatives'', ''recobundles''])
          [''all_bundles_figure.html''] \<mapsto> (HTML, c2))"
    by blast
  show ?thesis
    by (simp add: files op_join1_neq)
qed

lemma viz_files:
  assumes "t1w_shape lib ''NDARAA948VFH'' = [nx, ny, nz]"
  shows "\<exists>w'. viz_notebook afq_home lib w = Inr w' \<and>
     fs w' (hbn_t1w lib ''NDARAA948VFH'') =
       Some (NIFTI, PArr [nx, ny, nz] (PSym ''T1w'' [PStr ''NDARAA948VFH''])) \<and>
     fs w' (hbn_bundle lib ''NDARAA948VFH'' ''ARC_L'') = Some (TRK, PSym ''ARC_L'' [PStr ''NDARAA948VFH'']) \<and>
     (\<forall>p \<in> set (figures_written (new_calls w w')). \<exists>c. fs w' p = Some (PNG, c))"
proof -
  from viz_notebook_report [OF assms, of afq_home w] obtain w' c1 c2 c3 c4 c5 where
    run: "viz_notebook afq_home lib w = Inr w'" and
    figs: "figures_written (new_calls w w') = filter (\<lambda>p. \<not> op_exists p w) (viz_outputs afq_home)" and
    files: "fs w' = (with_hbn lib (fs w))
          (out_path afq_home ''arc_cst1.png'' := kept_or (fs w (out_path afq_home ''arc_cst1.png'')) (PNG, c1),
           out_path afq_home ''arc_cst2.png'' := kept_or (fs w (out_path afq_home ''arc_cst2.png'')) (PNG, c2),
           out_path afq_home ''arc_cst3.png'' := kept_or (fs w (out_path afq_home ''arc_cst3.png'')) (PNG, c3),
           out_path afq_home ''arc_cst4.png'' := kept_or (fs w (out_path afq_home ''arc_cst4.png'')) (PNG, c4),
           out_path afq_home ''arc_cst_fig.png'' := kept_or (fs w (out_path afq_home ''arc_cst_fig.png'')) (PNG, c5))"
    by blast
  have "fs w' (hbn_t1w lib ''NDARAA948VFH'') =
       Some (NIFTI, PArr [nx, ny, nz] (PSym ''T1w'' [PStr ''NDARAA948VFH'']))"
    "fs w' (hbn_bundle lib ''NDARAA948VFH'' ''ARC_L'') = Some (TRK, PSym ''ARC_L'' [PStr ''NDARAA948VFH''])"
    by (simp_all add: files out_distinct with_hbn_files assms)
  moreover have "\<forall>p \<in> set (figures_written (new_calls w w')). \<exists>c. fs w' p = Some (PNG, c)"
    by (auto simp add: figs viz_outputs_paths files out_distinct with_hbn_kept op_exists_def kept_or_def
        split: option.splits)
  ultimately show ?thesis
    using run by blast
qed

text \<open>
  Claim C3, as far as it holds. After a run the disk holds, besides PNG figures and HTML
  pages, the data files the fetchers have stored (NIfTI volumes, TRK tractograms) and the
  table of tract profiles that \<open>export("profiles")\<close> has written (CSV). Every file that
  the visualization notebook writes by \<open>window.record\<close> or \<open>format_and_save_figure\<close> is a
  PNG file.
\<close>

theorem files_left_on_disk:
  assumes "t1w_shape lib ''NDARAA948VFH'' = [nx, ny, nz]"
  shows
   "(\<exists>w'. viz_notebook afq_home lib w = Inr w' \<and>
       fs w' (hbn_t1w lib ''NDARAA948VFH'') =
         Some (NIFTI, PArr [nx, ny, nz] (PSym ''T1w'' [PStr ''NDARAA948VFH''])) \<and>
       fs w' (hbn_bundle lib ''NDARAA948VFH'' ''ARC_L'') = Some (TRK, PSym ''ARC_L'' [PStr ''NDARAA948VFH'']) \<and>
       (\<forall>p \<in> set (figures_written (new_calls w w')). \<exists>c. fs w' p = Some (PNG, c))) \<and>
    (\<exists>w' c1 c2 c3. slf_notebook afq_home lib w = Inr w' \<and>
       fs w' (hbn_t1w lib ''NDARAA948VFH'') =
         Some (NIFTI, PArr [nx, ny, nz] (PSym ''T1w'' [PStr ''NDARAA948VFH''])) \<and>
       fs w' (op_join (op_join (hbn_home lib) [''derivatives'', ''afq_slf'']) [''profiles.csv'']) = Some (CSV, c1) \<and>
       fs w' (op_join (op_join (hbn_home lib) [''derivatives'', ''afq_slf'']) [''montage.png'']) = Some (PNG, c2) \<and>
       fs w' (op_join (op_join (hbn_home lib) [''derivatives'', ''afq_slf'']) [''all_bundles_figure.html''])
         = Some (HTML, c3)) \<and>
    (\<exists>c1 c2.
       fs (reco_notebook afq_home w)
          (op_join (op_join afq_home [''stanford_hardi'', ''derivatives'', ''recobundles'']) [''profiles.csv''])
         = Some (CSV, c1) \<and>
       fs (reco_notebook afq_home w)
          (op_join (op_join afq_home [''stanford_hardi'', ''derivatives'', ''recobundles''])
             [''all_bundles_figure.html''])
         = Some (HTML, c2))"
  using viz_files [OF assms, of afq_home w] slf_files [of afq_home lib w] reco_files [of afq_home w]
  by (simp add: assms)

theorem files_left_on_disk_witness:
  "t1w_shape sample_data ''NDARAA948VFH'' = [200, 240, 180] \<and>
   (\<exists>w'. viz_notebook ''/home/afq'' sample_data fresh_kernel = Inr w' \<and>
      fs w' (hbn_bundle sample_data ''NDARAA948VFH'' ''ARC_L'') = Some (TRK, PSym ''ARC_L'' [PStr ''NDARAA948VFH''])) \<and>
   (\<exists>c. fs (reco_notebook ''/home/afq'' fresh_kernel)
          (op_join (op_join ''/home/afq'' [''stanford_hardi'', ''derivatives'', ''recobundles'']) [''profiles.csv''])
         = Some (CSV, c))"
proof -
  have shape: "t1w_shape sample_data ''NDARAA948VFH'' = [200, 240, 180]"
    by (simp add: sample_data_def)
  from files_left_on_disk [OF shape, of "''/home/afq''" fresh_kernel] shape show ?thesis
    by blast
qed

text \<open>
  The SLF notebook on a freshly started kernel and an empty disk: afterwards the disk
  holds the table of tract profiles, a CSV file, and the T1-weighted volume that the
  fetcher has stored, a NIfTI file. Neither is a PNG figure or an HTML page.
\<close>

theorem slf_notebook_leaves_a_table:
  "\<exists>w' c. slf_notebook ''/home/afq'' sample_data fresh_kernel = Inr w' \<and>
     fs w' (op_join (op_join (hbn_home sample_data) [''derivatives'', ''afq_slf'']) [''profiles.csv''])
       = Some (CSV, c) \<and>
     fs w' (hbn_t1w sample_data ''NDARAA948VFH'') =
       Some (NIFTI, PArr [200, 240, 180] (PSym ''T1w'' [PStr ''NDARAA948VFH'']))"
proof -
  from slf_files [of "''/home/afq''" sample_data fresh_kernel] show ?thesis
    by (auto simp: sample_data_def)
qed

section \<open>The order of the stages\<close>









section \<open>Parallelism options\<close>

text \<open>
  Claim C7, as far as it holds. One parallelism option is set by the notebooks: the SLF
  notebook passes \<open>segmentation_params={"parallel_segmentation": {"engine": "serial"}}\<close>
  to \<open>GroupAFQ\<close>, and no other call of it carries such an option. The visualization
  notebook and the RecoBundles notebook pass none.
\<close>

theorem parallelism_options_passed:
  assumes "t1w_shape lib ''NDARAA948VFH'' = [nx, ny, nz]"
  shows "(\<exists>w'. slf_notebook afq_home lib w = Inr w' \<and>
            parallel_settings (new_calls w w') =
              [(''GroupAFQ'',
                Some (PDict [(''parallel_segmentation'', PDict [(''engine'', PStr ''serial'')])]))]) \<and>
         (\<exists>w'. viz_notebook afq_home lib w = Inr w' \<and> parallel_settings (new_calls w w') = []) \<and>
         parallel_settings (new_calls w (reco_notebook afq_home w)) = []"
proof -
  from slf_notebook_run [of afq_home lib w] have
    a: "\<exists>w'. slf_notebook afq_home lib w = Inr w' \<and>
            parallel_settings (new_calls w w') =
              [(''GroupAFQ'',
                Some (PDict [(''parallel_segmentation'', PDict [(''engine'', PStr ''serial'')])]))]"
    by blast
  from viz_notebook_report [OF assms, of afq_home w] have
    b: "\<exists>w'. viz_notebook afq_home lib w = Inr w' \<and> parallel_settings (new_calls w w') = []"
    by blast
  from reco_notebook_run [of w afq_home] have
    c: "parallel_settings (new_calls w (reco_notebook afq_home w)) = []"
    by blast
  from a b c show ?thesis
    by blast
qed

theorem parallelism_options_passed_witness:
  "t1w_shape sample_data ''NDARAA948VFH'' = [200, 240, 180] \<and>
   (\<exists>w'. viz_notebook ''/home/afq'' sample_data fresh_kernel = Inr w' \<and>
      parallel_settings (new_calls fresh_kernel w') = []) \<and>
   parallel_settings (new_calls fresh_kernel (reco_notebook ''/home/afq'' fresh_kernel)) = []"
proof -
  have shape: "t1w_shape sample_data ''NDARAA948VFH'' = [200, 240, 180]"
    by (simp add: sample_data_def)
  from parallelism_options_passed [OF shape, of "''/home/afq''" fresh_kernel] shape show ?thesis
    by blast
qed

text \<open>
  The SLF notebook on a freshly started kernel: its call of \<open>GroupAFQ\<close> carries a
  parallelism option, the engine of the parallel segmentation, set to \<open>serial\<close>.
\<close>

theorem slf_notebook_sets_engine:
  "\<exists>w'. slf_notebook ''/home/afq'' sample_data fresh_kernel = Inr w' \<and>
     parallel_settings (new_calls fresh_kernel w') =
       [(''GroupAFQ'',
         Some (PDict [(''parallel_segmentation'', PDict [(''engine'', PStr ''serial'')])]))]"
proof -
  from slf_notebook_run [of "''/home/afq''" sample_data fresh_kernel] show ?thesis
    by blast
qed


section \<open>The random number generator\<close>

lemma slf_seed_run:
  "\<exists>w' evs cfg. slf_notebook afq_home lib w = Inr w' \<and>
     new_calls w w' = Call ''np.random.seed'' [PInt 1234] [] # evs \<and>
     map call_name evs =
       [''afd.fetch_hbn_preproc'', ''afd.read_templates'', ''abd.BundleDict'', ''ImageFile'',
        ''RoiImage'', ''GroupAFQ'', ''export'', ''group_montage'', ''Image'', ''export'',
        ''plotly.io.show''] \<and>
     fs w' (op_join (op_join (hbn_home lib) [''derivatives'', ''afq_slf'']) [''profiles.csv'']) =
       Some (CSV, PSym ''export'' [PStr ''profiles'', PDict cfg, rng_val (Seeded 1234)])"
  by (simp add: slf_defs pipeline_defs new_calls_def op_join1_neq
      cong: let_weak_cong bind_err_weak_cong)

text \<open>
  Claim C10. The SLF notebook runs to its end; the first library call it makes is
  \<open>np.random.seed(1234)\<close>, before the pipeline object is constructed, and the tract
  profiles it exports are those computed from the generator as seeded with 1234. Two
  runs that start from the same disk and heap but from different states of the generator
  end in the same state, with the same files and the same calls.
\<close>

theorem slf_run_is_seeded:
  "slf_notebook afq_home lib (w\<lparr>rng := r1\<rparr>) = slf_notebook afq_home lib (w\<lparr>rng := r2\<rparr>) \<and>
   (\<exists>w' evs cfg. slf_notebook afq_home lib w = Inr w' \<and>
      new_calls w w' = Call ''np.random.seed'' [PInt 1234] [] # evs \<and>
      map call_name evs =
        [''afd.fetch_hbn_preproc'', ''afd.read_templates'', ''abd.BundleDict'', ''ImageFile'',
         ''RoiImage'', ''GroupAFQ'', ''export'', ''group_montage'', ''Image'', ''export'',
         ''plotly.io.show''] \<and>
      fs w' (op_join (op_join (hbn_home lib) [''derivatives'', ''afq_slf'']) [''profiles.csv'']) =
        Some (CSV, PSym ''export'' [PStr ''profiles'', PDict cfg, rng_val (Seeded 1234)]))"
  using slf_seeded [where afq_home = afq_home and lib = lib and w = w and ?r1.0 = r1 and ?r2.0 = r2]
    slf_seed_run [of afq_home lib w]
  by blast


section \<open>Image objects are never modified\<close>

lemma images_kept_refl: "images_kept w w"
  by (simp add: images_kept_def)

lemma images_kept_trans: "images_kept w w1 \<Longrightarrow> images_kept w1 w2 \<Longrightarrow> images_kept w w2"
  by (auto simp: images_kept_def)

lemma images_kept_if: "images_kept w a \<Longrightarrow> images_kept w b \<Longrightarrow> images_kept w (if c then a else b)"
  by simp

lemma images_kept_heap: "heap w' = heap w \<Longrightarrow> images_kept w w'"
  by (simp add: images_kept_def)

lemma images_kept_emit: "images_kept w w' \<Longrightarrow> images_kept w (emit e w')"
  by (simp add: images_kept_def emit_def)

lemma images_kept_alloc: "images_kept w (snd (alloc ob w))"
  by (simp add: images_kept_def alloc_def nth_append)

lemma images_kept_mutate:
  assumes "\<And>c. f (Nifti c) = Nifti c"
  shows "images_kept w (mutate r f w)"
proof -
  have "(heap w)[r := f (heap w ! r)] ! a = heap w ! a" if "is_nifti (heap w ! a)" for a
  proof (cases "a = r")
    case True
    from that obtain c where "heap w ! a = Nifti c"
      by (cases "heap w ! a") simp_all
    with True assms have "f (heap w ! r) = heap w ! r"
      by simp
    with True show ?thesis
      by (simp add: list_update_id)
  next
    case False
    then show ?thesis
      by simp
  qed
  then show ?thesis
    by (simp add: images_kept_def mutate_def)
qed

lemma images_kept_write: "images_kept w (write_file p k c w)"
  by (simp add: images_kept_def write_file_def)

lemma images_kept_writes: "images_kept w (write_files fl w)"
proof -
  have "heap (foldl (\<lambda>w (p, k, c). write_file p k c w) w fl) = heap w" for w
    by (induction fl arbitrary: w) (simp_all add: write_file_def split_def)
  then show ?thesis
    by (simp add: images_kept_def write_files_def)
qed

text \<open>The operations of the libraries, one by one.\<close>

lemma keep_world_ops:
  "images_kept w (SetRenderLinesAsTubes p v w)"
  "images_kept w (display_extent a e w)"
  "images_kept w (to_rasmm r w)"
  "images_kept w (to_vox r w)"
  "images_kept w (scene_add s a w)"
  "images_kept w (scene_clear s w)"
  "images_kept w (set_camera s kw w)"
  "images_kept w (window_record s path sz w)"
  "images_kept w (format_and_save_figure pf path w)"
  "images_kept w (np_random_seed n w)"
  "images_kept w (IPython_Image kw w)"
  "images_kept w (plotly_io_show fig w)"
  by (simp_all add: SetRenderLinesAsTubes_def display_extent_def to_rasmm_def to_vox_def scene_add_def
      scene_clear_def set_camera_def window_record_def format_and_save_figure_def np_random_seed_def
      IPython_Image_def plotly_io_show_def images_kept_emit images_kept_mutate images_kept_write
      images_kept_heap)

lemma images_kept_add_each: "images_kept w (add_each s slicers w)"
proof -
  have "images_kept w (foldl (\<lambda>w slicer. scene_add s slicer w) w0 slicers)" if "images_kept w w0" for w0
    using that
  proof (induction slicers arbitrary: w0)
    case Nil
    then show ?case by simp
  next
    case (Cons a slicers)
    from Cons.prems keep_world_ops(5) [of w0 s a] have "images_kept w (scene_add s a w0)"
      by (rule images_kept_trans)
    then show ?case
      using Cons.IH by simp
  qed
  then show ?thesis
    by (simp add: add_each_def images_kept_refl)
qed

lemma keep_pair_ops:
  "images_kept w (snd (actor_line sl kw w))"
  "images_kept w (snd (actor_slicer data w))"
  "images_kept w (snd (slicer_copy a w))"
  "images_kept w (snd (get_fdata r w))"
  "images_kept w (snd (transform_streamlines sl m w))"
  "images_kept w (snd (set_number_of_points sl n w))"
  "images_kept w (snd (afq_profile data sl kw w))"
  "images_kept w (snd (resample moving static w))"
  "images_kept w (snd (window_Scene w))"
  "images_kept w (snd (contour_from_roi data kw w))"
  "images_kept w (snd (create_colormap v name w))"
  "images_kept w (snd (PanelFigure nr nc wd ht w))"
  "images_kept w (snd (read_templates kw w))"
  "images_kept w (snd (BundleDict d w))"
  "images_kept w (snd (reco_bd k w))"
  "images_kept w (snd (ImageFile kw w))"
  "images_kept w (snd (RoiImage w))"
  "images_kept w (snd (GroupAFQ kw w))"
  "images_kept w (snd (export r what w))"
  "images_kept w (snd (group_montage r args kw w))"
  "images_kept w (snd (fetch_hbn_preproc subjects lib w))"
  "images_kept w (snd (fetch_hbn_afq subjects lib w))"
  by (simp_all add: actor_line_def actor_slicer_def slicer_copy_def get_fdata_def
      transform_streamlines_def set_number_of_points_def afq_profile_def resample_def window_Scene_def
      contour_from_roi_def create_colormap_def PanelFigure_def read_templates_def BundleDict_def
      reco_bd_def ImageFile_def RoiImage_def GroupAFQ_def export_def group_montage_def
      fetch_hbn_preproc_def fetch_hbn_afq_def
      images_kept_def emit_def alloc_def write_file_def nth_append Let_def split_def
      images_kept_writes [unfolded images_kept_def] split: option.splits)

text \<open>The rules by which a cell is taken apart.\<close>

lemma kp_final:
  "images_kept w x \<Longrightarrow> kp fin_w w x"
  "images_kept w x \<Longrightarrow> kp fin_p w (v, x)"
  "images_kept w x \<Longrightarrow> kp fin_e w (Inr x)"
  "images_kept w x \<Longrightarrow> kp fin_ep w (Inr (v, x))"
  "kp fin_e w (Inl e)"
  "kp fin_ep w (Inl e)"
  by (simp_all add: kp_def fin_w_def fin_p_def fin_e_def fin_ep_def)

lemma kp_weaken: "images_kept w w1 \<Longrightarrow> kp g w1 r \<Longrightarrow> kp g w r"
  by (auto simp: kp_def intro: images_kept_trans split: option.splits)

lemma kp_let_world:
  fixes x :: world
  shows "images_kept w x \<Longrightarrow> (\<And>w1. kp g w1 (f w1)) \<Longrightarrow> kp g w (Let x f)"
  by (simp add: kp_weaken)

lemma kp_let_pair:
  fixes x :: "'a \<times> world"
  shows "images_kept w (snd x) \<Longrightarrow> (\<And>a w1. kp g w1 (f a w1)) \<Longrightarrow> kp g w (Let x (case_prod f))"
  by (cases x) (simp add: kp_weaken)

lemma kp_bind_world:
  fixes m :: "error + world"
  shows "kp fin_e w m \<Longrightarrow> (\<And>w1. kp fin_e w1 (f w1)) \<Longrightarrow> kp fin_e w (bind_err m f)"
    and "kp fin_e w m \<Longrightarrow> (\<And>w1. kp fin_ep w1 (h w1)) \<Longrightarrow> kp fin_ep w (bind_err m h)"
  by (cases m; simp add: bind_err_def kp_final; simp add: kp_def fin_e_def kp_weaken [unfolded kp_def])+

lemma kp_bind_pair:
  fixes m :: "error + 'a \<times> world"
  shows "kp fin_ep w m \<Longrightarrow> (\<And>a w1. kp fin_e w1 (f a w1)) \<Longrightarrow> kp fin_e w (bind_err m (case_prod f))"
    and "kp fin_ep w m \<Longrightarrow> (\<And>a w1. kp fin_ep w1 (h a w1)) \<Longrightarrow> kp fin_ep w (bind_err m (case_prod h))"
  by (cases m; simp add: bind_err_def kp_final; auto simp add: kp_def fin_ep_def intro: kp_weaken [unfolded kp_def])+

lemma kp_let_pure: "(\<And>v. kp g w (f v)) \<Longrightarrow> kp g w (Let x f)"
  by simp

lemma kp_bind_pure:
  "(\<And>v. kp fin_e w (f v)) \<Longrightarrow> kp fin_e w (bind_err m f)"
  "(\<And>v. kp fin_ep w (h v)) \<Longrightarrow> kp fin_ep w (bind_err m h)"
  by (cases m; simp add: bind_err_def kp_final)+

lemma kp_split:
  "(\<And>a b. kp g w (f a b)) \<Longrightarrow> kp g w (case_prod f p)"
  "(\<And>a b. kp g w (f' a b z)) \<Longrightarrow> kp g w (case_prod f' p z)"
  by (cases p; simp)+

lemma kp_if: "kp g w a \<Longrightarrow> kp g w b \<Longrightarrow> kp g w (if c then a else b)"
  by simp

lemma kp_case_option:
  "kp g w a \<Longrightarrow> (\<And>v. kp g w (f v)) \<Longrightarrow> kp g w (case z of None \<Rightarrow> a | Some v \<Rightarrow> f v)"
  by (cases z) simp_all

lemmas kp_steps = kp_let_world kp_let_pair kp_bind_world kp_bind_pair kp_if kp_case_option kp_final
  images_kept_if keep_world_ops keep_pair_ops images_kept_add_each images_kept_refl

lemma kp_pair: "images_kept w (snd p) \<Longrightarrow> kp fin_p w p"
  by (simp add: kp_def fin_p_def)

lemmas kp_pure = kp_let_pure kp_bind_pure kp_split kp_pair

text \<open>The helper functions and the cells.\<close>

lemma keep_SetLineWidth: "kp fin_e w (SetLineWidth p v w)"
  by (cases "line_width_of v")
     (simp_all add: SetLineWidth_def bind_err_def kp_final images_kept_emit images_kept_mutate
        del: line_width_of.simps)

lemma keep_lines_as_tubes: "kp fin_ep w (lines_as_tubes sl lw kw w)"
  unfolding lines_as_tubes_def
  by (rule kp_steps keep_SetLineWidth | rule kp_pure)+

lemma keep_slice_volume: "kp fin_ep w (slice_volume data x y z w)"
  unfolding slice_volume_def
  by (rule kp_steps | rule kp_pure)+

lemma keep_loads:
  "kp fin_ep w (nib_load p w)" "kp fin_ep w (load_trk p ref w)" "kp fin_e w (add_img pf fname x y w)"
  unfolding nib_load_def load_trk_def add_img_def
  by ((rule kp_steps images_kept_alloc images_kept_emit images_kept_mutate | rule kp_pure | simp)+)

lemmas kp_ops = keep_lines_as_tubes keep_slice_volume keep_loads

lemma keep_viz_cells:
  "kp fin_p w (viz_fetch lib w)"
  "kp fin_ep w (viz_read afq_path bundle_path w)"
  "kp fin_ep w (viz_transform deriv_path sft_arc sft_cst w)"
  "kp fin_ep w (viz_bundle_actors arc_t1w cst_t1w w)"
  "kp fin_ep w (viz_slicers t1w w)"
  "kp fin_p w (viz_scene arc_actor cst_actor slicers w)"
  "kp fin_w w (viz_camera scene w)"
  "kp fin_p w (viz_record1 afq_home scene w)"
  "kp fin_ep w (viz_colors arc_t1w cst_t1w scene slicers out_folder w)"
  "kp fin_e w (viz_profiles arc_t1w cst_t1w fa sft_arc sft_cst color_arc color_cst scene slicers out_folder w)"
  "kp fin_e w (viz_rois afq_path t1w_img arc_t1w cst_t1w color_arc color_cst scene slicers out_folder w)"
  "kp fin_e w (viz_figure out_folder w)"
  unfolding viz_fetch_def viz_read_def viz_transform_def viz_bundle_actors_def viz_slicers_def
    viz_scene_def viz_camera_def viz_record1_def viz_colors_def viz_profiles_def viz_rois_def
    viz_figure_def
  by ((rule kp_steps kp_ops | rule kp_pure)+)


lemma keep_viz_first_figure: "kp fin_ep w (viz_first_figure afq_home lib w)"
  unfolding viz_first_figure_def
  by ((rule kp_steps keep_viz_cells [unfolded kp_def fin_p_def fin_w_def, simplified] keep_viz_cells
        | rule kp_pure)+)

lemma keep_viz_notebook: "kp fin_e w (viz_notebook afq_home lib w)"
  unfolding viz_notebook_def
  by ((rule kp_steps keep_viz_cells keep_viz_first_figure | rule kp_pure)+)

lemma keep_slf_cells:
  "kp fin_w w (slf_imports w)"
  "kp fin_p w (slf_fetch lib w)"
  "kp fin_p w (slf_bundles afq_home w)"
  "kp fin_p w (slf_pipeline study_dir bundles w)"
  "kp fin_e w (slf_montage my_afq w)"
  "kp fin_w w (slf_interactive my_afq w)"
  "kp fin_p w (reco_pipeline afq_home w)"
  "kp fin_w w (reco_show my_afq w)"
  unfolding slf_imports_def slf_fetch_def slf_bundles_def slf_pipeline_def slf_montage_def
    slf_interactive_def reco_pipeline_def reco_show_def
  by ((rule kp_steps | rule kp_pure)+)

lemma keep_slf_notebook: "kp fin_e w (slf_notebook afq_home lib w)"
  unfolding slf_notebook_def
  by ((rule kp_steps keep_slf_cells [unfolded kp_def fin_p_def fin_w_def, simplified] keep_slf_cells
        | rule kp_pure)+)

lemma keep_reco_notebook: "kp fin_w w (reco_notebook afq_home w)"
  unfolding reco_notebook_def
  by ((rule kp_steps keep_slf_cells [unfolded kp_def fin_p_def fin_w_def, simplified] keep_slf_cells
        | rule kp_pure)+)

lemma kp_returned:
  "kp fin_e w m \<Longrightarrow> m = Inr w' \<Longrightarrow> images_kept w w'"
  "kp fin_ep w n \<Longrightarrow> n = Inr (r, w') \<Longrightarrow> images_kept w w'"
  "kp fin_p w p \<Longrightarrow> p = (r, w') \<Longrightarrow> images_kept w w'"
  "kp fin_w w x \<Longrightarrow> images_kept w x"
  by (simp_all add: kp_def fin_e_def fin_ep_def fin_p_def fin_w_def)


text \<open>
  Claim C4, as far as it holds. No cell of the visualization notebook changes a NIfTI
  image object that exists when the cell starts, whatever the values of the variables it
  reads; a run of any of the three notebooks returns and leaves every image object that
  existed before it as it was. (Tractograms and the scene are changed in place.)
\<close>

theorem images_are_never_changed:
  assumes "t1w_shape lib ''NDARAA948VFH'' = [nx, ny, nz]"
  shows
   "(\<exists>w'. viz_notebook afq_home lib w = Inr w' \<and> images_kept w w') \<and>
    (\<exists>w'. slf_notebook afq_home lib w = Inr w' \<and> images_kept w w') \<and>
    images_kept w (reco_notebook afq_home w) \<and>
    (\<forall>r w'. viz_read afq_path bundle_path w = Inr (r, w') \<longrightarrow> images_kept w w') \<and>
    (\<forall>r w'. viz_transform deriv_path sft_arc sft_cst w = Inr (r, w') \<longrightarrow> images_kept w w') \<and>
    (\<forall>r w'. viz_bundle_actors arc_t1w cst_t1w w = Inr (r, w') \<longrightarrow> images_kept w w') \<and>
    (\<forall>r w'. viz_slicers t1w w = Inr (r, w') \<longrightarrow> images_kept w w') \<and>
    images_kept w (snd (viz_scene arc_actor cst_actor slicers w)) \<and>
    images_kept w (viz_camera scene w) \<and>
    images_kept w (snd (viz_record1 afq_home scene w)) \<and>
    (\<forall>r w'. viz_colors arc_t1w cst_t1w scene slicers out_folder w = Inr (r, w') \<longrightarrow> images_kept w w') \<and>
    (\<forall>w'. viz_profiles arc_t1w cst_t1w fa sft_arc sft_cst color_arc color_cst scene slicers out_folder w
            = Inr w' \<longrightarrow> images_kept w w') \<and>
    (\<forall>w'. viz_rois afq_path t1w_img arc_t1w cst_t1w color_arc color_cst scene slicers out_folder w
            = Inr w' \<longrightarrow> images_kept w w') \<and>
    (\<forall>w'. viz_figure out_folder w = Inr w' \<longrightarrow> images_kept w w')"
proof -
  from viz_notebook_report [OF assms, of afq_home w] obtain w1 where
    "viz_notebook afq_home lib w = Inr w1"
    by blast
  with keep_viz_notebook [of w afq_home lib] have
    a: "\<exists>w'. viz_notebook afq_home lib w = Inr w' \<and> images_kept w w'"
    by (auto intro: kp_returned)
  from slf_notebook_run [of afq_home lib w] obtain w2 where
    "slf_notebook afq_home lib w = Inr w2"
    by blast
  with keep_slf_notebook [of w afq_home lib] have
    b: "\<exists>w'. slf_notebook afq_home lib w = Inr w' \<and> images_kept w w'"
    by (auto intro: kp_returned)
  have c: "images_kept w (reco_notebook afq_home w)"
    by (rule kp_returned(4) [OF keep_reco_notebook])
  have d: "\<forall>r w'. viz_read afq_path bundle_path w = Inr (r, w') \<longrightarrow> images_kept w w'"
    "\<forall>r w'. viz_transform deriv_path sft_arc sft_cst w = Inr (r, w') \<longrightarrow> images_kept w w'"
    "\<forall>r w'. viz_bundle_actors arc_t1w cst_t1w w = Inr (r, w') \<longrightarrow> images_kept w w'"
    "\<forall>r w'. viz_slicers t1w w = Inr (r, w') \<longrightarrow> images_kept w w'"
    "\<forall>r w'. viz_colors arc_t1w cst_t1w scene slicers out_folder w = Inr (r, w') \<longrightarrow> images_kept w w'"
    using keep_viz_cells(2) [of w afq_path bundle_path]
      keep_viz_cells(3) [of w deriv_path sft_arc sft_cst]
      keep_viz_cells(4) [of w arc_t1w cst_t1w]
      keep_viz_cells(5) [of w t1w]
      keep_viz_cells(9) [of w arc_t1w cst_t1w scene slicers out_folder]
    by (auto intro: kp_returned(2))
  have e: "images_kept w (snd (viz_scene arc_actor cst_actor slicers w))"
    "images_kept w (viz_camera scene w)"
    "images_kept w (snd (viz_record1 afq_home scene w))"
    using keep_viz_cells(6) [of w arc_actor cst_actor slicers] keep_viz_cells(7) [of w scene]
      keep_viz_cells(8) [of w afq_home scene]
    by (simp_all add: kp_def fin_p_def fin_w_def)
  have f: "\<forall>w'. viz_profiles arc_t1w cst_t1w fa sft_arc sft_cst color_arc color_cst scene slicers out_folder w
            = Inr w' \<longrightarrow> images_kept w w'"
    "\<forall>w'. viz_rois afq_path t1w_img arc_t1w cst_t1w color_arc color_cst scene slicers out_folder w
            = Inr w' \<longrightarrow> images_kept w w'"
    "\<forall>w'. viz_figure out_folder w = Inr w' \<longrightarrow> images_kept w w'"
    using keep_viz_cells(10) [of w arc_t1w cst_t1w fa sft_arc sft_cst color_arc color_cst scene slicers out_folder]
      keep_viz_cells(11) [of w afq_path t1w_img arc_t1w cst_t1w color_arc color_cst scene slicers out_folder]
      keep_viz_cells(12) [of w out_folder]
    by (auto intro: kp_returned(1))
  from a b c d e f show ?thesis
    by blast
qed

theorem images_are_never_changed_witness:
  "t1w_shape sample_data ''NDARAA948VFH'' = [200, 240, 180] \<and>
   (\<exists>w'. viz_notebook ''/home/afq'' sample_data (fresh_kernel\<lparr>heap := [Nifti (PStr ''T1w'')]\<rparr>) = Inr w' \<and>
      heap w' ! 0 = Nifti (PStr ''T1w''))"
proof -
  let ?W = "fresh_kernel\<lparr>heap := [Nifti (PStr ''T1w'')]\<rparr>"
  have shape: "t1w_shape sample_data ''NDARAA948VFH'' = [200, 240, 180]"
    by (simp add: sample_data_def)
  from images_are_never_changed [OF shape, of "''/home/afq''" ?W, THEN conjunct1] obtain w' where
    "viz_notebook ''/home/afq'' sample_data ?W = Inr w'" "images_kept ?W w'"
    by blast
  then have "viz_notebook ''/home/afq'' sample_data ?W = Inr w' \<and> heap w' ! 0 = Nifti (PStr ''T1w'')"
    by (simp add: images_kept_def)
  with shape show ?thesis
    by blast
qed

text \<open>
  The cell that draws the tract profiles, started with the two tractograms in RASMM
  coordinates and an empty scene: \<open>sft_arc.to_vox()\<close> has converted the very tractogram
  object to voxel coordinates, and \<open>scene.add\<close> has put four actors into the very scene
  object. Both are instances of the libraries' data models that existed before the cell
  and are not as they were.
\<close>

theorem tractogram_and_scene_changed_in_place:
  "\<exists>w'. viz_profiles (PStr ''arc_t1w'') (PStr ''cst_t1w'') (PStr ''fa'') 0 1 (PStr ''c18'') (PStr ''c2'') 2 []
           ''/out''
           (fresh_kernel\<lparr>heap := [Tractogram RASMM (PStr ''arc''), Tractogram RASMM (PStr ''cst''),
                                    Scene [] PNone]\<rparr>) = Inr w' \<and>
     take 3 (heap w') =
       [Tractogram VOX (PStr ''arc''), Tractogram VOX (PStr ''cst''), Scene [8, 10, 4, 6] PNone]"
  by (simp add: viz_profiles_def guard_record op_defs fresh_kernel_def nth_append
      cong: let_weak_cong bind_err_weak_cong)


end
